theory Spec2Isabelle
  imports Complex_Main "HOL-Library.Word"
begin

unbundle bit_operations_syntax

section \<open>Result codes, aborts and the memory-pool blocks\<close>

text \<open>
  The result taxonomy of the framework that the Data Hub exposes upward.
\<close>

datatype le_result_t =
    LE_OK | LE_NOT_FOUND | LE_NO_MEMORY | LE_FAULT | LE_OVERFLOW
  | LE_DUPLICATE | LE_BAD_PARAMETER | LE_IN_PROGRESS

text \<open>
  A function of the source that does not return: \<open>LE_FATAL\<close>, a failed \<open>LE_ASSERT\<close>
  (both terminate the process; the string is the failed condition or the message), or
  behaviour that C leaves undefined (a NULL or dangling pointer is dereferenced, a union
  member is read that was not the one written). Every model function below returns
  \<open>abort + 'a\<close>, with \<open>Inl\<close> the abort.
\<close>

datatype abort = LE_FATAL string | UNDEFINED string

definition bindA :: "abort + 'a \<Rightarrow> ('a \<Rightarrow> abort + 'b) \<Rightarrow> abort + 'b" where
  "bindA m f = (case m of Inl a \<Rightarrow> Inl a | Inr x \<Rightarrow> f x)"

datatype log_level = LOG_DEBUG | LOG_WARN | LOG_ERR | LOG_CRIT

type_synonym logged = "(log_level \<times> string) list"

text \<open>
  A block of a memory pool: the reference count kept in the block header and the object.
  A pool is the array of its blocks, \<open>None\<close> for a free block; a pointer into the pool is
  the index of the block, and the NULL pointer is \<open>None\<close> of \<open>nat option\<close>.
\<close>

record 'a MemBlock =
  refCount :: nat
  obj :: 'a

type_synonym 'a le_mem_Pool = "'a MemBlock option list"

definition blockAt :: "'a le_mem_Pool \<Rightarrow> nat \<Rightarrow> 'a MemBlock option" where
  "blockAt pool p = (if p < length pool then pool ! p else None)"

text \<open>
  Modelled from the spec: \<open>hub_MemAlloc\<close> (declared in dataHub.h, defined outside the two
  source files) on a pool with static reservation. It hands out a free block of the pool
  or NULL when every block is in use. The model takes the first free block.
\<close>

definition hub_MemAlloc :: "'a le_mem_Pool \<Rightarrow> nat option" where
  "hub_MemAlloc pool = List.find (\<lambda>i. pool ! i = None) [0..<length pool]"

text \<open>
  Modelled from the spec: the UTF-8 copy helper with overflow signalling,
  \<open>le_utf8_Copy(dest, src, destSize, &numBytes)\<close>. The source string fits when its bytes
  and the terminator fit into \<open>destSize\<close>; the result is then the string written and its
  length. On overflow the content of the destination is not tracked here; where the
  program goes on to use it (the path handed to the change handlers), it is a parameter
  of the model.
\<close>

definition le_utf8_Copy :: "string \<Rightarrow> nat \<Rightarrow> le_result_t \<times> string option \<times> nat" where
  "le_utf8_Copy srcStr destSize =
     (if length srcStr < destSize then (LE_OK, Some srcStr, length srcStr)
      else (LE_OVERFLOW, None, 0))"

section \<open>dataSample.c\<close>

text \<open>
  A C \<open>double\<close>, as far as the two files use one: it is stored, passed on, compared with
  \<open>==\<close> and it may be the constant \<open>NAN\<close>. The values are kept as real numbers. The
  arithmetic of the platform on them (binary64, with its rounding) is not defined here:
  the conversion of an integer, the division and the addition that \<open>CreateSample\<close>
  uses are parameters of the model.
\<close>

datatype double = NAN | Val real

definition double_eq :: "double \<Rightarrow> double \<Rightarrow> bool" where
  "double_eq a b = (case (a, b) of (Val x, Val y) \<Rightarrow> x = y | _ \<Rightarrow> False)"

datatype io_DataType_t =
    IO_DATA_TYPE_TRIGGER | IO_DATA_TYPE_BOOLEAN | IO_DATA_TYPE_NUMERIC
  | IO_DATA_TYPE_STRING | IO_DATA_TYPE_JSON

datatype json_DataType_t =
    JSON_TYPE_NULL | JSON_TYPE_BOOLEAN | JSON_TYPE_NUMBER
  | JSON_TYPE_STRING | JSON_TYPE_OBJECT | JSON_TYPE_ARRAY

text \<open>
  \<open>DataSample_t\<close>: the timestamp and the union of values. The union member that was
  written is the constructor; a fresh sample has none (\<open>no_value\<close>). The string pointer
  may be NULL.
\<close>

datatype DataSample_value =
  no_value | boolean bool | numeric double | stringPtr "string option"

record DataSample_t =
  timestamp :: double
  sample_value :: DataSample_value

record le_clk_Time_t =
  sec :: int
  usec :: int

datatype sample_pool = NonStringDataSamplePool | StringBasedDataSamplePool

type_synonym dataSample_Ref_t = "sample_pool \<times> nat"

text \<open>
  The state of the module: the two pools of samples, the pool of strings (its type \<open>'p\<close> is
  left open, the pool belongs to the framework), the reading of the platform clock and the
  log.
\<close>

record 'p Samples =
  NonStringPool :: "DataSample_t le_mem_Pool"
  StringBasedPool :: "DataSample_t le_mem_Pool"
  StringPool :: 'p
  le_clk_GetAbsoluteTime :: le_clk_Time_t
  sample_log :: logged

text \<open>
  What dataSample.c uses and the two files do not define: the \<open>IO_NOW\<close> constant, the
  size of the largest string, the string pool's duplicate and release, the \<open>%lf\<close>
  conversion of \<open>snprintf\<close>, the JSON helper, and the arithmetic of the platform on
  doubles: \<open>double_of_long\<close> is the conversion \<open>(double)\<close> of an integer, \<open>double_div\<close>
  and \<open>double_add\<close> are \<open>/\<close> and \<open>+\<close> on two doubles. They are parameters of the model.
  \<open>json_Extract size json spec\<close> gives the result code, the extracted text and its JSON
  type.
\<close>

record 'p sample_externals =
  IO_NOW :: double
  HUB_MAX_STRING_BYTES :: nat
  le_mem_StrDup :: "'p \<Rightarrow> string \<Rightarrow> 'p option"
  le_mem_Release_string :: "'p \<Rightarrow> string \<Rightarrow> 'p"
  snprintf_lf :: "double \<Rightarrow> string"
  json_Extract :: "nat \<Rightarrow> string \<Rightarrow> string \<Rightarrow> le_result_t \<times> string \<times> json_DataType_t"
  json_ConvertToBoolean :: "string \<Rightarrow> bool"
  json_ConvertToNumber :: "string \<Rightarrow> double"
  double_of_long :: "int \<Rightarrow> double"
  double_div :: "double \<Rightarrow> double \<Rightarrow> double"
  double_add :: "double \<Rightarrow> double \<Rightarrow> double"

definition samplePool :: "'p Samples \<Rightarrow> sample_pool \<Rightarrow> DataSample_t le_mem_Pool" where
  "samplePool st pool =
     (case pool of NonStringDataSamplePool \<Rightarrow> NonStringPool st
      | StringBasedDataSamplePool \<Rightarrow> StringBasedPool st)"

definition samplePool_update ::
  "sample_pool \<Rightarrow> DataSample_t le_mem_Pool \<Rightarrow> 'p Samples \<Rightarrow> 'p Samples" where
  "samplePool_update pool blocks st =
     (case pool of NonStringDataSamplePool \<Rightarrow> st\<lparr>NonStringPool := blocks\<rparr>
      | StringBasedDataSamplePool \<Rightarrow> st\<lparr>StringBasedPool := blocks\<rparr>)"

definition sampleAt :: "'p Samples \<Rightarrow> dataSample_Ref_t \<Rightarrow> DataSample_t MemBlock option" where
  "sampleAt st sampleRef = blockAt (samplePool st (fst sampleRef)) (snd sampleRef)"

definition sample_put ::
  "dataSample_Ref_t \<Rightarrow> DataSample_t MemBlock option \<Rightarrow> 'p Samples \<Rightarrow> 'p Samples" where
  "sample_put sampleRef blk st =
     samplePool_update (fst sampleRef)
       ((samplePool st (fst sampleRef))[snd sampleRef := blk]) st"

text \<open>
  \<open>CreateSample\<close>: a block of the pool with reference count 1, stamped with the timestamp
  given, or with the clock when the timestamp is \<open>IO_NOW\<close>:
  \<open>(((double)(currentTime.usec)) / 1000000) + currentTime.sec\<close>, where the two integer
  operands are converted to double by the rules of C. The value is not set.
\<close>

definition CreateSample ::
  "'p sample_externals \<Rightarrow> 'p Samples \<Rightarrow> sample_pool \<Rightarrow> double
     \<Rightarrow> dataSample_Ref_t option \<times> 'p Samples" where
  "CreateSample X st pool ts =
     (case hub_MemAlloc (samplePool st pool) of
        None \<Rightarrow>
          (None, st\<lparr>sample_log := sample_log st
             @ [(LOG_ERR, ''Failed to allocate space for a datasample'')]\<rparr>)
      | Some i \<Rightarrow>
          (let currentTime = le_clk_GetAbsoluteTime st;
               ts' = (if double_eq ts (IO_NOW X)
                      then double_add X
                             (double_div X (double_of_long X (usec currentTime))
                                (double_of_long X 1000000))
                             (double_of_long X (sec currentTime))
                      else ts)
           in (Some (pool, i),
               sample_put (pool, i)
                 (Some \<lparr>refCount = 1,
                        obj = \<lparr>timestamp = ts', sample_value = no_value\<rparr>\<rparr>) st)))"

definition set_sample_value :: "dataSample_Ref_t \<Rightarrow> DataSample_value \<Rightarrow> 'p Samples \<Rightarrow> 'p Samples" where
  "set_sample_value sampleRef v st =
     (case sampleAt st sampleRef of
        None \<Rightarrow> st
      | Some blk \<Rightarrow> sample_put sampleRef (Some (blk\<lparr>obj := (obj blk)\<lparr>sample_value := v\<rparr>\<rparr>)) st)"

definition dataSample_GetTimestamp :: "'p Samples \<Rightarrow> dataSample_Ref_t \<Rightarrow> abort + double" where
  "dataSample_GetTimestamp st sampleRef =
     (case sampleAt st sampleRef of
        None \<Rightarrow> Inl (UNDEFINED ''sampleRef'')
      | Some blk \<Rightarrow> Inr (timestamp (obj blk)))"

definition dataSample_SetTimestamp ::
  "'p Samples \<Rightarrow> dataSample_Ref_t \<Rightarrow> double \<Rightarrow> abort + 'p Samples" where
  "dataSample_SetTimestamp st sample ts =
     (case sampleAt st sample of
        None \<Rightarrow> Inl (UNDEFINED ''sample'')
      | Some blk \<Rightarrow> Inr (sample_put sample (Some (blk\<lparr>obj := (obj blk)\<lparr>timestamp := ts\<rparr>\<rparr>)) st))"

text \<open>
  The getters read one member of the union; the caller has to know which one was written.
\<close>

definition dataSample_GetBoolean :: "'p Samples \<Rightarrow> dataSample_Ref_t \<Rightarrow> abort + bool" where
  "dataSample_GetBoolean st sampleRef =
     (case sampleAt st sampleRef of
        None \<Rightarrow> Inl (UNDEFINED ''sampleRef'')
      | Some blk \<Rightarrow>
          (case sample_value (obj blk) of
             boolean b \<Rightarrow> Inr b
           | _ \<Rightarrow> Inl (UNDEFINED ''value.boolean'')))"

definition dataSample_GetNumeric :: "'p Samples \<Rightarrow> dataSample_Ref_t \<Rightarrow> abort + double" where
  "dataSample_GetNumeric st sampleRef =
     (case sampleAt st sampleRef of
        None \<Rightarrow> Inl (UNDEFINED ''sampleRef'')
      | Some blk \<Rightarrow>
          (case sample_value (obj blk) of
             numeric d \<Rightarrow> Inr d
           | _ \<Rightarrow> Inl (UNDEFINED ''value.numeric'')))"

definition dataSample_GetString ::
  "'p Samples \<Rightarrow> dataSample_Ref_t \<Rightarrow> abort + string option" where
  "dataSample_GetString st sampleRef =
     (case sampleAt st sampleRef of
        None \<Rightarrow> Inl (UNDEFINED ''sampleRef'')
      | Some blk \<Rightarrow>
          (case sample_value (obj blk) of
             stringPtr s \<Rightarrow> Inr s
           | _ \<Rightarrow> Inl (UNDEFINED ''value.stringPtr'')))"

definition dataSample_GetJson ::
  "'p Samples \<Rightarrow> dataSample_Ref_t \<Rightarrow> abort + string option" where
  "dataSample_GetJson st sampleRef = dataSample_GetString st sampleRef"

text \<open>
  \<open>StringSampleDestructor\<close>, the destructor of the pool of string based samples: it
  releases the string of the sample, if there is one.
\<close>

definition StringSampleDestructor ::
  "'p sample_externals \<Rightarrow> 'p Samples \<Rightarrow> dataSample_Ref_t \<Rightarrow> abort + 'p Samples" where
  "StringSampleDestructor X st samplePtr =
     bindA (dataSample_GetString st samplePtr) (\<lambda>strValue.
       case strValue of
         None \<Rightarrow> Inr st
       | Some s \<Rightarrow> Inr (st\<lparr>StringPool := le_mem_Release_string X (StringPool st) s\<rparr>))"

text \<open>
  Modelled from the spec: \<open>le_mem_Release\<close> on a sample. Samples are shared through their
  reference count; the last releaser runs the destructor of the pool and the block is free
  again. Releasing a block that is not in use is fatal.
\<close>

definition le_mem_Release_sample ::
  "'p sample_externals \<Rightarrow> 'p Samples \<Rightarrow> dataSample_Ref_t \<Rightarrow> abort + 'p Samples" where
  "le_mem_Release_sample X st sampleRef =
     (case sampleAt st sampleRef of
        None \<Rightarrow> Inl (LE_FATAL ''Releasing free block'')
      | Some blk \<Rightarrow>
          if refCount blk = 0 then Inl (LE_FATAL ''Releasing free block'')
          else if refCount blk = 1 then
            bindA (if fst sampleRef = StringBasedDataSamplePool
                   then StringSampleDestructor X st sampleRef else Inr st)
              (\<lambda>st1. Inr (sample_put sampleRef None st1))
          else Inr (sample_put sampleRef (Some (blk\<lparr>refCount := refCount blk - 1\<rparr>)) st))"

definition dataSample_CreateTrigger ::
  "'p sample_externals \<Rightarrow> 'p Samples \<Rightarrow> double \<Rightarrow> dataSample_Ref_t option \<times> 'p Samples" where
  "dataSample_CreateTrigger X st ts = CreateSample X st NonStringDataSamplePool ts"

definition dataSample_CreateBoolean ::
  "'p sample_externals \<Rightarrow> 'p Samples \<Rightarrow> double \<Rightarrow> bool
     \<Rightarrow> dataSample_Ref_t option \<times> 'p Samples" where
  "dataSample_CreateBoolean X st ts v =
     (case CreateSample X st NonStringDataSamplePool ts of
        (None, st1) \<Rightarrow> (None, st1)
      | (Some samplePtr, st1) \<Rightarrow> (Some samplePtr, set_sample_value samplePtr (boolean v) st1))"

definition dataSample_CreateNumeric ::
  "'p sample_externals \<Rightarrow> 'p Samples \<Rightarrow> double \<Rightarrow> double
     \<Rightarrow> dataSample_Ref_t option \<times> 'p Samples" where
  "dataSample_CreateNumeric X st ts v =
     (case CreateSample X st NonStringDataSamplePool ts of
        (None, st1) \<Rightarrow> (None, st1)
      | (Some samplePtr, st1) \<Rightarrow> (Some samplePtr, set_sample_value samplePtr (numeric v) st1))"

text \<open>
  \<open>dataSample_CreateString\<close>: the pointer that the duplicate returns is stored in the
  sample; when it is NULL the sample is released again and NULL is returned.
\<close>

definition dataSample_CreateString ::
  "'p sample_externals \<Rightarrow> 'p Samples \<Rightarrow> double \<Rightarrow> string
     \<Rightarrow> abort + (dataSample_Ref_t option \<times> 'p Samples)" where
  "dataSample_CreateString X st ts v =
     (case CreateSample X st StringBasedDataSamplePool ts of
        (None, st1) \<Rightarrow> Inr (None, st1)
      | (Some samplePtr, st1) \<Rightarrow>
          (case le_mem_StrDup X (StringPool st1) v of
             Some sp \<Rightarrow>
               Inr (Some samplePtr,
                    set_sample_value samplePtr (stringPtr (Some v)) (st1\<lparr>StringPool := sp\<rparr>))
           | None \<Rightarrow>
               (let st2 = set_sample_value samplePtr (stringPtr None) st1;
                    st3 = st2\<lparr>sample_log := sample_log st2
                            @ [(LOG_ERR, ''Could not allocate space for string of size'')]\<rparr>
                in bindA (le_mem_Release_sample X st3 samplePtr) (\<lambda>st4. Inr (None, st4)))))"

definition dataSample_CreateJson ::
  "'p sample_externals \<Rightarrow> 'p Samples \<Rightarrow> double \<Rightarrow> string
     \<Rightarrow> abort + (dataSample_Ref_t option \<times> 'p Samples)" where
  "dataSample_CreateJson X st ts v = dataSample_CreateString X st ts v"

text \<open>
  \<open>snprintf(buf, size, text)\<close> returns the length of the text; the source compares it with
  the size cast to \<open>int\<close>. The cast keeps the low 32 bits of the size, read as signed.
\<close>

definition int_cast :: "nat \<Rightarrow> int" where
  "int_cast n = sint (word_of_nat n :: 32 word)"

text \<open>
  \<open>dataSample_ConvertToJson\<close>. The result is the code and the text left in the buffer
  (\<open>None\<close> when the buffer overflowed: its content is then unspecified). The copy helper
  must not be given a NULL string.
\<close>

definition copy_string ::
  "string option \<Rightarrow> nat \<Rightarrow> abort + (le_result_t \<times> string option \<times> nat)" where
  "copy_string s destSize =
     (case s of None \<Rightarrow> Inl (LE_FATAL ''srcStr != NULL'') | Some str \<Rightarrow> Inr (le_utf8_Copy str destSize))"

definition dataSample_ConvertToJson ::
  "'p sample_externals \<Rightarrow> 'p Samples \<Rightarrow> dataSample_Ref_t \<Rightarrow> io_DataType_t \<Rightarrow> nat
     \<Rightarrow> abort + (le_result_t \<times> string option)" where
  "dataSample_ConvertToJson X st sampleRef dataType valueBuffSize =
     (case dataType of
        IO_DATA_TYPE_TRIGGER \<Rightarrow>
          (case le_utf8_Copy ''null'' valueBuffSize of (r, buf, _) \<Rightarrow> Inr (r, buf))
      | IO_DATA_TYPE_BOOLEAN \<Rightarrow>
          bindA (dataSample_GetBoolean st sampleRef) (\<lambda>b.
            let text = (if b then ''true'' else ''false'');
                i = int (length text)
            in if i \<ge> int_cast valueBuffSize then Inr (LE_OVERFLOW, None)
               else Inr (LE_OK, Some text))
      | IO_DATA_TYPE_NUMERIC \<Rightarrow>
          bindA (dataSample_GetNumeric st sampleRef) (\<lambda>d.
            if int_cast valueBuffSize \<le> int (length (snprintf_lf X d))
            then Inr (LE_OVERFLOW, None)
            else Inr (LE_OK, Some (snprintf_lf X d)))
      | IO_DATA_TYPE_STRING \<Rightarrow>
          if valueBuffSize < 3 then Inr (LE_OVERFLOW, None)
          else
            bindA (dataSample_GetString st sampleRef) (\<lambda>s.
              bindA (copy_string s (valueBuffSize - 1)) (\<lambda>(result, buf, len).
                if result \<noteq> LE_OK \<or> len \<ge> (valueBuffSize - 1) - 1
                then Inr (LE_OVERFLOW, None)
                else Inr (LE_OK, map_option (\<lambda>b. CHR 0x22 # take len b @ [CHR 0x22]) buf)))
      | IO_DATA_TYPE_JSON \<Rightarrow>
          bindA (dataSample_GetString st sampleRef) (\<lambda>s.
            bindA (copy_string s valueBuffSize) (\<lambda>(r, buf, _). Inr (r, buf))))"

definition dataSample_ConvertToString ::
  "'p sample_externals \<Rightarrow> 'p Samples \<Rightarrow> dataSample_Ref_t \<Rightarrow> io_DataType_t \<Rightarrow> nat
     \<Rightarrow> abort + (le_result_t \<times> string option)" where
  "dataSample_ConvertToString X st sampleRef dataType valueBuffSize =
     (if dataType = IO_DATA_TYPE_STRING
      then bindA (dataSample_GetString st sampleRef) (\<lambda>s.
             bindA (copy_string s valueBuffSize) (\<lambda>(r, buf, _). Inr (r, buf)))
      else dataSample_ConvertToJson X st sampleRef dataType valueBuffSize)"

text \<open>
  \<open>dataSample_ExtractJson\<close>. The result is the pointer returned (NULL on failure), what was
  written through \<open>dataTypePtr\<close> (\<open>None\<close> when nothing was written) and the new state.
\<close>

definition dataSample_ExtractJson ::
  "'p sample_externals \<Rightarrow> 'p Samples \<Rightarrow> dataSample_Ref_t \<Rightarrow> string
     \<Rightarrow> abort + (dataSample_Ref_t option \<times> io_DataType_t option \<times> 'p Samples)" where
  "dataSample_ExtractJson X st sampleRef extractionSpec =
     bindA (dataSample_GetJson st sampleRef) (\<lambda>json.
       case json of
         None \<Rightarrow> Inl (UNDEFINED ''json'')
       | Some js \<Rightarrow>
           (case json_Extract X (HUB_MAX_STRING_BYTES X) js extractionSpec of
              (result, resultBuff, jsonType) \<Rightarrow>
                if result \<noteq> LE_OK
                then Inr (None, None,
                          st\<lparr>sample_log := sample_log st @ [(LOG_WARN, ''Failed to extract'')]\<rparr>)
                else
                  bindA (dataSample_GetTimestamp st sampleRef) (\<lambda>ts.
                    case jsonType of
                      JSON_TYPE_NULL \<Rightarrow>
                        (case dataSample_CreateTrigger X st ts of
                           (r, st1) \<Rightarrow> Inr (r, Some IO_DATA_TYPE_TRIGGER, st1))
                    | JSON_TYPE_BOOLEAN \<Rightarrow>
                        (case dataSample_CreateBoolean X st ts (json_ConvertToBoolean X resultBuff) of
                           (r, st1) \<Rightarrow> Inr (r, Some IO_DATA_TYPE_BOOLEAN, st1))
                    | JSON_TYPE_NUMBER \<Rightarrow>
                        (case dataSample_CreateNumeric X st ts (json_ConvertToNumber X resultBuff) of
                           (r, st1) \<Rightarrow> Inr (r, Some IO_DATA_TYPE_NUMERIC, st1))
                    | JSON_TYPE_STRING \<Rightarrow>
                        bindA (dataSample_CreateString X st ts resultBuff)
                          (\<lambda>(r, st1). Inr (r, Some IO_DATA_TYPE_STRING, st1))
                    | JSON_TYPE_OBJECT \<Rightarrow>
                        bindA (dataSample_CreateJson X st ts resultBuff)
                          (\<lambda>(r, st1). Inr (r, Some IO_DATA_TYPE_JSON, st1))
                    | JSON_TYPE_ARRAY \<Rightarrow>
                        bindA (dataSample_CreateJson X st ts resultBuff)
                          (\<lambda>(r, st1). Inr (r, Some IO_DATA_TYPE_JSON, st1)))))"

section \<open>resTree.c: entries and the pool\<close>

datatype admin_EntryType_t =
    ADMIN_ENTRY_TYPE_NONE | ADMIN_ENTRY_TYPE_NAMESPACE | ADMIN_ENTRY_TYPE_PLACEHOLDER
  | ADMIN_ENTRY_TYPE_INPUT | ADMIN_ENTRY_TYPE_OUTPUT | ADMIN_ENTRY_TYPE_OBSERVATION

datatype admin_ResourceOperationType_t = ADMIN_RESOURCE_ADDED | ADMIN_RESOURCE_REMOVED

text \<open>
  The union of an entry: the flags of a namespace or the pointer to the Resource object.
\<close>

datatype Entry_u = flags "32 word" | resourcePtr "nat option"

text \<open>
  \<open>Entry_t\<close>. The link of the entry into its parent's list of children is its membership
  in the parent's \<open>childList\<close>, the list of the children's pointers in list order.
\<close>

record Entry_t =
  parentPtr :: "nat option"
  name :: string
  childList :: "nat list"
  type :: admin_EntryType_t
  u :: Entry_u

text \<open>
  Modelled from the spec: the snapshot flags of a namespace (resource.h is not among the
  source files), a bitset of four distinct bits.
\<close>

definition RES_FLAG_NEW :: "32 word" where "RES_FLAG_NEW = 0x1"
definition RES_FLAG_RELEVANT :: "32 word" where "RES_FLAG_RELEVANT = 0x2"
definition RES_FLAG_CLEAR_NEW :: "32 word" where "RES_FLAG_CLEAR_NEW = 0x4"
definition RES_FLAG_DELETED :: "32 word" where "RES_FLAG_DELETED = 0x8"

definition DEFAULT_RESOURCE_TREE_ENTRY_POOL_SIZE :: nat where
  "DEFAULT_RESOURCE_TREE_ENTRY_POOL_SIZE = 10"

text \<open>
  The state of the module: the pool of entries and the root pointer; with them the state
  \<open>'g\<close> of the Resource engine (the \<open>res_\<close> functions, an external interface) and the log.
  A logged message is its level and its fixed text; the formatted arguments are left out.
\<close>

record 'g Hub =
  EntryPool :: "Entry_t le_mem_Pool"
  RootPtr :: "nat option"
  res :: 'g
  hub_log :: logged

text \<open>
  What resTree.c uses and the two files do not define. The two limits come from dataHub.h,
  the path check from dataHub.c; the \<open>res_\<close> functions and the change handlers of the
  admin facade work on the state of the Resource engine and do not touch the tree. A
  placeholder constructor returns the pointer to the new Resource, or NULL.
  \<open>le_utf8_Copy_truncated src destSize\<close> is the text that \<open>le_utf8_Copy\<close> leaves in a
  destination of \<open>destSize\<close> bytes when \<open>src\<close> does not fit, \<open>None\<close> when it writes nothing.
\<close>

record 'g tree_externals =
  HUB_MAX_ENTRY_NAME_BYTES :: nat
  HUB_MAX_RESOURCE_PATH_BYTES :: nat
  hub_IsResourcePathMalformed :: "string \<Rightarrow> bool"
  res_CreateObsPlaceholder :: "'g \<Rightarrow> nat \<Rightarrow> nat option \<times> 'g"
  res_CreateIoPlaceholder :: "'g \<Rightarrow> nat \<Rightarrow> nat option \<times> 'g"
  res_ConvertPlaceholderToInput :: "'g \<Rightarrow> nat option \<Rightarrow> io_DataType_t \<Rightarrow> string \<Rightarrow> 'g"
  res_ConvertPlaceholderToOutput :: "'g \<Rightarrow> nat option \<Rightarrow> io_DataType_t \<Rightarrow> string \<Rightarrow> 'g"
  res_ConvertPlaceholderToObs :: "'g \<Rightarrow> nat option \<Rightarrow> 'g"
  res_RestoreBackup :: "'g \<Rightarrow> nat option \<Rightarrow> 'g"
  admin_CallResourceTreeChangeHandlers ::
    "'g \<Rightarrow> string option \<Rightarrow> admin_EntryType_t \<Rightarrow> admin_ResourceOperationType_t \<Rightarrow> 'g"
  le_utf8_Copy_truncated :: "string \<Rightarrow> nat \<Rightarrow> string option"

definition entryAt :: "'g Hub \<Rightarrow> nat \<Rightarrow> Entry_t MemBlock option" where
  "entryAt hub p = blockAt (EntryPool hub) p"

definition entry_put :: "nat \<Rightarrow> Entry_t MemBlock option \<Rightarrow> 'g Hub \<Rightarrow> 'g Hub" where
  "entry_put p blk hub = hub\<lparr>EntryPool := (EntryPool hub)[p := blk]\<rparr>"

definition log_msg :: "log_level \<Rightarrow> string \<Rightarrow> 'g Hub \<Rightarrow> 'g Hub" where
  "log_msg lvl msg hub = hub\<lparr>hub_log := hub_log hub @ [(lvl, msg)]\<rparr>"

text \<open>
  Functions that release entries may not return at all (the destructor of an entry
  releases the parent, and so on upward). Their result is \<open>None\<close> when they run forever.
  The release works on the pool of entries alone.
\<close>

type_synonym 'a outcome = "(abort + 'a) option"

definition ret :: "'a \<Rightarrow> 'a outcome" where
  "ret x = Some (Inr x)"

definition stop :: "abort \<Rightarrow> 'a outcome" where
  "stop a = Some (Inl a)"

definition bindO :: "'a outcome \<Rightarrow> ('a \<Rightarrow> 'b outcome) \<Rightarrow> 'b outcome" where
  "bindO m f = (case m of None \<Rightarrow> None | Some (Inl a) \<Rightarrow> Some (Inl a) | Some (Inr x) \<Rightarrow> f x)"

subsection \<open>Flags and children\<close>

definition resTree_IsDeleted :: "'g Hub \<Rightarrow> nat \<Rightarrow> abort + bool" where
  "resTree_IsDeleted hub resEntry =
     (case entryAt hub resEntry of
        None \<Rightarrow> Inl (UNDEFINED ''resEntry'')
      | Some blk \<Rightarrow>
          if type (obj blk) = ADMIN_ENTRY_TYPE_NAMESPACE
          then (case u (obj blk) of
                  flags f \<Rightarrow> Inr (f AND RES_FLAG_DELETED \<noteq> 0)
                | resourcePtr _ \<Rightarrow> Inl (UNDEFINED ''u.flags''))
          else Inr False)"

text \<open>
  \<open>strncmp(a, b, n) == 0\<close> on strings without a NUL inside: the first \<open>n\<close> bytes agree.
\<close>

definition strncmp_eq :: "string \<Rightarrow> string \<Rightarrow> nat \<Rightarrow> bool" where
  "strncmp_eq a b n = (take n a = take n b)"

text \<open>
  \<open>resTree_FindChildEx\<close>: the loop over the list of children, from the first link on.
\<close>

fun FindChildEx_loop ::
  "'g tree_externals \<Rightarrow> 'g Hub \<Rightarrow> nat list \<Rightarrow> string \<Rightarrow> bool \<Rightarrow> abort + nat option" where
  "FindChildEx_loop X hub [] nm withZombies = Inr None"
| "FindChildEx_loop X hub (childPtr # links) nm withZombies =
     (case entryAt hub childPtr of
        None \<Rightarrow> Inl (UNDEFINED ''childPtr'')
      | Some blk \<Rightarrow>
          (case (if withZombies then Inr True
                 else (case resTree_IsDeleted hub childPtr of
                         Inl a \<Rightarrow> Inl a | Inr d \<Rightarrow> Inr (\<not> d))) of
             Inl a \<Rightarrow> Inl a
           | Inr consider \<Rightarrow>
               if consider \<and> strncmp_eq nm (name (obj blk)) (HUB_MAX_ENTRY_NAME_BYTES X)
               then Inr (Some childPtr)
               else FindChildEx_loop X hub links nm withZombies))"

definition resTree_FindChildEx ::
  "'g tree_externals \<Rightarrow> 'g Hub \<Rightarrow> nat \<Rightarrow> string \<Rightarrow> bool \<Rightarrow> abort + nat option" where
  "resTree_FindChildEx X hub nsRef nm withZombies =
     (case entryAt hub nsRef of
        None \<Rightarrow> Inl (UNDEFINED ''nsRef'')
      | Some blk \<Rightarrow> FindChildEx_loop X hub (childList (obj blk)) nm withZombies)"

definition resTree_FindChild ::
  "'g tree_externals \<Rightarrow> 'g Hub \<Rightarrow> nat \<Rightarrow> string \<Rightarrow> abort + nat option" where
  "resTree_FindChild X hub nsRef nm = resTree_FindChildEx X hub nsRef nm False"

subsection \<open>AddChild and the destructor\<close>

text \<open>
  \<open>AddChild\<close>. A new entry takes a block of the pool (reference count 1), gets the name,
  an empty list of children and the namespace type, takes a count on the parent and is
  queued at the end of its children. An existing entry (a deleted namespace that is
  resurrected) is checked only. Either way the flags become \<open>RES_FLAG_NEW\<close>. With no
  parent given (the root) the parent pointer of the new entry is NULL. \<open>AddChild_link\<close>
  is the branch for a parent, \<open>AddChild_resurrect\<close> the branch for an existing entry.
\<close>

definition AddChild_link ::
  "'g tree_externals \<Rightarrow> 'g Hub \<Rightarrow> nat \<Rightarrow> string \<Rightarrow> nat \<Rightarrow> abort + 'g Hub" where
  "AddChild_link X hub1 par nm e =
     bindA (resTree_FindChildEx X hub1 par nm True) (\<lambda>found.
       if found \<noteq> None
       then Inl (LE_FATAL ''resTree_FindChildEx(parentPtr, name, true) == NULL'')
       else
         (case entryAt hub1 par of
            None \<Rightarrow> Inl (UNDEFINED ''parentPtr'')
          | Some pb \<Rightarrow>
              (let hub2 = entry_put par
                     (Some (pb\<lparr>refCount := refCount pb + 1,
                               obj := (obj pb)\<lparr>childList := childList (obj pb) @ [e]\<rparr>\<rparr>)) hub1
               in case entryAt hub2 e of
                    None \<Rightarrow> Inl (UNDEFINED ''entryPtr'')
                  | Some eb \<Rightarrow>
                      Inr (entry_put e
                             (Some (eb\<lparr>obj := (obj eb)\<lparr>parentPtr := Some par\<rparr>\<rparr>)) hub2))))"

definition AddChild_resurrect ::
  "'g Hub \<Rightarrow> nat option \<Rightarrow> nat \<Rightarrow> abort + 'g Hub" where
  "AddChild_resurrect hub parent e =
     (case entryAt hub e of
        None \<Rightarrow> Inl (UNDEFINED ''entryPtr'')
      | Some eb \<Rightarrow>
          if type (obj eb) \<noteq> ADMIN_ENTRY_TYPE_NAMESPACE
          then Inl (LE_FATAL ''entryPtr->type == ADMIN_ENTRY_TYPE_NAMESPACE'')
          else if parentPtr (obj eb) \<noteq> parent
          then Inl (LE_FATAL ''entryPtr->parentPtr == parentPtr'')
          else if childList (obj eb) \<noteq> []
          then Inl (LE_FATAL ''le_dls_IsEmpty(&entryPtr->childList)'')
          else Inr (entry_put e (Some (eb\<lparr>obj := (obj eb)\<lparr>u := flags RES_FLAG_NEW\<rparr>\<rparr>)) hub))"

definition AddChild ::
  "'g tree_externals \<Rightarrow> 'g Hub \<Rightarrow> nat option \<Rightarrow> string \<Rightarrow> nat option
     \<Rightarrow> abort + (nat option \<times> 'g Hub)" where
  "AddChild X hub parent nm entryPtr =
     (case entryPtr of
        Some e \<Rightarrow> bindA (AddChild_resurrect hub parent e) (\<lambda>hub1. Inr (Some e, hub1))
      | None \<Rightarrow>
          (case hub_MemAlloc (EntryPool hub) of
             None \<Rightarrow> Inr (None, log_msg LOG_ERR ''Failed to allocate memory in AddChild'' hub)
           | Some e \<Rightarrow>
               if \<not> length nm < HUB_MAX_ENTRY_NAME_BYTES X
               then Inl (LE_FATAL ''le_utf8_Copy(entryPtr->name, name, sizeof(entryPtr->name), NULL)'')
               else
                 (let hub1 = entry_put e
                       (Some \<lparr>refCount = 1,
                              obj = \<lparr>parentPtr = None, name = nm, childList = [],
                                     type = ADMIN_ENTRY_TYPE_NAMESPACE,
                                     u = flags RES_FLAG_NEW\<rparr>\<rparr>) hub
                  in case parent of
                       None \<Rightarrow> Inr (Some e, hub1)
                     | Some par \<Rightarrow>
                         bindA (AddChild_link X hub1 par nm e) (\<lambda>hub2. Inr (Some e, hub2)))))"

text \<open>
  Modelled from the spec: \<open>le_mem_Release\<close> on an entry, with \<open>EntryDestructor\<close> as the
  destructor of the pool. A count above one is decremented. The last release runs the
  destructor, which unlinks the entry from its parent's children and releases the parent,
  and then the block is free again. Releasing a block that is not in use is fatal.
\<close>

partial_function (option) le_mem_Release_Entry ::
  "Entry_t le_mem_Pool \<Rightarrow> nat \<Rightarrow> Entry_t le_mem_Pool outcome" where
  "le_mem_Release_Entry pool entryPtr =
     (case blockAt pool entryPtr of
        None \<Rightarrow> Some (Inl (LE_FATAL ''Releasing free block''))
      | Some blk \<Rightarrow>
          if refCount blk = 0 then Some (Inl (LE_FATAL ''Releasing free block''))
          else if refCount blk \<noteq> 1
          then Some (Inr (pool[entryPtr := Some (blk\<lparr>refCount := refCount blk - 1\<rparr>)]))
          else
            (case parentPtr (obj blk) of
               None \<Rightarrow> Some (Inl (LE_FATAL ''entryPtr->parentPtr != NULL''))
             | Some par \<Rightarrow>
                 if childList (obj blk) \<noteq> []
                 then Some (Inl (LE_FATAL ''le_dls_IsEmpty(&entryPtr->childList)''))
                 else
                   (case blockAt pool par of
                      None \<Rightarrow> Some (Inl (UNDEFINED ''entryPtr->parentPtr''))
                    | Some pb \<Rightarrow>
                        Option.bind
                          (le_mem_Release_Entry
                             (pool[par := Some (pb\<lparr>obj := (obj pb)\<lparr>childList :=
                                               remove1 entryPtr (childList (obj pb))\<rparr>\<rparr>)])
                             par)
                          (\<lambda>r. case r of
                                  Inl a \<Rightarrow> Some (Inl a)
                                | Inr pool1 \<Rightarrow> Some (Inr (pool1[entryPtr := None]))))))"

declare le_mem_Release_Entry.simps [code]

text \<open>
  \<open>resTree_Init\<close>: the pool with all its blocks free, and the root namespace.
\<close>

definition resTree_Init :: "'g tree_externals \<Rightarrow> 'g \<Rightarrow> abort + 'g Hub" where
  "resTree_Init X g =
     bindA (AddChild X
              \<lparr>EntryPool = replicate DEFAULT_RESOURCE_TREE_ENTRY_POOL_SIZE None,
               RootPtr = None, res = g, hub_log = []\<rparr> None [] None)
       (\<lambda>(r, hub1). case r of
           None \<Rightarrow> Inl (LE_FATAL ''RootPtr'')
         | Some e \<Rightarrow> Inr (hub1\<lparr>RootPtr := Some e\<rparr>))"

definition resTree_IsResource :: "'g Hub \<Rightarrow> nat \<Rightarrow> abort + bool" where
  "resTree_IsResource hub entryRef =
     (case entryAt hub entryRef of
        None \<Rightarrow> Inl (UNDEFINED ''entryRef'')
      | Some blk \<Rightarrow>
          if type (obj blk) = ADMIN_ENTRY_TYPE_NAMESPACE then Inr False
          else (case u (obj blk) of
                  resourcePtr p \<Rightarrow> Inr (p \<noteq> None)
                | flags _ \<Rightarrow> Inl (UNDEFINED ''u.resourcePtr'')))"

definition resTree_GetRoot :: "'g Hub \<Rightarrow> nat option" where
  "resTree_GetRoot hub = RootPtr hub"

section \<open>resTree.c: walking a path\<close>

text \<open>
  A path is the C string without its terminator. The loops of \<open>FindEntry\<close> and
  \<open>CreateEntry\<close> keep an index into the path; the model keeps the rest of the path from
  that index on. \<open>skipSlash\<close> steps over a slash at the index, \<open>nextName\<close> is the text up
  to the terminator found by \<open>strchrnul\<close> (the next slash or the end), \<open>afterName\<close> the
  rest from the terminator on.
\<close>

definition skipSlash :: "string \<Rightarrow> string" where
  "skipSlash path = (case path of [] \<Rightarrow> [] | c # cs \<Rightarrow> if c = CHR ''/'' then cs else path)"

definition nextName :: "string \<Rightarrow> string" where
  "nextName path = takeWhile (\<lambda>c. c \<noteq> CHR ''/'') (skipSlash path)"

definition afterName :: "string \<Rightarrow> string" where
  "afterName path = dropWhile (\<lambda>c. c \<noteq> CHR ''/'') (skipSlash path)"

function FindEntry_loop ::
  "'g tree_externals \<Rightarrow> 'g Hub \<Rightarrow> nat \<Rightarrow> string \<Rightarrow> abort + nat option" where
  "FindEntry_loop X hub currentEntry path =
     (if path = [] then Inr (Some currentEntry)
      else if nextName path = [] then Inl (LE_FATAL ''nameLen != 0'')
      else if \<not> length (nextName path) < HUB_MAX_ENTRY_NAME_BYTES X
      then Inl (LE_FATAL ''nameLen < sizeof(entryName)'')
      else
        (case resTree_FindChildEx X hub currentEntry (nextName path) True of
           Inl a \<Rightarrow> Inl a
         | Inr None \<Rightarrow> Inr None
         | Inr (Some childPtr) \<Rightarrow>
             (case resTree_IsDeleted hub childPtr of
                Inl a \<Rightarrow> Inl a
              | Inr deleted \<Rightarrow>
                  if deleted then Inr None
                  else FindEntry_loop X hub childPtr (afterName path))))"
  by pat_completeness auto
termination
proof -
  have shorter: "length (afterName path) < length path" if ne: "nextName path \<noteq> []"
    for path
  proof -
    have parts: "length (nextName path) + length (afterName path) = length (skipSlash path)"
      unfolding nextName_def afterName_def
      by (metis length_append takeWhile_dropWhile_id)
    have "length (skipSlash path) \<le> length path"
      by (simp add: skipSlash_def split: list.split)
    with parts ne show ?thesis by (cases "nextName path") auto
  qed
  show ?thesis
    by (relation "measure (\<lambda>(X, hub, currentEntry, path). length path)")
       (auto simp: shorter)
qed

declare FindEntry_loop.simps [simp del]

definition FindEntry ::
  "'g tree_externals \<Rightarrow> 'g Hub \<Rightarrow> nat \<Rightarrow> string \<Rightarrow> abort + nat option" where
  "FindEntry X hub baseNamespace path = FindEntry_loop X hub baseNamespace path"

text \<open>
  The loop of \<open>CreateEntry\<close> either returns the entry at the end of the path or jumps to
  the cleanup with the current entry and the first new entry.
\<close>

datatype 'g CreateEntry_exit =
    Returned nat "'g Hub"
  | Cleanup nat "nat option" "'g Hub"

function CreateEntry_loop ::
  "'g tree_externals \<Rightarrow> 'g Hub \<Rightarrow> nat \<Rightarrow> nat option \<Rightarrow> string
     \<Rightarrow> abort + 'g CreateEntry_exit" where
  "CreateEntry_loop X hub currentEntry firstNewEntry path =
     (if path = [] then Inr (Returned currentEntry hub)
      else if nextName path = [] then Inl (LE_FATAL ''nameLen != 0'')
      else if \<not> length (nextName path) < HUB_MAX_ENTRY_NAME_BYTES X
      then Inl (LE_FATAL ''nameLen < sizeof(entryName)'')
      else
        (case resTree_FindChildEx X hub currentEntry (nextName path) True of
           Inl a \<Rightarrow> Inl a
         | Inr childPtr \<Rightarrow>
             if childPtr \<noteq> None \<and> afterName path = []
             then Inl (LE_FATAL ''Attempting to create anentry that already exists'')
             else
               (case (case childPtr of
                        None \<Rightarrow> Inr True
                      | Some c \<Rightarrow> resTree_IsDeleted hub c) of
                  Inl a \<Rightarrow> Inl a
                | Inr missing \<Rightarrow>
                    if missing then
                      (case AddChild X hub (Some currentEntry) (nextName path) childPtr of
                         Inl a \<Rightarrow> Inl a
                       | Inr (None, hub1) \<Rightarrow>
                           Inr (Cleanup currentEntry firstNewEntry
                                  (log_msg LOG_ERR ''Failed to add child, path'' hub1))
                       | Inr (Some c, hub1) \<Rightarrow>
                           CreateEntry_loop X hub1 c
                             (if firstNewEntry = None then Some c else firstNewEntry)
                             (afterName path))
                    else
                      (case childPtr of
                         None \<Rightarrow> Inl (UNDEFINED ''childPtr'')
                       | Some c \<Rightarrow>
                           CreateEntry_loop X hub c firstNewEntry (afterName path)))))"
  by pat_completeness auto
termination
proof -
  have shorter: "length (afterName path) < length path" if ne: "nextName path \<noteq> []"
    for path
  proof -
    have parts: "length (nextName path) + length (afterName path) = length (skipSlash path)"
      unfolding nextName_def afterName_def
      by (metis length_append takeWhile_dropWhile_id)
    have "length (skipSlash path) \<le> length path"
      by (simp add: skipSlash_def split: list.split)
    with parts ne show ?thesis by (cases "nextName path") auto
  qed
  show ?thesis
    by (relation "measure (\<lambda>(X, hub, currentEntry, firstNewEntry, path). length path)")
       (auto simp: shorter)
qed

declare CreateEntry_loop.simps [simp del]

text \<open>
  The cleanup of \<open>CreateEntry\<close>: release the entries from the current one up to the first
  new one. The loop follows the parent pointers and does not end when it never meets the
  first new entry.
\<close>

partial_function (option) CreateEntry_cleanup ::
  "Entry_t le_mem_Pool \<Rightarrow> nat option \<Rightarrow> nat \<Rightarrow> Entry_t le_mem_Pool outcome" where
  "CreateEntry_cleanup pool currentEntry firstNewEntry =
     (case currentEntry of
        None \<Rightarrow> Some (Inl (UNDEFINED ''currentEntry->parentPtr''))
      | Some tmp \<Rightarrow>
          (case blockAt pool tmp of
             None \<Rightarrow> Some (Inl (UNDEFINED ''currentEntry->parentPtr''))
           | Some blk \<Rightarrow>
               Option.bind (le_mem_Release_Entry pool tmp)
                 (\<lambda>r. case r of
                         Inl a \<Rightarrow> Some (Inl a)
                       | Inr pool1 \<Rightarrow>
                           if tmp \<noteq> firstNewEntry
                           then CreateEntry_cleanup pool1 (parentPtr (obj blk)) firstNewEntry
                           else Some (Inr pool1))))"

declare CreateEntry_cleanup.simps [code]

definition CreateEntry ::
  "'g tree_externals \<Rightarrow> 'g Hub \<Rightarrow> nat \<Rightarrow> string \<Rightarrow> (nat option \<times> 'g Hub) outcome" where
  "CreateEntry X hub baseNamespace path =
     (case CreateEntry_loop X hub baseNamespace None path of
        Inl a \<Rightarrow> stop a
      | Inr (Returned currentEntry hub1) \<Rightarrow> ret (Some currentEntry, hub1)
      | Inr (Cleanup currentEntry firstNewEntry hub1) \<Rightarrow>
          (case firstNewEntry of
             None \<Rightarrow> ret (None, hub1)
           | Some f \<Rightarrow>
               bindO (CreateEntry_cleanup (EntryPool hub1) (Some currentEntry) f)
                 (\<lambda>pool. ret (None, hub1\<lparr>EntryPool := pool\<rparr>))))"

definition resTree_FindEntry ::
  "'g tree_externals \<Rightarrow> 'g Hub \<Rightarrow> nat \<Rightarrow> string \<Rightarrow> abort + nat option" where
  "resTree_FindEntry X hub baseNamespace path =
     (if \<not> hub_IsResourcePathMalformed X path then FindEntry X hub baseNamespace path
      else Inr None)"

text \<open>
  \<open>resTree_GetEntry\<close>: the result code, what is written through \<open>entryRefPtr\<close> and the new
  state.
\<close>

definition resTree_GetEntry ::
  "'g tree_externals \<Rightarrow> 'g Hub \<Rightarrow> nat \<Rightarrow> string
     \<Rightarrow> (le_result_t \<times> nat option \<times> 'g Hub) outcome" where
  "resTree_GetEntry X hub baseNamespace path =
     (if hub_IsResourcePathMalformed X path then ret (LE_BAD_PARAMETER, None, hub)
      else
        (case FindEntry X hub baseNamespace path of
           Inl a \<Rightarrow> stop a
         | Inr (Some entryRef) \<Rightarrow> ret (LE_OK, Some entryRef, hub)
         | Inr None \<Rightarrow>
             bindO (CreateEntry X hub baseNamespace path)
               (\<lambda>(entryRef, hub1).
                  if entryRef = None then ret (LE_NO_MEMORY, None, hub1)
                  else ret (LE_OK, entryRef, hub1))))"

text \<open>
  \<open>resTree_GetObsNamespace\<close>: the entry at \<open>obs\<close> under the root, created if necessary.
\<close>

definition resTree_GetObsNamespace ::
  "'g tree_externals \<Rightarrow> 'g Hub \<Rightarrow> (nat \<times> 'g Hub) outcome" where
  "resTree_GetObsNamespace X hub =
     (case resTree_GetRoot hub of
        None \<Rightarrow> stop (UNDEFINED ''RootPtr'')
      | Some rootPtr \<Rightarrow>
          bindO (resTree_GetEntry X hub rootPtr ''obs'')
            (\<lambda>(r, obsNamespace, hub1).
               if r \<noteq> LE_OK
               then stop (LE_FATAL ''resTree_GetEntry(resTree_GetRoot(), obs, &obsNamespace) == LE_OK'')
               else (case obsNamespace of
                       None \<Rightarrow> stop (LE_FATAL ''obsNamespace != NULL'')
                     | Some e \<Rightarrow> ret (e, hub1))))"

text \<open>
  \<open>CreatePlaceholderForNamespace\<close>. The observations namespace is looked up first (and
  created when it is missing); the placeholder is then taken from one of the two
  constructors of the Resource engine.
\<close>

definition CreatePlaceholderForNamespace ::
  "'g tree_externals \<Rightarrow> 'g Hub \<Rightarrow> nat \<Rightarrow> string \<Rightarrow> nat \<Rightarrow> (le_result_t \<times> 'g Hub) outcome" where
  "CreatePlaceholderForNamespace X hub baseNamespace path entryRef =
     (case entryAt hub entryRef of
        None \<Rightarrow> stop (UNDEFINED ''entryRef'')
      | Some blk0 \<Rightarrow>
          if type (obj blk0) \<noteq> ADMIN_ENTRY_TYPE_NAMESPACE
          then stop (LE_FATAL ''entryRef->type == ADMIN_ENTRY_TYPE_NAMESPACE'')
          else
            bindO (resTree_GetObsNamespace X hub)
              (\<lambda>(obsNamespace, hub1).
                 case (if baseNamespace = obsNamespace \<or> strncmp_eq path ''/obs/'' 5
                       then res_CreateObsPlaceholder X (res hub1) entryRef
                       else res_CreateIoPlaceholder X (res hub1) entryRef) of
                   (placeholderPtr, g) \<Rightarrow>
                     (case placeholderPtr of
                        Some p \<Rightarrow>
                          (case entryAt hub1 entryRef of
                             None \<Rightarrow> stop (UNDEFINED ''entryRef'')
                           | Some blk \<Rightarrow>
                               ret (LE_OK,
                                    entry_put entryRef
                                      (Some (blk\<lparr>obj := (obj blk)
                                                \<lparr>type := ADMIN_ENTRY_TYPE_PLACEHOLDER,
                                                 u := resourcePtr (Some p)\<rparr>\<rparr>))
                                      (hub1\<lparr>res := g\<rparr>)))
                      | None \<Rightarrow>
                          ret (LE_NO_MEMORY,
                               log_msg LOG_ERR ''Failed to allocate a placeholder''
                                 (hub1\<lparr>res := g\<rparr>)))))"

text \<open>
  \<open>resTree_GetResource\<close>, in the order of the source: find the entry or create it, turn a
  namespace into a placeholder, and on failure release the entry if this call created it.
\<close>

definition GetResource_entry ::
  "'g tree_externals \<Rightarrow> 'g Hub \<Rightarrow> nat \<Rightarrow> string
     \<Rightarrow> (nat option \<times> bool \<times> le_result_t \<times> 'g Hub) outcome" where
  "GetResource_entry X hub baseNamespace path =
     (case FindEntry X hub baseNamespace path of
        Inl a \<Rightarrow> stop a
      | Inr (Some entryRef) \<Rightarrow> ret (Some entryRef, False, LE_OK, hub)
      | Inr None \<Rightarrow>
          bindO (CreateEntry X hub baseNamespace path)
            (\<lambda>(entryRef, hub1).
               if entryRef \<noteq> None then ret (entryRef, True, LE_OK, hub1)
               else ret (None, False, LE_NO_MEMORY, hub1)))"

definition GetResource_placeholder ::
  "'g tree_externals \<Rightarrow> 'g Hub \<Rightarrow> nat \<Rightarrow> string \<Rightarrow> nat option \<Rightarrow> le_result_t
     \<Rightarrow> (le_result_t \<times> 'g Hub) outcome" where
  "GetResource_placeholder X hub1 baseNamespace path entryRef r =
     (case entryRef of
        None \<Rightarrow> ret (r, hub1)
      | Some e \<Rightarrow>
          (case entryAt hub1 e of
             None \<Rightarrow> stop (UNDEFINED ''entryRef'')
           | Some blk \<Rightarrow>
               if type (obj blk) = ADMIN_ENTRY_TYPE_NAMESPACE
               then bindO (CreatePlaceholderForNamespace X hub1 baseNamespace path e)
                      (\<lambda>(r1, hub2). if r1 \<noteq> LE_OK then ret (LE_NO_MEMORY, hub2)
                                     else ret (r, hub2))
               else ret (r, hub1)))"

definition resTree_GetResource ::
  "'g tree_externals \<Rightarrow> 'g Hub \<Rightarrow> nat \<Rightarrow> string
     \<Rightarrow> (le_result_t \<times> nat option \<times> 'g Hub) outcome" where
  "resTree_GetResource X hub baseNamespace path =
     (if hub_IsResourcePathMalformed X path then ret (LE_BAD_PARAMETER, None, hub)
      else
        bindO (GetResource_entry X hub baseNamespace path)
          (\<lambda>(entryRef, createdEntry, r0, hub1).
             bindO (GetResource_placeholder X hub1 baseNamespace path entryRef r0)
               (\<lambda>(r, hub2).
                  if r = LE_OK then ret (LE_OK, entryRef, hub2)
                  else if createdEntry
                  then (case entryRef of
                          None \<Rightarrow> stop (UNDEFINED ''entryRef'')
                        | Some e \<Rightarrow>
                            bindO (le_mem_Release_Entry (EntryPool hub2) e)
                              (\<lambda>pool. ret (r, None, hub2\<lparr>EntryPool := pool\<rparr>)))
                  else ret (r, None, hub2))))"

section \<open>resTree.c: rendering a path\<close>

text \<open>
  Modelled from the spec: the numbering of the result codes (le_basics.h of the
  framework). \<open>LE_OK\<close> is zero and all other codes are negative, which is what
  \<open>resTree_GetPath\<close> relies on when it returns a code or a number of bytes as one
  \<open>ssize_t\<close>.
\<close>

definition le_result_value :: "le_result_t \<Rightarrow> int" where
  "le_result_value r =
     (case r of
        LE_OK \<Rightarrow> 0 | LE_NOT_FOUND \<Rightarrow> - 1 | LE_NO_MEMORY \<Rightarrow> - 4 | LE_FAULT \<Rightarrow> - 6
      | LE_OVERFLOW \<Rightarrow> - 9 | LE_DUPLICATE \<Rightarrow> - 14 | LE_BAD_PARAMETER \<Rightarrow> - 15
      | LE_IN_PROGRESS \<Rightarrow> - 23)"

text \<open>
  \<open>resTree_GetPath\<close>. The result is the \<open>ssize_t\<close> returned and the text in the buffer
  (\<open>None\<close> when nothing was written to it). The base namespace is only compared, never
  dereferenced. The function calls itself on the parent; on a chain of parents that never
  reaches the base, the root or NULL it does not return. \<open>overflowed X buf src destSize\<close>
  is the buffer after a copy of \<open>src\<close> behind the text \<open>buf\<close> did not fit: the text
  written before, followed by what the copy left there.
\<close>

definition overflowed ::
  "'g tree_externals \<Rightarrow> string option \<Rightarrow> string \<Rightarrow> nat \<Rightarrow> string option" where
  "overflowed X buf src destSize =
     (case le_utf8_Copy_truncated X src destSize of
        None \<Rightarrow> buf
      | Some t \<Rightarrow> Some ((case buf of None \<Rightarrow> [] | Some b \<Rightarrow> b) @ t))"

definition GetPath_first ::
  "'g tree_externals \<Rightarrow> 'g Hub \<Rightarrow> nat \<Rightarrow> nat option \<Rightarrow> string \<Rightarrow> int \<times> string option" where
  "GetPath_first X hub stringBuffSize baseNamespace nm =
     (if baseNamespace = RootPtr hub
      then (case le_utf8_Copy ''/'' stringBuffSize of
              (r, _, _) \<Rightarrow>
                if r \<noteq> LE_OK
                then (le_result_value LE_OVERFLOW, overflowed X None ''/'' stringBuffSize)
                else (case le_utf8_Copy nm (stringBuffSize - 1) of
                        (r1, _, len) \<Rightarrow>
                          if r1 \<noteq> LE_OK
                          then (le_result_value LE_OVERFLOW,
                                overflowed X (Some ''/'') nm (stringBuffSize - 1))
                          else (int (1 + len), Some (''/'' @ nm))))
      else (case le_utf8_Copy nm stringBuffSize of
              (r1, _, len) \<Rightarrow>
                if r1 \<noteq> LE_OK
                then (le_result_value LE_OVERFLOW, overflowed X None nm stringBuffSize)
                else (int (0 + len), Some nm)))"

definition GetPath_append ::
  "'g tree_externals \<Rightarrow> nat \<Rightarrow> string \<Rightarrow> int \<times> string option \<Rightarrow> int \<times> string option" where
  "GetPath_append X stringBuffSize nm rec =
     (case rec of
        (result, buf) \<Rightarrow>
          if result < 0 then (result, buf)
          else (case le_utf8_Copy ''/'' (stringBuffSize - nat result) of
                  (r, _, len1) \<Rightarrow>
                    if r \<noteq> LE_OK
                    then (le_result_value LE_OVERFLOW,
                          overflowed X buf ''/'' (stringBuffSize - nat result))
                    else (case le_utf8_Copy nm (stringBuffSize - nat result - len1) of
                            (r1, _, len2) \<Rightarrow>
                              if r1 \<noteq> LE_OK
                              then (le_result_value LE_OVERFLOW,
                                    overflowed X (map_option (\<lambda>b. b @ ''/'') buf) nm
                                      (stringBuffSize - nat result - len1))
                              else (int (nat result + len1 + len2),
                                    map_option (\<lambda>b. b @ ''/'' @ nm) buf))))"

partial_function (option) resTree_GetPath ::
  "'g tree_externals \<Rightarrow> 'g Hub \<Rightarrow> nat \<Rightarrow> nat option \<Rightarrow> nat option
     \<Rightarrow> (int \<times> string option) outcome" where
  "resTree_GetPath X hub stringBuffSize baseNamespace entryRef =
     (if entryRef = baseNamespace
      then (if stringBuffSize > 0 then Some (Inr (le_result_value LE_OK, Some []))
            else Some (Inl (LE_FATAL ''stringBuffSize > 0'')))
      else
        (case entryRef of
           None \<Rightarrow> Some (Inl (UNDEFINED ''entryRef->parentPtr''))
         | Some e \<Rightarrow>
             (case entryAt hub e of
                None \<Rightarrow> Some (Inl (UNDEFINED ''entryRef->parentPtr''))
              | Some blk \<Rightarrow>
                  if parentPtr (obj blk) = baseNamespace
                  then Some (Inr (GetPath_first X hub stringBuffSize baseNamespace
                                    (name (obj blk))))
                  else if entryRef = RootPtr hub
                  then Some (Inr (le_result_value LE_NOT_FOUND, None))
                  else
                    Option.bind
                      (resTree_GetPath X hub stringBuffSize baseNamespace
                         (parentPtr (obj blk)))
                      (\<lambda>r. case r of
                              Inl a \<Rightarrow> Some (Inl a)
                            | Inr rec \<Rightarrow>
                                Some (Inr (GetPath_append X stringBuffSize (name (obj blk))
                                             rec))))))"

declare resTree_GetPath.simps [code]

text \<open>
  \<open>CallResourceTreeChangeHandlers\<close> renders the absolute path into a buffer of
  \<open>HUB_MAX_RESOURCE_PATH_BYTES\<close> bytes, ignores the result of \<open>resTree_GetPath\<close> and hands
  the buffer to the handlers as it is.
\<close>

definition CallResourceTreeChangeHandlers ::
  "'g tree_externals \<Rightarrow> 'g Hub \<Rightarrow> nat \<Rightarrow> admin_EntryType_t
     \<Rightarrow> admin_ResourceOperationType_t \<Rightarrow> 'g Hub outcome" where
  "CallResourceTreeChangeHandlers X hub entryRef entryType resourceOperationType =
     bindO (resTree_GetPath X hub (HUB_MAX_RESOURCE_PATH_BYTES X) (RootPtr hub) (Some entryRef))
       (\<lambda>(n, absolutePath).
          ret (hub\<lparr>res := admin_CallResourceTreeChangeHandlers X (res hub) absolutePath
                              entryType resourceOperationType\<rparr>))"

section \<open>resTree.c: observations, push and the facade\<close>

definition entry_resourcePtr :: "'g Hub \<Rightarrow> nat \<Rightarrow> abort + nat option" where
  "entry_resourcePtr hub entryRef =
     (case entryAt hub entryRef of
        None \<Rightarrow> Inl (UNDEFINED ''entryRef'')
      | Some blk \<Rightarrow>
          (case u (obj blk) of
             resourcePtr p \<Rightarrow> Inr p
           | flags _ \<Rightarrow> Inl (UNDEFINED ''u.resourcePtr'')))"

definition entry_type :: "'g Hub \<Rightarrow> nat \<Rightarrow> abort + admin_EntryType_t" where
  "entry_type hub entryRef =
     (case entryAt hub entryRef of
        None \<Rightarrow> Inl (UNDEFINED ''entryRef'')
      | Some blk \<Rightarrow> Inr (type (obj blk)))"

text \<open>
  \<open>resTree_CreateInput\<close> and \<open>resTree_CreateOutput\<close> expect a placeholder from
  \<open>resTree_GetResource\<close> and convert it.
\<close>

definition resTree_CreateInput ::
  "'g tree_externals \<Rightarrow> 'g Hub \<Rightarrow> nat \<Rightarrow> string \<Rightarrow> io_DataType_t \<Rightarrow> string
     \<Rightarrow> (le_result_t \<times> 'g Hub) outcome" where
  "resTree_CreateInput X hub baseNamespace path dataType units =
     bindO (resTree_GetResource X hub baseNamespace path)
       (\<lambda>(r, entryRef, hub1).
          if r \<noteq> LE_OK then ret (r, hub1)
          else
            (case entryRef of
               None \<Rightarrow> stop (UNDEFINED ''entryRef'')
             | Some e \<Rightarrow>
                 (case entryAt hub1 e of
                    None \<Rightarrow> stop (UNDEFINED ''entryRef'')
                  | Some blk \<Rightarrow>
                      if type (obj blk) \<noteq> ADMIN_ENTRY_TYPE_PLACEHOLDER
                      then stop (LE_FATAL ''entryRef->type == ADMIN_ENTRY_TYPE_PLACEHOLDER'')
                      else
                        (case u (obj blk) of
                           flags _ \<Rightarrow> stop (UNDEFINED ''u.resourcePtr'')
                         | resourcePtr p \<Rightarrow>
                             bindO (CallResourceTreeChangeHandlers X
                                      ((entry_put e
                                          (Some (blk\<lparr>obj := (obj blk)
                                                    \<lparr>type := ADMIN_ENTRY_TYPE_INPUT\<rparr>\<rparr>))
                                          hub1)
                                        \<lparr>res := res_ConvertPlaceholderToInput X (res hub1) p
                                                  dataType units\<rparr>)
                                      e ADMIN_ENTRY_TYPE_INPUT ADMIN_RESOURCE_ADDED)
                               (\<lambda>hub2. ret (r, hub2))))))"

definition resTree_CreateOutput ::
  "'g tree_externals \<Rightarrow> 'g Hub \<Rightarrow> nat \<Rightarrow> string \<Rightarrow> io_DataType_t \<Rightarrow> string
     \<Rightarrow> (le_result_t \<times> 'g Hub) outcome" where
  "resTree_CreateOutput X hub baseNamespace path dataType units =
     bindO (resTree_GetResource X hub baseNamespace path)
       (\<lambda>(r, entryRef, hub1).
          if r \<noteq> LE_OK then ret (r, hub1)
          else
            (case entryRef of
               None \<Rightarrow> stop (UNDEFINED ''entryRef'')
             | Some e \<Rightarrow>
                 (case entryAt hub1 e of
                    None \<Rightarrow> stop (UNDEFINED ''entryRef'')
                  | Some blk \<Rightarrow>
                      if type (obj blk) \<noteq> ADMIN_ENTRY_TYPE_PLACEHOLDER
                      then stop (LE_FATAL ''entryRef->type == ADMIN_ENTRY_TYPE_PLACEHOLDER'')
                      else
                        (case u (obj blk) of
                           flags _ \<Rightarrow> stop (UNDEFINED ''u.resourcePtr'')
                         | resourcePtr p \<Rightarrow>
                             bindO (CallResourceTreeChangeHandlers X
                                      ((entry_put e
                                          (Some (blk\<lparr>obj := (obj blk)
                                                    \<lparr>type := ADMIN_ENTRY_TYPE_OUTPUT\<rparr>\<rparr>))
                                          hub1)
                                        \<lparr>res := res_ConvertPlaceholderToOutput X (res hub1) p
                                                  dataType units\<rparr>)
                                      e ADMIN_ENTRY_TYPE_OUTPUT ADMIN_RESOURCE_ADDED)
                               (\<lambda>hub2. ret (r, hub2))))))"


text \<open>
  \<open>resTree_Push\<close>. \<open>res_Push\<close> belongs to the Resource engine; it is a parameter, working
  on the state of the engine and on the samples.
\<close>

definition resTree_Push ::
  "('g \<Rightarrow> 'p Samples \<Rightarrow> nat option \<Rightarrow> io_DataType_t \<Rightarrow> string option \<Rightarrow> dataSample_Ref_t
      \<Rightarrow> le_result_t \<times> 'g \<times> 'p Samples)
   \<Rightarrow> 'p sample_externals \<Rightarrow> 'g Hub \<Rightarrow> 'p Samples \<Rightarrow> nat \<Rightarrow> io_DataType_t
   \<Rightarrow> dataSample_Ref_t \<Rightarrow> abort + (le_result_t \<times> 'g Hub \<times> 'p Samples)" where
  "resTree_Push res_Push SX hub st entryRef dataType dataSample =
     bindA (entry_type hub entryRef) (\<lambda>t.
       case t of
         ADMIN_ENTRY_TYPE_NAMESPACE \<Rightarrow>
           bindA (le_mem_Release_sample SX st dataSample) (\<lambda>st1.
             Inr (LE_BAD_PARAMETER, hub, st1))
       | ADMIN_ENTRY_TYPE_NONE \<Rightarrow> Inl (LE_FATAL ''Unexpected entry type.'')
       | _ \<Rightarrow>
           bindA (entry_resourcePtr hub entryRef) (\<lambda>p.
             case res_Push (res hub) st p dataType None dataSample of
               (r, g, st1) \<Rightarrow> Inr (r, hub\<lparr>res := g\<rparr>, st1)))"

text \<open>
  The forwarding functions. Each takes the function of the Resource engine that it
  forwards to as its first argument. The getters and setters of the minimum period, the
  limits, the change-by, the transform, the buffer size and the backup period read the
  pointer to the Resource from the entry and forward, without a look at the type of the
  entry. The type of a transform (\<open>admin_TransformType_t\<close>) is left open; the parameters of
  a transform are the array behind \<open>paramsPtr\<close> (or NULL) and \<open>paramsSize\<close>.
\<close>

definition resTree_SetMinPeriod ::
  "('g \<Rightarrow> nat option \<Rightarrow> double \<Rightarrow> 'g) \<Rightarrow> 'g Hub \<Rightarrow> nat \<Rightarrow> double \<Rightarrow> abort + 'g Hub" where
  "resTree_SetMinPeriod res_SetMinPeriod hub obsEntry minPeriod =
     bindA (entry_resourcePtr hub obsEntry) (\<lambda>p.
       Inr (hub\<lparr>res := res_SetMinPeriod (res hub) p minPeriod\<rparr>))"

definition resTree_GetMinPeriod ::
  "('g \<Rightarrow> nat option \<Rightarrow> double) \<Rightarrow> 'g Hub \<Rightarrow> nat \<Rightarrow> abort + double" where
  "resTree_GetMinPeriod res_GetMinPeriod hub obsEntry =
     bindA (entry_resourcePtr hub obsEntry) (\<lambda>p. Inr (res_GetMinPeriod (res hub) p))"

definition resTree_SetHighLimit ::
  "('g \<Rightarrow> nat option \<Rightarrow> double \<Rightarrow> 'g) \<Rightarrow> 'g Hub \<Rightarrow> nat \<Rightarrow> double \<Rightarrow> abort + 'g Hub" where
  "resTree_SetHighLimit res_SetHighLimit hub obsEntry highLimit =
     bindA (entry_resourcePtr hub obsEntry) (\<lambda>p.
       Inr (hub\<lparr>res := res_SetHighLimit (res hub) p highLimit\<rparr>))"

definition resTree_GetHighLimit ::
  "('g \<Rightarrow> nat option \<Rightarrow> double) \<Rightarrow> 'g Hub \<Rightarrow> nat \<Rightarrow> abort + double" where
  "resTree_GetHighLimit res_GetHighLimit hub obsEntry =
     bindA (entry_resourcePtr hub obsEntry) (\<lambda>p. Inr (res_GetHighLimit (res hub) p))"

definition resTree_SetLowLimit ::
  "('g \<Rightarrow> nat option \<Rightarrow> double \<Rightarrow> 'g) \<Rightarrow> 'g Hub \<Rightarrow> nat \<Rightarrow> double \<Rightarrow> abort + 'g Hub" where
  "resTree_SetLowLimit res_SetLowLimit hub obsEntry lowLimit =
     bindA (entry_resourcePtr hub obsEntry) (\<lambda>p.
       Inr (hub\<lparr>res := res_SetLowLimit (res hub) p lowLimit\<rparr>))"

definition resTree_GetLowLimit ::
  "('g \<Rightarrow> nat option \<Rightarrow> double) \<Rightarrow> 'g Hub \<Rightarrow> nat \<Rightarrow> abort + double" where
  "resTree_GetLowLimit res_GetLowLimit hub obsEntry =
     bindA (entry_resourcePtr hub obsEntry) (\<lambda>p. Inr (res_GetLowLimit (res hub) p))"

definition resTree_SetChangeBy ::
  "('g \<Rightarrow> nat option \<Rightarrow> double \<Rightarrow> 'g) \<Rightarrow> 'g Hub \<Rightarrow> nat \<Rightarrow> double \<Rightarrow> abort + 'g Hub" where
  "resTree_SetChangeBy res_SetChangeBy hub obsEntry change =
     bindA (entry_resourcePtr hub obsEntry) (\<lambda>p.
       Inr (hub\<lparr>res := res_SetChangeBy (res hub) p change\<rparr>))"

definition resTree_GetChangeBy ::
  "('g \<Rightarrow> nat option \<Rightarrow> double) \<Rightarrow> 'g Hub \<Rightarrow> nat \<Rightarrow> abort + double" where
  "resTree_GetChangeBy res_GetChangeBy hub obsEntry =
     bindA (entry_resourcePtr hub obsEntry) (\<lambda>p. Inr (res_GetChangeBy (res hub) p))"

definition resTree_SetTransform ::
  "('g \<Rightarrow> nat option \<Rightarrow> 't \<Rightarrow> double list option \<Rightarrow> nat \<Rightarrow> 'g) \<Rightarrow> 'g Hub \<Rightarrow> nat \<Rightarrow> 't
     \<Rightarrow> double list option \<Rightarrow> nat \<Rightarrow> abort + 'g Hub" where
  "resTree_SetTransform res_SetTransform hub obsEntry transformType paramsPtr paramsSize =
     bindA (entry_resourcePtr hub obsEntry) (\<lambda>p.
       Inr (hub\<lparr>res := res_SetTransform (res hub) p transformType paramsPtr paramsSize\<rparr>))"

definition resTree_GetTransform ::
  "('g \<Rightarrow> nat option \<Rightarrow> 't) \<Rightarrow> 'g Hub \<Rightarrow> nat \<Rightarrow> abort + 't" where
  "resTree_GetTransform res_GetTransform hub obsEntry =
     bindA (entry_resourcePtr hub obsEntry) (\<lambda>p. Inr (res_GetTransform (res hub) p))"

definition resTree_SetBufferMaxCount ::
  "('g \<Rightarrow> nat option \<Rightarrow> 32 word \<Rightarrow> 'g) \<Rightarrow> 'g Hub \<Rightarrow> nat \<Rightarrow> 32 word \<Rightarrow> abort + 'g Hub" where
  "resTree_SetBufferMaxCount res_SetBufferMaxCount hub obsEntry count =
     bindA (entry_resourcePtr hub obsEntry) (\<lambda>p.
       Inr (hub\<lparr>res := res_SetBufferMaxCount (res hub) p count\<rparr>))"

definition resTree_GetBufferMaxCount ::
  "('g \<Rightarrow> nat option \<Rightarrow> 32 word) \<Rightarrow> 'g Hub \<Rightarrow> nat \<Rightarrow> abort + 32 word" where
  "resTree_GetBufferMaxCount res_GetBufferMaxCount hub obsEntry =
     bindA (entry_resourcePtr hub obsEntry) (\<lambda>p. Inr (res_GetBufferMaxCount (res hub) p))"

definition resTree_SetBufferBackupPeriod ::
  "('g \<Rightarrow> nat option \<Rightarrow> 32 word \<Rightarrow> 'g) \<Rightarrow> 'g Hub \<Rightarrow> nat \<Rightarrow> 32 word \<Rightarrow> abort + 'g Hub" where
  "resTree_SetBufferBackupPeriod res_SetBufferBackupPeriod hub obsEntry seconds =
     bindA (entry_resourcePtr hub obsEntry) (\<lambda>p.
       Inr (hub\<lparr>res := res_SetBufferBackupPeriod (res hub) p seconds\<rparr>))"

definition resTree_GetBufferBackupPeriod ::
  "('g \<Rightarrow> nat option \<Rightarrow> 32 word) \<Rightarrow> 'g Hub \<Rightarrow> nat \<Rightarrow> abort + 32 word" where
  "resTree_GetBufferBackupPeriod res_GetBufferBackupPeriod hub obsEntry =
     bindA (entry_resourcePtr hub obsEntry) (\<lambda>p. Inr (res_GetBufferBackupPeriod (res hub) p))"

text \<open>
  The guarded forwarding functions check the type of the entry first. After the check the
  source asserts that the pointer to the Resource is not NULL.
\<close>

definition obs_resourcePtr :: "'g Hub \<Rightarrow> nat \<Rightarrow> abort + nat option" where
  "obs_resourcePtr hub obsEntry =
     bindA (entry_resourcePtr hub obsEntry) (\<lambda>p.
       if p = None then Inl (LE_FATAL ''obsEntry->u.resourcePtr != NULL'') else Inr p)"

text \<open>
  \<open>resTree_ReadBufferJson\<close> and \<open>resTree_FindBufferedSampleAfter\<close> assert that the entry
  is an observation. The file descriptor, the completion callback and its context are
  handed on as they are; the types of the last two are left open.
\<close>

definition resTree_ReadBufferJson ::
  "('g \<Rightarrow> nat option \<Rightarrow> double \<Rightarrow> int \<Rightarrow> 'h \<Rightarrow> 'c \<Rightarrow> 'g) \<Rightarrow> 'g Hub \<Rightarrow> nat \<Rightarrow> double
     \<Rightarrow> int \<Rightarrow> 'h \<Rightarrow> 'c \<Rightarrow> abort + 'g Hub" where
  "resTree_ReadBufferJson res_ReadBufferJson hub obsEntry startAfter outputFile handlerPtr
       contextPtr =
     bindA (entry_type hub obsEntry) (\<lambda>t.
       if t \<noteq> ADMIN_ENTRY_TYPE_OBSERVATION
       then Inl (LE_FATAL ''obsEntry->type == ADMIN_ENTRY_TYPE_OBSERVATION'')
       else bindA (obs_resourcePtr hub obsEntry) (\<lambda>p.
              Inr (hub\<lparr>res := res_ReadBufferJson (res hub) p startAfter outputFile
                                  handlerPtr contextPtr\<rparr>)))"

definition resTree_FindBufferedSampleAfter ::
  "('g \<Rightarrow> nat option \<Rightarrow> double \<Rightarrow> dataSample_Ref_t option) \<Rightarrow> 'g Hub \<Rightarrow> nat \<Rightarrow> double
     \<Rightarrow> abort + dataSample_Ref_t option" where
  "resTree_FindBufferedSampleAfter res_FindBufferedSampleAfter hub obsEntry startAfter =
     bindA (entry_type hub obsEntry) (\<lambda>t.
       if t \<noteq> ADMIN_ENTRY_TYPE_OBSERVATION
       then Inl (LE_FATAL ''obsEntry->type == ADMIN_ENTRY_TYPE_OBSERVATION'')
       else bindA (obs_resourcePtr hub obsEntry) (\<lambda>p.
              Inr (res_FindBufferedSampleAfter (res hub) p startAfter)))"

definition resTree_SetJsonExtraction ::
  "('g \<Rightarrow> nat option \<Rightarrow> string \<Rightarrow> 'g) \<Rightarrow> 'g Hub \<Rightarrow> nat \<Rightarrow> string \<Rightarrow> abort + 'g Hub" where
  "resTree_SetJsonExtraction res_SetJsonExtraction hub resEntry extractionSpec =
     bindA (entry_type hub resEntry) (\<lambda>t.
       if t \<noteq> ADMIN_ENTRY_TYPE_OBSERVATION
       then Inr (log_msg LOG_CRIT ''Not an observation'' hub)
       else bindA (obs_resourcePtr hub resEntry) (\<lambda>p.
              Inr (hub\<lparr>res := res_SetJsonExtraction (res hub) p extractionSpec\<rparr>)))"

definition resTree_GetJsonExtraction ::
  "('g \<Rightarrow> nat option \<Rightarrow> string) \<Rightarrow> 'g Hub \<Rightarrow> nat \<Rightarrow> abort + (string \<times> 'g Hub)" where
  "resTree_GetJsonExtraction res_GetJsonExtraction hub resEntry =
     bindA (entry_type hub resEntry) (\<lambda>t.
       if t \<noteq> ADMIN_ENTRY_TYPE_OBSERVATION
       then Inr ([], log_msg LOG_DEBUG ''Not an observation'' hub)
       else bindA (obs_resourcePtr hub resEntry) (\<lambda>p.
              Inr (res_GetJsonExtraction (res hub) p, hub)))"

definition resTree_Query ::
  "('g \<Rightarrow> nat option \<Rightarrow> double \<Rightarrow> double) \<Rightarrow> 'g Hub \<Rightarrow> nat \<Rightarrow> double \<Rightarrow> abort + double" where
  "resTree_Query res_Query hub obsEntry startTime =
     bindA (entry_type hub obsEntry) (\<lambda>t.
       if t \<noteq> ADMIN_ENTRY_TYPE_OBSERVATION then Inr NAN
       else bindA (obs_resourcePtr hub obsEntry) (\<lambda>p.
              Inr (res_Query (res hub) p startTime)))"

text \<open>
  \<open>resTree_QueryMin\<close>, \<open>resTree_QueryMax\<close>, \<open>resTree_QueryMean\<close> and \<open>resTree_QueryStdDev\<close>
  have the same body and differ in the function of the engine they forward to.
\<close>

definition resTree_QueryMin ::
  "('g \<Rightarrow> nat option \<Rightarrow> double \<Rightarrow> double) \<Rightarrow> 'g Hub \<Rightarrow> nat \<Rightarrow> double \<Rightarrow> abort + double" where
  "resTree_QueryMin res_QueryMin hub obsEntry startTime =
     resTree_Query res_QueryMin hub obsEntry startTime"

definition resTree_QueryMax ::
  "('g \<Rightarrow> nat option \<Rightarrow> double \<Rightarrow> double) \<Rightarrow> 'g Hub \<Rightarrow> nat \<Rightarrow> double \<Rightarrow> abort + double" where
  "resTree_QueryMax res_QueryMax hub obsEntry startTime =
     resTree_Query res_QueryMax hub obsEntry startTime"

definition resTree_QueryMean ::
  "('g \<Rightarrow> nat option \<Rightarrow> double \<Rightarrow> double) \<Rightarrow> 'g Hub \<Rightarrow> nat \<Rightarrow> double \<Rightarrow> abort + double" where
  "resTree_QueryMean res_QueryMean hub obsEntry startTime =
     resTree_Query res_QueryMean hub obsEntry startTime"

definition resTree_QueryStdDev ::
  "('g \<Rightarrow> nat option \<Rightarrow> double \<Rightarrow> double) \<Rightarrow> 'g Hub \<Rightarrow> nat \<Rightarrow> double \<Rightarrow> abort + double" where
  "resTree_QueryStdDev res_QueryStdDev hub obsEntry startTime =
     resTree_Query res_QueryStdDev hub obsEntry startTime"

definition resTree_MarkObservationAsConfig ::
  "('g \<Rightarrow> nat option \<Rightarrow> 'g) \<Rightarrow> 'g Hub \<Rightarrow> nat \<Rightarrow> abort + 'g Hub" where
  "resTree_MarkObservationAsConfig res_MarkAsConfig hub obsEntry =
     bindA (entry_type hub obsEntry) (\<lambda>t.
       if t \<noteq> ADMIN_ENTRY_TYPE_OBSERVATION
       then Inr (log_msg LOG_CRIT ''Not an observation'' hub)
       else bindA (obs_resourcePtr hub obsEntry) (\<lambda>p.
              Inr (hub\<lparr>res := res_MarkAsConfig (res hub) p\<rparr>)))"

definition resTree_IsObservationConfig ::
  "('g \<Rightarrow> nat option \<Rightarrow> bool) \<Rightarrow> 'g Hub \<Rightarrow> nat \<Rightarrow> abort + (bool \<times> 'g Hub)" where
  "resTree_IsObservationConfig res_IsConfig hub obsEntry =
     bindA (entry_type hub obsEntry) (\<lambda>t.
       if t \<noteq> ADMIN_ENTRY_TYPE_OBSERVATION
       then Inr (False, log_msg LOG_CRIT ''Not an observation'' hub)
       else bindA (obs_resourcePtr hub obsEntry) (\<lambda>p.
              Inr (res_IsConfig (res hub) p, hub)))"

definition resTree_SetDestination ::
  "('g \<Rightarrow> nat option \<Rightarrow> string \<Rightarrow> 'g) \<Rightarrow> 'g Hub \<Rightarrow> nat \<Rightarrow> string \<Rightarrow> abort + 'g Hub" where
  "resTree_SetDestination res_SetDestination hub obsEntry destination =
     bindA (entry_type hub obsEntry) (\<lambda>t.
       if t \<noteq> ADMIN_ENTRY_TYPE_OBSERVATION then Inr hub
       else bindA (obs_resourcePtr hub obsEntry) (\<lambda>p.
              Inr (hub\<lparr>res := res_SetDestination (res hub) p destination\<rparr>)))"

section \<open>resTree.c: the snapshot flags of a namespace\<close>

text \<open>
  For an entry that is not a namespace these functions forward to the Resource engine;
  the model covers the namespace branch and reports the other one as \<open>None\<close>.
\<close>

definition namespace_flags :: "'g Hub \<Rightarrow> nat \<Rightarrow> abort + (Entry_t MemBlock \<times> 32 word) option" where
  "namespace_flags hub resEntry =
     (case entryAt hub resEntry of
        None \<Rightarrow> Inl (UNDEFINED ''resEntry'')
      | Some blk \<Rightarrow>
          if type (obj blk) = ADMIN_ENTRY_TYPE_NAMESPACE
          then (case u (obj blk) of
                  flags f \<Rightarrow> Inr (Some (blk, f))
                | resourcePtr _ \<Rightarrow> Inl (UNDEFINED ''u.flags''))
          else Inr None)"

definition set_flags :: "nat \<Rightarrow> Entry_t MemBlock \<Rightarrow> 32 word \<Rightarrow> 'g Hub \<Rightarrow> 'g Hub" where
  "set_flags resEntry blk f hub =
     entry_put resEntry (Some (blk\<lparr>obj := (obj blk)\<lparr>u := flags f\<rparr>\<rparr>)) hub"

definition resTree_ClearNewness :: "'g Hub \<Rightarrow> nat \<Rightarrow> abort + 'g Hub option" where
  "resTree_ClearNewness hub resEntry =
     bindA (namespace_flags hub resEntry) (\<lambda>ns.
       case ns of
         None \<Rightarrow> Inr None
       | Some (blk, f) \<Rightarrow>
           Inr (Some (set_flags resEntry blk
                        ((f AND NOT RES_FLAG_NEW) AND NOT RES_FLAG_CLEAR_NEW) hub)))"

definition resTree_IsNew :: "'g Hub \<Rightarrow> nat \<Rightarrow> abort + bool option" where
  "resTree_IsNew hub resEntry =
     bindA (namespace_flags hub resEntry) (\<lambda>ns.
       case ns of
         None \<Rightarrow> Inr None
       | Some (blk, f) \<Rightarrow> Inr (Some (f AND RES_FLAG_NEW \<noteq> 0)))"

definition resTree_SetDeleted :: "'g Hub \<Rightarrow> nat \<Rightarrow> abort + 'g Hub" where
  "resTree_SetDeleted hub resEntry =
     bindA (namespace_flags hub resEntry) (\<lambda>ns.
       case ns of
         None \<Rightarrow> Inl (LE_FATAL ''resEntry->type == ADMIN_ENTRY_TYPE_NAMESPACE'')
       | Some (blk, f) \<Rightarrow>
           if f AND RES_FLAG_NEW \<noteq> 0
           then Inl (LE_FATAL ''(resEntry->u.flags & RES_FLAG_NEW) == 0'')
           else Inr (set_flags resEntry blk (f OR RES_FLAG_DELETED) hub))"

section \<open>A concrete environment\<close>

text \<open>
  Modelled from the spec: \<open>hub_IsResourcePathMalformed\<close> (dataHub.c). Paths are separated
  by slashes and may start with one; a path with an empty component, or with a component
  that does not fit the name limit, is malformed.
\<close>

function path_malformed :: "nat \<Rightarrow> string \<Rightarrow> bool" where
  "path_malformed n path =
     (if path = [] then False
      else if nextName path = [] then True
      else if \<not> length (nextName path) < n then True
      else path_malformed n (afterName path))"
  by pat_completeness auto
termination
proof -
  have shorter: "length (afterName path) < length path" if ne: "nextName path \<noteq> []"
    for path
  proof -
    have parts: "length (nextName path) + length (afterName path) = length (skipSlash path)"
      unfolding nextName_def afterName_def
      by (metis length_append takeWhile_dropWhile_id)
    have "length (skipSlash path) \<le> length path"
      by (simp add: skipSlash_def split: list.split)
    with parts ne show ?thesis by (cases "nextName path") auto
  qed
  show ?thesis
    by (relation "measure (\<lambda>(n, path). length path)") (auto simp: shorter)
qed

declare path_malformed.simps [simp del]

text \<open>
  A Resource engine that records the calls it receives, in order. The pointer to a new
  placeholder is the number of calls recorded before it, and the engine never runs out of
  memory. It stands for the external \<open>res_\<close> functions in the closed theorems.
\<close>

datatype res_call =
    ObsPlaceholderCreated nat
  | IoPlaceholderCreated nat
  | ConvertedToInput "nat option" io_DataType_t string
  | ConvertedToOutput "nat option" io_DataType_t string
  | ConvertedToObs "nat option"
  | BackupRestored "nat option"
  | TreeChanged "string option" admin_EntryType_t admin_ResourceOperationType_t
  | Pushed "nat option" io_DataType_t dataSample_Ref_t
  | MinPeriodSet "nat option" double
  | JsonExtractionSet "nat option" string
  | MarkedAsConfig "nat option"
  | DestinationSet "nat option" string

definition rec_CreateObsPlaceholder :: "res_call list \<Rightarrow> nat \<Rightarrow> nat option \<times> res_call list" where
  "rec_CreateObsPlaceholder g e = (Some (length g), g @ [ObsPlaceholderCreated e])"

definition rec_CreateIoPlaceholder :: "res_call list \<Rightarrow> nat \<Rightarrow> nat option \<times> res_call list" where
  "rec_CreateIoPlaceholder g e = (Some (length g), g @ [IoPlaceholderCreated e])"

definition rec_ConvertToInput ::
  "res_call list \<Rightarrow> nat option \<Rightarrow> io_DataType_t \<Rightarrow> string \<Rightarrow> res_call list" where
  "rec_ConvertToInput g p t units = g @ [ConvertedToInput p t units]"

definition rec_ConvertToOutput ::
  "res_call list \<Rightarrow> nat option \<Rightarrow> io_DataType_t \<Rightarrow> string \<Rightarrow> res_call list" where
  "rec_ConvertToOutput g p t units = g @ [ConvertedToOutput p t units]"

definition rec_ConvertToObs :: "res_call list \<Rightarrow> nat option \<Rightarrow> res_call list" where
  "rec_ConvertToObs g p = g @ [ConvertedToObs p]"

definition rec_RestoreBackup :: "res_call list \<Rightarrow> nat option \<Rightarrow> res_call list" where
  "rec_RestoreBackup g p = g @ [BackupRestored p]"

definition rec_TreeChange ::
  "res_call list \<Rightarrow> string option \<Rightarrow> admin_EntryType_t \<Rightarrow> admin_ResourceOperationType_t
     \<Rightarrow> res_call list" where
  "rec_TreeChange g path t op = g @ [TreeChanged path t op]"

definition rec_Push ::
  "res_call list \<Rightarrow> 'p Samples \<Rightarrow> nat option \<Rightarrow> io_DataType_t \<Rightarrow> string option
     \<Rightarrow> dataSample_Ref_t \<Rightarrow> le_result_t \<times> res_call list \<times> 'p Samples" where
  "rec_Push g st p t units sample = (LE_OK, g @ [Pushed p t sample], st)"

definition rec_SetMinPeriod :: "res_call list \<Rightarrow> nat option \<Rightarrow> double \<Rightarrow> res_call list" where
  "rec_SetMinPeriod g p v = g @ [MinPeriodSet p v]"

definition rec_GetMinPeriod :: "res_call list \<Rightarrow> nat option \<Rightarrow> double" where
  "rec_GetMinPeriod g p = Val 0"

definition rec_FindBufferedSampleAfter ::
  "res_call list \<Rightarrow> nat option \<Rightarrow> double \<Rightarrow> dataSample_Ref_t option" where
  "rec_FindBufferedSampleAfter g p startAfter = None"

definition rec_SetJsonExtraction :: "res_call list \<Rightarrow> nat option \<Rightarrow> string \<Rightarrow> res_call list" where
  "rec_SetJsonExtraction g p spec = g @ [JsonExtractionSet p spec]"

definition rec_GetJsonExtraction :: "res_call list \<Rightarrow> nat option \<Rightarrow> string" where
  "rec_GetJsonExtraction g p = ''a.b[1]''"

definition rec_MarkAsConfig :: "res_call list \<Rightarrow> nat option \<Rightarrow> res_call list" where
  "rec_MarkAsConfig g p = g @ [MarkedAsConfig p]"

definition rec_IsConfig :: "res_call list \<Rightarrow> nat option \<Rightarrow> bool" where
  "rec_IsConfig g p = (MarkedAsConfig p \<in> set g)"

definition rec_SetDestination :: "res_call list \<Rightarrow> nat option \<Rightarrow> string \<Rightarrow> res_call list" where
  "rec_SetDestination g p d = g @ [DestinationSet p d]"

definition rec_Query :: "res_call list \<Rightarrow> nat option \<Rightarrow> double \<Rightarrow> double" where
  "rec_Query g p startTime = Val 1"

text \<open>
  What the copy leaves on overflow, for the closed theorems: the bytes that fit with the
  terminator, and nothing in a destination of no bytes. The names used there are ASCII.
\<close>

definition cut_at_byte :: "string \<Rightarrow> nat \<Rightarrow> string option" where
  "cut_at_byte src destSize = (if destSize = 0 then None else Some (take (destSize - 1) src))"

definition recording :: "res_call list tree_externals" where
  "recording =
     \<lparr>HUB_MAX_ENTRY_NAME_BYTES = 48,
      HUB_MAX_RESOURCE_PATH_BYTES = 80,
      hub_IsResourcePathMalformed = path_malformed 48,
      res_CreateObsPlaceholder = rec_CreateObsPlaceholder,
      res_CreateIoPlaceholder = rec_CreateIoPlaceholder,
      res_ConvertPlaceholderToInput = rec_ConvertToInput,
      res_ConvertPlaceholderToOutput = rec_ConvertToOutput,
      res_ConvertPlaceholderToObs = rec_ConvertToObs,
      res_RestoreBackup = rec_RestoreBackup,
      admin_CallResourceTreeChangeHandlers = rec_TreeChange,
      le_utf8_Copy_truncated = cut_at_byte\<rparr>"

text \<open>
  Trees written out block by block. \<open>entry_block\<close> is a block in use.
\<close>

definition entry_block ::
  "nat \<Rightarrow> nat option \<Rightarrow> string \<Rightarrow> nat list \<Rightarrow> admin_EntryType_t \<Rightarrow> Entry_u
     \<Rightarrow> Entry_t MemBlock" where
  "entry_block rc parent nm children t payload =
     \<lparr>refCount = rc,
      obj = \<lparr>parentPtr = parent, name = nm, childList = children, type = t, u = payload\<rparr>\<rparr>"

text \<open>The tree after \<open>resTree_Init\<close>: the root alone.\<close>

definition hub_init :: "res_call list Hub" where
  "hub_init =
     \<lparr>EntryPool =
        Some (entry_block 1 None [] [] ADMIN_ENTRY_TYPE_NAMESPACE (flags RES_FLAG_NEW))
        # replicate 9 None,
      RootPtr = Some 0, res = [], hub_log = []\<rparr>"

text \<open>The namespaces \<open>/obs\<close> and \<open>/obs/x\<close> under the root.\<close>

definition hub_obs_x :: "res_call list Hub" where
  "hub_obs_x =
     \<lparr>EntryPool =
        [Some (entry_block 2 None [] [1] ADMIN_ENTRY_TYPE_NAMESPACE (flags RES_FLAG_NEW)),
         Some (entry_block 2 (Some 0) ''obs'' [2] ADMIN_ENTRY_TYPE_NAMESPACE (flags RES_FLAG_NEW)),
         Some (entry_block 1 (Some 1) ''x'' [] ADMIN_ENTRY_TYPE_NAMESPACE (flags RES_FLAG_NEW))]
        @ replicate 7 None,
      RootPtr = Some 0, res = [], hub_log = []\<rparr>"

text \<open>The same tree with \<open>/obs/x\<close> turned into a placeholder by the call recorded.\<close>

definition hub_obs_x_placeholder :: "res_call \<Rightarrow> res_call list Hub" where
  "hub_obs_x_placeholder call =
     \<lparr>EntryPool =
        [Some (entry_block 2 None [] [1] ADMIN_ENTRY_TYPE_NAMESPACE (flags RES_FLAG_NEW)),
         Some (entry_block 2 (Some 0) ''obs'' [2] ADMIN_ENTRY_TYPE_NAMESPACE (flags RES_FLAG_NEW)),
         Some (entry_block 1 (Some 1) ''x'' [] ADMIN_ENTRY_TYPE_PLACEHOLDER (resourcePtr (Some 0)))]
        @ replicate 7 None,
      RootPtr = Some 0, res = [call], hub_log = []\<rparr>"

text \<open>An input at \<open>/a\<close>, and the observations namespace that its creation looked up.\<close>

definition hub_input :: "res_call list Hub" where
  "hub_input =
     \<lparr>EntryPool =
        [Some (entry_block 3 None [] [1, 2] ADMIN_ENTRY_TYPE_NAMESPACE (flags RES_FLAG_NEW)),
         Some (entry_block 1 (Some 0) ''a'' [] ADMIN_ENTRY_TYPE_INPUT (resourcePtr (Some 0))),
         Some (entry_block 1 (Some 0) ''obs'' [] ADMIN_ENTRY_TYPE_NAMESPACE (flags RES_FLAG_NEW))]
        @ replicate 7 None,
      RootPtr = Some 0,
      res = [IoPlaceholderCreated 1,
             ConvertedToInput (Some 0) IO_DATA_TYPE_NUMERIC ''degC'',
             TreeChanged (Some ''/a'') ADMIN_ENTRY_TYPE_INPUT ADMIN_RESOURCE_ADDED],
      hub_log = []\<rparr>"

text \<open>
  The externals of dataSample.c for the closed theorems. The string pool is the number of
  its free blocks. The JSON helper knows one document, the one of the end-to-end scenario
  of the specification, and one extraction from it; the \<open>%lf\<close> conversion is not
  exercised and gives a fixed text. The arithmetic on doubles is the one on real numbers;
  on the values that occur here (whole seconds, no microseconds) binary64 is exact and
  agrees with it.
\<close>

definition count_StrDup :: "nat \<Rightarrow> string \<Rightarrow> nat option" where
  "count_StrDup free s = (if free = 0 then None else Some (free - 1))"

definition count_Release :: "nat \<Rightarrow> string \<Rightarrow> nat" where
  "count_Release free s = free + 1"

definition fixed_lf :: "double \<Rightarrow> string" where
  "fixed_lf d = ''0.000000''"

definition json_document :: string where
  \<open>json_document = ''{"a":{"b":[10,20,30]}}''\<close>

definition table_Extract ::
  "nat \<Rightarrow> string \<Rightarrow> string \<Rightarrow> le_result_t \<times> string \<times> json_DataType_t" where
  "table_Extract n json spec =
     (if json = json_document \<and> spec = ''a.b[1]'' then (LE_OK, ''20'', JSON_TYPE_NUMBER)
      else (LE_FAULT, [], JSON_TYPE_NULL))"

definition table_ConvertToBoolean :: "string \<Rightarrow> bool" where
  "table_ConvertToBoolean s = (s = ''true'')"

definition table_ConvertToNumber :: "string \<Rightarrow> double" where
  "table_ConvertToNumber s = (if s = ''20'' then Val 20 else NAN)"

definition exact_of_long :: "int \<Rightarrow> double" where
  "exact_of_long i = Val (real_of_int i)"

definition exact_div :: "double \<Rightarrow> double \<Rightarrow> double" where
  "exact_div a b = (case (a, b) of (Val x, Val y) \<Rightarrow> Val (x / y) | _ \<Rightarrow> NAN)"

definition exact_add :: "double \<Rightarrow> double \<Rightarrow> double" where
  "exact_add a b = (case (a, b) of (Val x, Val y) \<Rightarrow> Val (x + y) | _ \<Rightarrow> NAN)"

definition counting :: "nat sample_externals" where
  "counting =
     \<lparr>IO_NOW = Val 0,
      HUB_MAX_STRING_BYTES = 50000,
      le_mem_StrDup = count_StrDup,
      le_mem_Release_string = count_Release,
      snprintf_lf = fixed_lf,
      json_Extract = table_Extract,
      json_ConvertToBoolean = table_ConvertToBoolean,
      json_ConvertToNumber = table_ConvertToNumber,
      double_of_long = exact_of_long,
      double_div = exact_div,
      double_add = exact_add\<rparr>"

text \<open>
  \<open>samples_with ts text\<close>: one string based sample with the timestamp and the text given,
  held by one reference; the clock reads 1000 seconds.
\<close>

definition string_sample :: "double \<Rightarrow> string \<Rightarrow> DataSample_t MemBlock" where
  "string_sample ts text =
     \<lparr>refCount = 1, obj = \<lparr>timestamp = ts, sample_value = stringPtr (Some text)\<rparr>\<rparr>"

definition samples_with :: "double \<Rightarrow> string \<Rightarrow> nat Samples" where
  "samples_with ts text =
     \<lparr>NonStringPool = [None, None],
      StringBasedPool = [Some (string_sample ts text), None],
      StringPool = 1,
      le_clk_GetAbsoluteTime = \<lparr>sec = 1000, usec = 0\<rparr>,
      sample_log = []\<rparr>"

definition numeric_sample :: "double \<Rightarrow> double \<Rightarrow> DataSample_t MemBlock" where
  "numeric_sample ts v = \<lparr>refCount = 1, obj = \<lparr>timestamp = ts, sample_value = numeric v\<rparr>\<rparr>"

section \<open>Definitions used by the statements\<close>

text \<open>
  The type of the extracted sample as the specification words it: null gives a trigger,
  true and false a Boolean, a number a numeric value, a string a string, an object or an
  array JSON.
\<close>

definition spec_extracted_type :: "json_DataType_t \<Rightarrow> io_DataType_t" where
  "spec_extracted_type jt =
     (case jt of
        JSON_TYPE_NULL \<Rightarrow> IO_DATA_TYPE_TRIGGER
      | JSON_TYPE_BOOLEAN \<Rightarrow> IO_DATA_TYPE_BOOLEAN
      | JSON_TYPE_NUMBER \<Rightarrow> IO_DATA_TYPE_NUMERIC
      | JSON_TYPE_STRING \<Rightarrow> IO_DATA_TYPE_STRING
      | JSON_TYPE_OBJECT \<Rightarrow> IO_DATA_TYPE_JSON
      | JSON_TYPE_ARRAY \<Rightarrow> IO_DATA_TYPE_JSON)"

text \<open>
  The reading of the clock as a double: the microseconds divided by a million, plus the
  seconds, in the arithmetic of the platform.
\<close>

definition clock_stamp :: "'p sample_externals \<Rightarrow> 'p Samples \<Rightarrow> double" where
  "clock_stamp X st =
     double_add X
       (double_div X (double_of_long X (usec (le_clk_GetAbsoluteTime st)))
          (double_of_long X 1000000))
       (double_of_long X (sec (le_clk_GetAbsoluteTime st)))"

text \<open>
  The links of a tree are consistent: the root is in use and has no parent, and every
  child in the list of an entry in use is itself in use and points back to that entry.
\<close>

definition tree_linked :: "'g Hub \<Rightarrow> bool" where
  "tree_linked hub \<longleftrightarrow>
     (case RootPtr hub of
        None \<Rightarrow> False
      | Some r \<Rightarrow> (case entryAt hub r of None \<Rightarrow> False | Some rb \<Rightarrow> parentPtr (obj rb) = None))
   \<and> list_all
       (\<lambda>p. case entryAt hub p of
               None \<Rightarrow> True
             | Some b \<Rightarrow>
                 list_all
                   (\<lambda>c. case entryAt hub c of
                           None \<Rightarrow> False
                         | Some cb \<Rightarrow> parentPtr (obj cb) = Some p)
                   (childList (obj b)))
       [0..<length (EntryPool hub)]"

text \<open>A path written with its leading slash; the empty path stays empty.\<close>

definition absolute_form :: "string \<Rightarrow> string" where
  "absolute_form path = (if path = [] then [] else CHR ''/'' # skipSlash path)"

text \<open>
  The root and a deleted namespace \<open>a\<close> under it (a zombie): created, its newness
  cleared, then marked deleted.
\<close>

definition hub_zombie :: "res_call list Hub" where
  "hub_zombie =
     \<lparr>EntryPool =
        [Some (entry_block 2 None [] [1] ADMIN_ENTRY_TYPE_NAMESPACE (flags RES_FLAG_NEW)),
         Some (entry_block 1 (Some 0) ''a'' [] ADMIN_ENTRY_TYPE_NAMESPACE (flags RES_FLAG_DELETED))]
        @ replicate 8 None,
      RootPtr = Some 0, res = [], hub_log = []\<rparr>"

text \<open>The same tree after \<open>a/b\<close> was created: \<open>a\<close> is new again and has the child.\<close>

definition hub_resurrected :: "res_call list Hub" where
  "hub_resurrected =
     \<lparr>EntryPool =
        [Some (entry_block 2 None [] [1] ADMIN_ENTRY_TYPE_NAMESPACE (flags RES_FLAG_NEW)),
         Some (entry_block 2 (Some 0) ''a'' [2] ADMIN_ENTRY_TYPE_NAMESPACE (flags RES_FLAG_NEW)),
         Some (entry_block 1 (Some 1) ''b'' [] ADMIN_ENTRY_TYPE_NAMESPACE (flags RES_FLAG_NEW))]
        @ replicate 7 None,
      RootPtr = Some 0, res = [], hub_log = []\<rparr>"

text \<open>
  A chain of seven namespaces under the root: eight of the ten blocks are in use.
\<close>

definition hub_chain :: "res_call list Hub" where
  "hub_chain =
     \<lparr>EntryPool =
        [Some (entry_block 2 None [] [1] ADMIN_ENTRY_TYPE_NAMESPACE (flags RES_FLAG_NEW)),
         Some (entry_block 2 (Some 0) ''p'' [2] ADMIN_ENTRY_TYPE_NAMESPACE (flags RES_FLAG_NEW)),
         Some (entry_block 2 (Some 1) ''q'' [3] ADMIN_ENTRY_TYPE_NAMESPACE (flags RES_FLAG_NEW)),
         Some (entry_block 2 (Some 2) ''r'' [4] ADMIN_ENTRY_TYPE_NAMESPACE (flags RES_FLAG_NEW)),
         Some (entry_block 2 (Some 3) ''s'' [5] ADMIN_ENTRY_TYPE_NAMESPACE (flags RES_FLAG_NEW)),
         Some (entry_block 2 (Some 4) ''t'' [6] ADMIN_ENTRY_TYPE_NAMESPACE (flags RES_FLAG_NEW)),
         Some (entry_block 2 (Some 5) ''u'' [7] ADMIN_ENTRY_TYPE_NAMESPACE (flags RES_FLAG_NEW)),
         Some (entry_block 1 (Some 6) ''v'' [] ADMIN_ENTRY_TYPE_NAMESPACE (flags RES_FLAG_NEW))]
        @ replicate 2 None,
      RootPtr = Some 0, res = [], hub_log = []\<rparr>"

text \<open>
  The zombie \<open>a\<close> and the chain of seven under the root: one block is left. And the tree
  that a failed creation of \<open>a/b/c\<close> leaves of it.
\<close>

definition hub_zombie_full :: "res_call list Hub" where
  "hub_zombie_full =
     \<lparr>EntryPool =
        [Some (entry_block 3 None [] [1, 2] ADMIN_ENTRY_TYPE_NAMESPACE (flags RES_FLAG_NEW)),
         Some (entry_block 1 (Some 0) ''a'' [] ADMIN_ENTRY_TYPE_NAMESPACE (flags RES_FLAG_DELETED)),
         Some (entry_block 2 (Some 0) ''p'' [3] ADMIN_ENTRY_TYPE_NAMESPACE (flags RES_FLAG_NEW)),
         Some (entry_block 2 (Some 2) ''q'' [4] ADMIN_ENTRY_TYPE_NAMESPACE (flags RES_FLAG_NEW)),
         Some (entry_block 2 (Some 3) ''r'' [5] ADMIN_ENTRY_TYPE_NAMESPACE (flags RES_FLAG_NEW)),
         Some (entry_block 2 (Some 4) ''s'' [6] ADMIN_ENTRY_TYPE_NAMESPACE (flags RES_FLAG_NEW)),
         Some (entry_block 2 (Some 5) ''t'' [7] ADMIN_ENTRY_TYPE_NAMESPACE (flags RES_FLAG_NEW)),
         Some (entry_block 2 (Some 6) ''u'' [8] ADMIN_ENTRY_TYPE_NAMESPACE (flags RES_FLAG_NEW)),
         Some (entry_block 1 (Some 7) ''v'' [] ADMIN_ENTRY_TYPE_NAMESPACE (flags RES_FLAG_NEW))]
        @ replicate 1 None,
      RootPtr = Some 0, res = [], hub_log = []\<rparr>"

definition rollback_log :: logged where
  "rollback_log =
     [(LOG_ERR, ''Failed to allocate memory in AddChild''),
      (LOG_ERR, ''Failed to add child, path'')]"

definition hub_zombie_gone :: "res_call list Hub" where
  "hub_zombie_gone =
     \<lparr>EntryPool =
        [Some (entry_block 2 None [] [2] ADMIN_ENTRY_TYPE_NAMESPACE (flags RES_FLAG_NEW)),
         None,
         Some (entry_block 2 (Some 0) ''p'' [3] ADMIN_ENTRY_TYPE_NAMESPACE (flags RES_FLAG_NEW)),
         Some (entry_block 2 (Some 2) ''q'' [4] ADMIN_ENTRY_TYPE_NAMESPACE (flags RES_FLAG_NEW)),
         Some (entry_block 2 (Some 3) ''r'' [5] ADMIN_ENTRY_TYPE_NAMESPACE (flags RES_FLAG_NEW)),
         Some (entry_block 2 (Some 4) ''s'' [6] ADMIN_ENTRY_TYPE_NAMESPACE (flags RES_FLAG_NEW)),
         Some (entry_block 2 (Some 5) ''t'' [7] ADMIN_ENTRY_TYPE_NAMESPACE (flags RES_FLAG_NEW)),
         Some (entry_block 2 (Some 6) ''u'' [8] ADMIN_ENTRY_TYPE_NAMESPACE (flags RES_FLAG_NEW)),
         Some (entry_block 1 (Some 7) ''v'' [] ADMIN_ENTRY_TYPE_NAMESPACE (flags RES_FLAG_NEW)),
         None],
      RootPtr = Some 0, res = [], hub_log = rollback_log\<rparr>"

text \<open>
  An input at \<open>/a/b\<close> whose namespace \<open>a\<close> has been marked deleted.
\<close>

definition hub_input_under_zombie :: "res_call list Hub" where
  "hub_input_under_zombie =
     \<lparr>EntryPool =
        [Some (entry_block 3 None [] [1, 3] ADMIN_ENTRY_TYPE_NAMESPACE (flags RES_FLAG_NEW)),
         Some (entry_block 2 (Some 0) ''a'' [2] ADMIN_ENTRY_TYPE_NAMESPACE (flags RES_FLAG_DELETED)),
         Some (entry_block 1 (Some 1) ''b'' [] ADMIN_ENTRY_TYPE_INPUT (resourcePtr (Some 0))),
         Some (entry_block 1 (Some 0) ''obs'' [] ADMIN_ENTRY_TYPE_NAMESPACE (flags RES_FLAG_NEW))]
        @ replicate 6 None,
      RootPtr = Some 0,
      res = [IoPlaceholderCreated 2,
             ConvertedToInput (Some 0) IO_DATA_TYPE_NUMERIC ''degC'',
             TreeChanged (Some ''/a/b'') ADMIN_ENTRY_TYPE_INPUT ADMIN_RESOURCE_ADDED],
      hub_log = []\<rparr>"

text \<open>
  The reference counts and the lists of children of a pool are sound: a block in use is
  held by at least one reference, and the children listed in it are blocks in use.
\<close>

definition pool_counted :: "Entry_t le_mem_Pool \<Rightarrow> bool" where
  "pool_counted pool \<longleftrightarrow>
     list_all
       (\<lambda>blk. case blk of
                 None \<Rightarrow> True
               | Some b \<Rightarrow>
                   0 < refCount b
                   \<and> list_all (\<lambda>c. blockAt pool c \<noteq> None) (childList (obj b)))
       pool"

text \<open>
  The creation loop ran into the cleanup, and the first new entry, if there is one, is a
  block that was free before the call (not a resurrected entry).
\<close>

definition creation_fails_fresh :: "'g tree_externals \<Rightarrow> 'g Hub \<Rightarrow> nat \<Rightarrow> string \<Rightarrow> bool" where
  "creation_fails_fresh X hub baseNamespace path =
     (case CreateEntry_loop X hub baseNamespace None path of
        Inr (Cleanup currentEntry firstNewEntry hub1) \<Rightarrow>
          (case firstNewEntry of None \<Rightarrow> True | Some f \<Rightarrow> entryAt hub f = None)
      | _ \<Rightarrow> False)"

text \<open>
  The pool after \<open>AddChild\<close> gave the entry \<open>cur\<close> a new child \<open>n\<close> with the name \<open>nm\<close>.
\<close>

definition pool_with_child ::
  "Entry_t le_mem_Pool \<Rightarrow> nat \<Rightarrow> nat \<Rightarrow> string \<Rightarrow> Entry_t le_mem_Pool" where
  "pool_with_child pool cur n nm =
     (case blockAt pool cur of
        None \<Rightarrow> pool
      | Some cb \<Rightarrow>
          pool[cur := Some (cb\<lparr>refCount := refCount cb + 1,
                               obj := (obj cb)\<lparr>childList := childList (obj cb) @ [n]\<rparr>\<rparr>),
               n := Some \<lparr>refCount = 1,
                          obj = \<lparr>parentPtr = Some cur, name = nm, childList = [],
                                 type = ADMIN_ENTRY_TYPE_NAMESPACE,
                                 u = flags RES_FLAG_NEW\<rparr>\<rparr>])"

section \<open>Basic facts\<close>

lemma bindA_simps [simp]:
  "bindA (Inl a) f = Inl a" "bindA (Inr x) f = f x"
  by (simp_all add: bindA_def)

lemma bindO_simps [simp]:
  "bindO None f = None" "bindO (Some (Inl a)) f = Some (Inl a)" "bindO (Some (Inr x)) f = f x"
  "bindO (stop a) f = stop a" "bindO (ret x) f = f x"
  by (simp_all add: bindO_def stop_def ret_def)

lemma ret_stop_simps [simp]:
  "ret x = Some (Inr y) \<longleftrightarrow> x = y" "stop a \<noteq> Some (Inr y)" "ret x \<noteq> None" "stop a \<noteq> None"
  "ret x \<noteq> Some (Inl b)"
  by (auto simp: ret_def stop_def)

lemma bindO_eq_ret:
  "bindO m f = Some (Inr y) \<longleftrightarrow> (\<exists>x. m = Some (Inr x) \<and> f x = Some (Inr y))"
  by (auto simp: bindO_def split: option.splits sum.splits)

lemma hub_MemAlloc_Some: "hub_MemAlloc pool = Some i \<Longrightarrow> i < length pool \<and> pool ! i = None"
  by (auto simp: hub_MemAlloc_def find_Some_iff)

lemma entryAt_put_same:
  "entryAt hub e = Some b \<Longrightarrow> entryAt (entry_put e x hub) e = x"
  by (auto simp: entryAt_def entry_put_def blockAt_def split: if_splits)

lemma sampleAt_put_same:
  "snd r < length (samplePool st (fst r)) \<Longrightarrow> sampleAt (sample_put r x st) r = x"
  by (cases "fst r")
     (auto simp: sampleAt_def sample_put_def samplePool_def samplePool_update_def blockAt_def)

lemma sampleAt_in_pool:
  "sampleAt st r = Some b \<Longrightarrow> snd r < length (samplePool st (fst r))"
  by (auto simp: sampleAt_def blockAt_def split: if_splits)

lemma sampleAt_StringPool [simp]: "sampleAt (st\<lparr>StringPool := x\<rparr>) r = sampleAt st r"
  by (cases "fst r") (simp_all add: sampleAt_def samplePool_def)

lemma samplePool_StringPool [simp]: "samplePool (st\<lparr>StringPool := x\<rparr>) q = samplePool st q"
  by (cases q) (simp_all add: samplePool_def)

lemma sample_hi: "sampleAt (samples_with ts text) (StringBasedDataSamplePool, 0) = Some (string_sample ts text)"
  by (simp add: samples_with_def sampleAt_def samplePool_def blockAt_def)

lemma entryAt_hub_init:
  "entryAt hub_init 0 = Some (entry_block 1 None [] [] ADMIN_ENTRY_TYPE_NAMESPACE (flags RES_FLAG_NEW))"
  by (simp add: hub_init_def entryAt_def blockAt_def)

lemma entryAt_hub_input:
  "entryAt hub_input 1 = Some (entry_block 1 (Some 0) ''a'' [] ADMIN_ENTRY_TYPE_INPUT (resourcePtr (Some 0)))"
  by (simp add: hub_input_def entryAt_def blockAt_def)

section \<open>The claims about dataSample.c\<close>

text \<open>
  C5. For a string sample with payload \<open>s\<close>, \<open>dataSample_ConvertToJson\<close> with the string
  type writes the payload between two ASCII double quotes, character for character (no
  escaping), exactly when the buffer holds the payload, the two quotes and the terminator;
  otherwise it returns \<open>LE_OVERFLOW\<close>. Since the quoted text takes at least three bytes,
  a buffer below three bytes always overflows.
\<close>

theorem convert_to_json_string:
  assumes "sampleAt st sampleRef = Some blk"
      and "sample_value (obj blk) = stringPtr (Some s)"
  shows "dataSample_ConvertToJson X st sampleRef IO_DATA_TYPE_STRING valueBuffSize =
           (if length s + 3 \<le> valueBuffSize
            then Inr (LE_OK, Some (CHR 0x22 # s @ [CHR 0x22]))
            else Inr (LE_OVERFLOW, None))"
  using assms
  by (auto simp: dataSample_ConvertToJson_def dataSample_GetString_def copy_string_def
        le_utf8_Copy_def)

theorem convert_to_json_string_witness:
  "sampleAt (samples_with (Val 5) ''hi'') (StringBasedDataSamplePool, 0)
     = Some (string_sample (Val 5) ''hi'')
   \<and> sample_value (obj (string_sample (Val 5) ''hi'')) = stringPtr (Some ''hi'')
   \<and> dataSample_ConvertToJson counting (samples_with (Val 5) ''hi'')
        (StringBasedDataSamplePool, 0) IO_DATA_TYPE_STRING 2 = Inr (LE_OVERFLOW, None)
   \<and> dataSample_ConvertToJson counting (samples_with (Val 5) ''hi'')
        (StringBasedDataSamplePool, 0) IO_DATA_TYPE_STRING 5
        = Inr (LE_OK, Some (CHR 0x22 # ''hi'' @ [CHR 0x22]))"
proof -
  have a: "sampleAt (samples_with (Val 5) ''hi'') (StringBasedDataSamplePool, 0)
             = Some (string_sample (Val 5) ''hi'')"
    by (rule sample_hi)
  have b: "sample_value (obj (string_sample (Val 5) ''hi'')) = stringPtr (Some ''hi'')"
    by (simp add: string_sample_def)
  show ?thesis
    using a b convert_to_json_string[OF a b, of counting 2]
      convert_to_json_string[OF a b, of counting 5]
    by simp
qed

section \<open>The claims about the facade of resTree.c\<close>

text \<open>
  C10. For every entry and every buffer of at least one byte, \<open>resTree_GetPath\<close> with the
  entry as its own base returns, writes the empty string and reports zero bytes; it
  returns neither \<open>LE_OVERFLOW\<close> nor \<open>LE_NOT_FOUND\<close>.
\<close>

theorem path_of_self:
  assumes "1 \<le> stringBuffSize"
  shows "resTree_GetPath X hub stringBuffSize (Some e) (Some e) = Some (Inr (0, Some []))"
  using assms by (simp add: resTree_GetPath.simps le_result_value_def)

theorem path_of_self_witness:
  "(1::nat) \<le> 1 \<and> resTree_GetPath recording hub_init 1 (Some 0) (Some 0) = Some (Inr (0, Some []))"
  using path_of_self[of 1 recording hub_init 0] by simp

text \<open>
  C8. A push to a namespace entry releases the sample and returns \<open>LE_BAD_PARAMETER\<close>,
  with the tree and the Resource engine untouched. The reference passed in is dropped:
  a count above one goes down by one; at the last reference the block of the sample is
  free again, and for a string based sample \<open>StringSampleDestructor\<close> has given the string
  back to its pool before. A push to a placeholder, input, output or observation is what
  \<open>res_Push\<close> makes of it on the Resource attached.
\<close>

theorem push_by_entry_type:
  assumes entry: "entryAt hub entryRef = Some blk"
      and sample: "sampleAt st dataSample = Some sb" "0 < refCount sb"
      and str: "fst dataSample = StringBasedDataSamplePool
                  \<longrightarrow> (\<exists>s. sample_value (obj sb) = stringPtr s)"
  shows "(type (obj blk) = ADMIN_ENTRY_TYPE_NAMESPACE \<longrightarrow>
            resTree_Push res_Push SX hub st entryRef dataType dataSample
              = Inr (LE_BAD_PARAMETER, hub,
                     if refCount sb = 1
                     then sample_put dataSample None
                            (if fst dataSample = StringBasedDataSamplePool
                             then (case sample_value (obj sb) of
                                     stringPtr (Some s) \<Rightarrow>
                                       st\<lparr>StringPool :=
                                            le_mem_Release_string SX (StringPool st) s\<rparr>
                                   | _ \<Rightarrow> st)
                             else st)
                     else sample_put dataSample
                            (Some (sb\<lparr>refCount := refCount sb - 1\<rparr>)) st))
       \<and> (type (obj blk) \<in> {ADMIN_ENTRY_TYPE_PLACEHOLDER, ADMIN_ENTRY_TYPE_INPUT,
                              ADMIN_ENTRY_TYPE_OUTPUT, ADMIN_ENTRY_TYPE_OBSERVATION}
            \<longrightarrow> u (obj blk) = resourcePtr p
            \<longrightarrow> resTree_Push res_Push SX hub st entryRef dataType dataSample
                  = (case res_Push (res hub) st p dataType None dataSample of
                       (r, g, st1) \<Rightarrow> Inr (r, hub\<lparr>res := g\<rparr>, st1)))"
proof (intro conjI impI)
  assume ns: "type (obj blk) = ADMIN_ENTRY_TYPE_NAMESPACE"
  show "resTree_Push res_Push SX hub st entryRef dataType dataSample
              = Inr (LE_BAD_PARAMETER, hub,
                     if refCount sb = 1
                     then sample_put dataSample None
                            (if fst dataSample = StringBasedDataSamplePool
                             then (case sample_value (obj sb) of
                                     stringPtr (Some s) \<Rightarrow>
                                       st\<lparr>StringPool :=
                                            le_mem_Release_string SX (StringPool st) s\<rparr>
                                   | _ \<Rightarrow> st)
                             else st)
                     else sample_put dataSample
                            (Some (sb\<lparr>refCount := refCount sb - 1\<rparr>)) st)"
  proof (cases "refCount sb = 1")
    case False
    with sample entry ns show ?thesis
      by (simp add: resTree_Push_def entry_type_def le_mem_Release_sample_def)
  next
    case True
    show ?thesis
    proof (cases "fst dataSample = StringBasedDataSamplePool")
      case False
      with True sample entry ns show ?thesis
        by (simp add: resTree_Push_def entry_type_def le_mem_Release_sample_def)
    next
      case sb: True
      with str obtain s where s: "sample_value (obj sb) = stringPtr s" by blast
      from True sample entry ns sb s show ?thesis
        by (cases s)
           (simp_all add: resTree_Push_def entry_type_def le_mem_Release_sample_def
              StringSampleDestructor_def dataSample_GetString_def)
    qed
  qed
next
  assume "type (obj blk) \<in> {ADMIN_ENTRY_TYPE_PLACEHOLDER, ADMIN_ENTRY_TYPE_INPUT,
                              ADMIN_ENTRY_TYPE_OUTPUT, ADMIN_ENTRY_TYPE_OBSERVATION}"
     and "u (obj blk) = resourcePtr p"
  with entry show "resTree_Push res_Push SX hub st entryRef dataType dataSample
                  = (case res_Push (res hub) st p dataType None dataSample of
                       (r, g, st1) \<Rightarrow> Inr (r, hub\<lparr>res := g\<rparr>, st1))"
    by (auto simp: resTree_Push_def entry_type_def entry_resourcePtr_def)
qed

theorem push_by_entry_type_witness:
  "resTree_Push rec_Push counting hub_init (samples_with (Val 5) ''hi'') 0
      IO_DATA_TYPE_STRING (StringBasedDataSamplePool, 0)
     = Inr (LE_BAD_PARAMETER, hub_init,
            (samples_with (Val 5) ''hi'')\<lparr>StringBasedPool := [None, None], StringPool := 2\<rparr>)
   \<and> resTree_Push rec_Push counting hub_input (samples_with (Val 5) ''hi'') 1
        IO_DATA_TYPE_STRING (StringBasedDataSamplePool, 0)
        = Inr (LE_OK,
               hub_input\<lparr>res := res hub_input
                  @ [Pushed (Some 0) IO_DATA_TYPE_STRING (StringBasedDataSamplePool, 0)]\<rparr>,
               samples_with (Val 5) ''hi'')"
proof -
  have s: "sampleAt (samples_with (Val 5) ''hi'') (StringBasedDataSamplePool, 0)
             = Some (string_sample (Val 5) ''hi'')"
    by (rule sample_hi)
  have c: "0 < refCount (string_sample (Val 5) ''hi'')"
    by (simp add: string_sample_def)
  have v: "fst (StringBasedDataSamplePool, 0::nat) = StringBasedDataSamplePool
             \<longrightarrow> (\<exists>t. sample_value (obj (string_sample (Val 5) ''hi'')) = stringPtr t)"
    by (simp add: string_sample_def)
  have first: "resTree_Push rec_Push counting hub_init (samples_with (Val 5) ''hi'') 0
      IO_DATA_TYPE_STRING (StringBasedDataSamplePool, 0)
     = Inr (LE_BAD_PARAMETER, hub_init,
            (samples_with (Val 5) ''hi'')\<lparr>StringBasedPool := [None, None], StringPool := 2\<rparr>)"
    using push_by_entry_type[OF entryAt_hub_init s c v,
        where res_Push = rec_Push and SX = counting and dataType = IO_DATA_TYPE_STRING]
    by (simp add: entry_block_def string_sample_def sample_put_def samplePool_update_def
          samplePool_def samples_with_def counting_def count_Release_def)
  have second: "resTree_Push rec_Push counting hub_input (samples_with (Val 5) ''hi'') 1
        IO_DATA_TYPE_STRING (StringBasedDataSamplePool, 0)
        = Inr (LE_OK,
               hub_input\<lparr>res := res hub_input
                  @ [Pushed (Some 0) IO_DATA_TYPE_STRING (StringBasedDataSamplePool, 0)]\<rparr>,
               samples_with (Val 5) ''hi'')"
    using push_by_entry_type[OF entryAt_hub_input s c v,
        where p = "Some 0" and res_Push = rec_Push and SX = counting
          and dataType = IO_DATA_TYPE_STRING]
    by (simp add: entry_block_def rec_Push_def)
  from first second show ?thesis by blast
qed

text \<open>
  C9, as the code has it. On an entry that is not an observation the observation-only
  functions fall into three groups. The nine that check the type in an \<open>if\<close> do nothing:
  the four buffer queries return NaN, the extraction getter the empty string (with a debug
  log), the config test false (with a critical log); the extraction setter and the config
  marker log a critical message and the destination setter is silent, and none of them
  changes the tree or the Resource engine. \<open>resTree_ReadBufferJson\<close> and
  \<open>resTree_FindBufferedSampleAfter\<close> assert the type and stop the process. The getters and
  setters of the minimum period, the limits, the change-by, the transform, the buffer size
  and the backup period have no check: they forward to the Resource engine with the
  pointer found in the entry, and the setters leave the tree and the log as they are.
\<close>

theorem guarded_facade_on_non_observation:
  assumes "entryAt hub e = Some blk"
      and "type (obj blk) \<noteq> ADMIN_ENTRY_TYPE_OBSERVATION"
  shows "resTree_QueryMin res_QueryMin hub e startTime = Inr NAN
       \<and> resTree_QueryMax res_QueryMax hub e startTime = Inr NAN
       \<and> resTree_QueryMean res_QueryMean hub e startTime = Inr NAN
       \<and> resTree_QueryStdDev res_QueryStdDev hub e startTime = Inr NAN
       \<and> resTree_GetJsonExtraction res_GetJsonExtraction hub e
           = Inr ([], log_msg LOG_DEBUG ''Not an observation'' hub)
       \<and> resTree_IsObservationConfig res_IsConfig hub e
           = Inr (False, log_msg LOG_CRIT ''Not an observation'' hub)
       \<and> resTree_SetJsonExtraction res_SetJsonExtraction hub e extractionSpec
           = Inr (log_msg LOG_CRIT ''Not an observation'' hub)
       \<and> resTree_MarkObservationAsConfig res_MarkAsConfig hub e
           = Inr (log_msg LOG_CRIT ''Not an observation'' hub)
       \<and> resTree_SetDestination res_SetDestination hub e destination = Inr hub
       \<and> resTree_ReadBufferJson res_ReadBufferJson hub e startAfter outputFile handlerPtr
            contextPtr
           = Inl (LE_FATAL ''obsEntry->type == ADMIN_ENTRY_TYPE_OBSERVATION'')
       \<and> resTree_FindBufferedSampleAfter res_FindBufferedSampleAfter hub e startAfter
           = Inl (LE_FATAL ''obsEntry->type == ADMIN_ENTRY_TYPE_OBSERVATION'')
       \<and> (u (obj blk) = resourcePtr p \<longrightarrow>
             resTree_SetMinPeriod res_SetMinPeriod hub e minPeriod
               = Inr (hub\<lparr>res := res_SetMinPeriod (res hub) p minPeriod\<rparr>)
           \<and> resTree_GetMinPeriod res_GetMinPeriod hub e = Inr (res_GetMinPeriod (res hub) p)
           \<and> resTree_SetHighLimit res_SetHighLimit hub e highLimit
               = Inr (hub\<lparr>res := res_SetHighLimit (res hub) p highLimit\<rparr>)
           \<and> resTree_GetHighLimit res_GetHighLimit hub e = Inr (res_GetHighLimit (res hub) p)
           \<and> resTree_SetLowLimit res_SetLowLimit hub e lowLimit
               = Inr (hub\<lparr>res := res_SetLowLimit (res hub) p lowLimit\<rparr>)
           \<and> resTree_GetLowLimit res_GetLowLimit hub e = Inr (res_GetLowLimit (res hub) p)
           \<and> resTree_SetChangeBy res_SetChangeBy hub e change
               = Inr (hub\<lparr>res := res_SetChangeBy (res hub) p change\<rparr>)
           \<and> resTree_GetChangeBy res_GetChangeBy hub e = Inr (res_GetChangeBy (res hub) p)
           \<and> resTree_SetTransform res_SetTransform hub e transformType paramsPtr paramsSize
               = Inr (hub\<lparr>res := res_SetTransform (res hub) p transformType paramsPtr
                                    paramsSize\<rparr>)
           \<and> resTree_GetTransform res_GetTransform hub e = Inr (res_GetTransform (res hub) p)
           \<and> resTree_SetBufferMaxCount res_SetBufferMaxCount hub e count
               = Inr (hub\<lparr>res := res_SetBufferMaxCount (res hub) p count\<rparr>)
           \<and> resTree_GetBufferMaxCount res_GetBufferMaxCount hub e
               = Inr (res_GetBufferMaxCount (res hub) p)
           \<and> resTree_SetBufferBackupPeriod res_SetBufferBackupPeriod hub e seconds
               = Inr (hub\<lparr>res := res_SetBufferBackupPeriod (res hub) p seconds\<rparr>)
           \<and> resTree_GetBufferBackupPeriod res_GetBufferBackupPeriod hub e
               = Inr (res_GetBufferBackupPeriod (res hub) p))"
proof -
  have guarded: "resTree_QueryMin res_QueryMin hub e startTime = Inr NAN
       \<and> resTree_QueryMax res_QueryMax hub e startTime = Inr NAN
       \<and> resTree_QueryMean res_QueryMean hub e startTime = Inr NAN
       \<and> resTree_QueryStdDev res_QueryStdDev hub e startTime = Inr NAN
       \<and> resTree_GetJsonExtraction res_GetJsonExtraction hub e
           = Inr ([], log_msg LOG_DEBUG ''Not an observation'' hub)
       \<and> resTree_IsObservationConfig res_IsConfig hub e
           = Inr (False, log_msg LOG_CRIT ''Not an observation'' hub)
       \<and> resTree_SetJsonExtraction res_SetJsonExtraction hub e extractionSpec
           = Inr (log_msg LOG_CRIT ''Not an observation'' hub)
       \<and> resTree_MarkObservationAsConfig res_MarkAsConfig hub e
           = Inr (log_msg LOG_CRIT ''Not an observation'' hub)
       \<and> resTree_SetDestination res_SetDestination hub e destination = Inr hub"
    using assms
    by (simp add: resTree_QueryMin_def resTree_QueryMax_def resTree_QueryMean_def
        resTree_QueryStdDev_def resTree_Query_def resTree_GetJsonExtraction_def
        resTree_IsObservationConfig_def resTree_SetJsonExtraction_def
        resTree_MarkObservationAsConfig_def resTree_SetDestination_def entry_type_def)
  have asserted: "resTree_ReadBufferJson res_ReadBufferJson hub e startAfter outputFile
            handlerPtr contextPtr
           = Inl (LE_FATAL ''obsEntry->type == ADMIN_ENTRY_TYPE_OBSERVATION'')
       \<and> resTree_FindBufferedSampleAfter res_FindBufferedSampleAfter hub e startAfter
           = Inl (LE_FATAL ''obsEntry->type == ADMIN_ENTRY_TYPE_OBSERVATION'')"
    using assms
    by (simp add: resTree_ReadBufferJson_def resTree_FindBufferedSampleAfter_def
          entry_type_def)
  have ptr: "entry_resourcePtr hub e = Inr p" if "u (obj blk) = resourcePtr p"
    using assms(1) that by (simp add: entry_resourcePtr_def)
  have forwarded: "u (obj blk) = resourcePtr p \<longrightarrow>
             resTree_SetMinPeriod res_SetMinPeriod hub e minPeriod
               = Inr (hub\<lparr>res := res_SetMinPeriod (res hub) p minPeriod\<rparr>)
           \<and> resTree_GetMinPeriod res_GetMinPeriod hub e = Inr (res_GetMinPeriod (res hub) p)
           \<and> resTree_SetHighLimit res_SetHighLimit hub e highLimit
               = Inr (hub\<lparr>res := res_SetHighLimit (res hub) p highLimit\<rparr>)
           \<and> resTree_GetHighLimit res_GetHighLimit hub e = Inr (res_GetHighLimit (res hub) p)
           \<and> resTree_SetLowLimit res_SetLowLimit hub e lowLimit
               = Inr (hub\<lparr>res := res_SetLowLimit (res hub) p lowLimit\<rparr>)
           \<and> resTree_GetLowLimit res_GetLowLimit hub e = Inr (res_GetLowLimit (res hub) p)
           \<and> resTree_SetChangeBy res_SetChangeBy hub e change
               = Inr (hub\<lparr>res := res_SetChangeBy (res hub) p change\<rparr>)
           \<and> resTree_GetChangeBy res_GetChangeBy hub e = Inr (res_GetChangeBy (res hub) p)
           \<and> resTree_SetTransform res_SetTransform hub e transformType paramsPtr paramsSize
               = Inr (hub\<lparr>res := res_SetTransform (res hub) p transformType paramsPtr
                                    paramsSize\<rparr>)
           \<and> resTree_GetTransform res_GetTransform hub e = Inr (res_GetTransform (res hub) p)
           \<and> resTree_SetBufferMaxCount res_SetBufferMaxCount hub e count
               = Inr (hub\<lparr>res := res_SetBufferMaxCount (res hub) p count\<rparr>)
           \<and> resTree_GetBufferMaxCount res_GetBufferMaxCount hub e
               = Inr (res_GetBufferMaxCount (res hub) p)
           \<and> resTree_SetBufferBackupPeriod res_SetBufferBackupPeriod hub e seconds
               = Inr (hub\<lparr>res := res_SetBufferBackupPeriod (res hub) p seconds\<rparr>)
           \<and> resTree_GetBufferBackupPeriod res_GetBufferBackupPeriod hub e
               = Inr (res_GetBufferBackupPeriod (res hub) p)"
    by (simp add: ptr resTree_SetMinPeriod_def resTree_GetMinPeriod_def
          resTree_SetHighLimit_def resTree_GetHighLimit_def resTree_SetLowLimit_def
          resTree_GetLowLimit_def resTree_SetChangeBy_def resTree_GetChangeBy_def
          resTree_SetTransform_def resTree_GetTransform_def resTree_SetBufferMaxCount_def
          resTree_GetBufferMaxCount_def resTree_SetBufferBackupPeriod_def
          resTree_GetBufferBackupPeriod_def)
  from guarded asserted forwarded show ?thesis by blast
qed

theorem guarded_facade_on_non_observation_witness:
  "resTree_QueryMin rec_Query hub_input 1 (Val 0) = Inr NAN
   \<and> resTree_QueryMax rec_Query hub_input 1 (Val 0) = Inr NAN
   \<and> resTree_QueryMean rec_Query hub_input 1 (Val 0) = Inr NAN
   \<and> resTree_QueryStdDev rec_Query hub_input 1 (Val 0) = Inr NAN
   \<and> resTree_GetJsonExtraction rec_GetJsonExtraction hub_input 1
       = Inr ([], log_msg LOG_DEBUG ''Not an observation'' hub_input)
   \<and> resTree_IsObservationConfig rec_IsConfig hub_input 1
       = Inr (False, log_msg LOG_CRIT ''Not an observation'' hub_input)
   \<and> resTree_SetJsonExtraction rec_SetJsonExtraction hub_input 1 ''a.b[1]''
       = Inr (log_msg LOG_CRIT ''Not an observation'' hub_input)
   \<and> resTree_MarkObservationAsConfig rec_MarkAsConfig hub_input 1
       = Inr (log_msg LOG_CRIT ''Not an observation'' hub_input)
   \<and> resTree_SetDestination rec_SetDestination hub_input 1 ''store'' = Inr hub_input
   \<and> resTree_FindBufferedSampleAfter rec_FindBufferedSampleAfter hub_input 1 NAN
       = Inl (LE_FATAL ''obsEntry->type == ADMIN_ENTRY_TYPE_OBSERVATION'')
   \<and> resTree_SetMinPeriod rec_SetMinPeriod hub_input 1 (Val 5)
       = Inr (hub_input\<lparr>res := res hub_input @ [MinPeriodSet (Some 0) (Val 5)]\<rparr>)
   \<and> resTree_GetMinPeriod rec_GetMinPeriod hub_input 1 = Inr (Val 0)"
proof -
  have t: "type (obj (entry_block 1 (Some 0) ''a'' [] ADMIN_ENTRY_TYPE_INPUT
                        (resourcePtr (Some 0)))) \<noteq> ADMIN_ENTRY_TYPE_OBSERVATION"
    by (simp add: entry_block_def)
  have v: "u (obj (entry_block 1 (Some 0) ''a'' [] ADMIN_ENTRY_TYPE_INPUT
                     (resourcePtr (Some 0)))) = resourcePtr (Some 0)"
    by (simp add: entry_block_def)
  note inst = guarded_facade_on_non_observation[OF entryAt_hub_input t,
      where p = "Some 0" and res_QueryMin = rec_Query and res_QueryMax = rec_Query
        and res_QueryMean = rec_Query and res_QueryStdDev = rec_Query
        and res_GetJsonExtraction = rec_GetJsonExtraction and res_IsConfig = rec_IsConfig
        and res_SetJsonExtraction = rec_SetJsonExtraction
        and res_MarkAsConfig = rec_MarkAsConfig and res_SetDestination = rec_SetDestination
        and res_FindBufferedSampleAfter = rec_FindBufferedSampleAfter
        and res_SetMinPeriod = rec_SetMinPeriod and res_GetMinPeriod = rec_GetMinPeriod
        and startTime = "Val 0" and extractionSpec = "''a.b[1]''"
        and destination = "''store''" and startAfter = NAN and minPeriod = "Val 5"
        and res_ReadBufferJson = "\<lambda>g p a f (h::unit) (c::unit). g"
        and outputFile = 0 and handlerPtr = "()" and contextPtr = "()"
        and res_SetHighLimit = rec_SetMinPeriod and res_GetHighLimit = rec_GetMinPeriod
        and res_SetLowLimit = rec_SetMinPeriod and res_GetLowLimit = rec_GetMinPeriod
        and res_SetChangeBy = rec_SetMinPeriod and res_GetChangeBy = rec_GetMinPeriod
        and highLimit = "Val 5" and lowLimit = "Val 5" and change = "Val 5"
        and res_SetTransform = "\<lambda>g p (t::unit) ps n. g" and transformType = "()"
        and paramsPtr = None and paramsSize = 0 and res_GetTransform = "\<lambda>g p. ()"
        and res_SetBufferMaxCount = "\<lambda>g p (c::32 word). g" and count = 0
        and res_GetBufferMaxCount = "\<lambda>g p. (0::32 word)"
        and res_SetBufferBackupPeriod = "\<lambda>g p (c::32 word). g" and seconds = 0
        and res_GetBufferBackupPeriod = "\<lambda>g p. (0::32 word)"]
  have pre: "resTree_QueryMin rec_Query hub_input 1 (Val 0) = Inr NAN
   \<and> resTree_QueryMax rec_Query hub_input 1 (Val 0) = Inr NAN
   \<and> resTree_QueryMean rec_Query hub_input 1 (Val 0) = Inr NAN
   \<and> resTree_QueryStdDev rec_Query hub_input 1 (Val 0) = Inr NAN
   \<and> resTree_GetJsonExtraction rec_GetJsonExtraction hub_input 1
       = Inr ([], log_msg LOG_DEBUG ''Not an observation'' hub_input)
   \<and> resTree_IsObservationConfig rec_IsConfig hub_input 1
       = Inr (False, log_msg LOG_CRIT ''Not an observation'' hub_input)
   \<and> resTree_SetJsonExtraction rec_SetJsonExtraction hub_input 1 ''a.b[1]''
       = Inr (log_msg LOG_CRIT ''Not an observation'' hub_input)
   \<and> resTree_MarkObservationAsConfig rec_MarkAsConfig hub_input 1
       = Inr (log_msg LOG_CRIT ''Not an observation'' hub_input)
   \<and> resTree_SetDestination rec_SetDestination hub_input 1 ''store'' = Inr hub_input
   \<and> resTree_FindBufferedSampleAfter rec_FindBufferedSampleAfter hub_input 1 NAN
       = Inl (LE_FATAL ''obsEntry->type == ADMIN_ENTRY_TYPE_OBSERVATION'')
   \<and> resTree_SetMinPeriod rec_SetMinPeriod hub_input 1 (Val 5)
       = Inr (hub_input\<lparr>res := rec_SetMinPeriod (res hub_input) (Some 0) (Val 5)\<rparr>)
   \<and> resTree_GetMinPeriod rec_GetMinPeriod hub_input 1
       = Inr (rec_GetMinPeriod (res hub_input) (Some 0))"
    using inst v by blast
  then show ?thesis
    by (simp only: rec_SetMinPeriod_def rec_GetMinPeriod_def)
qed

text \<open>
  C9 as stated fails: \<open>resTree_SetMinPeriod\<close> is for observations only, has no check and
  forwards to the Resource engine also for an input. Nothing is logged.
\<close>

theorem unguarded_setter_counterexample:
  "entry_type hub_input 1 = Inr ADMIN_ENTRY_TYPE_INPUT
   \<and> resTree_SetMinPeriod rec_SetMinPeriod hub_input 1 (Val 5)
       = Inr (hub_input\<lparr>res := res hub_input @ [MinPeriodSet (Some 0) (Val 5)]\<rparr>)
   \<and> resTree_SetMinPeriod rec_SetMinPeriod hub_input 1 (Val 5)
       \<noteq> Inr (log_msg LOG_CRIT ''Not an observation'' hub_input)"
proof -
  have t: "entry_type hub_input 1 = Inr ADMIN_ENTRY_TYPE_INPUT"
    using entryAt_hub_input by (simp add: entry_type_def entry_block_def)
  have s: "resTree_SetMinPeriod rec_SetMinPeriod hub_input 1 (Val 5)
       = Inr (hub_input\<lparr>res := res hub_input @ [MinPeriodSet (Some 0) (Val 5)]\<rparr>)"
    using entryAt_hub_input
    by (simp add: resTree_SetMinPeriod_def entry_resourcePtr_def entry_block_def
          rec_SetMinPeriod_def)
  have d: "hub_input\<lparr>res := res hub_input @ [MinPeriodSet (Some 0) (Val 5)]\<rparr>
             \<noteq> log_msg LOG_CRIT ''Not an observation'' hub_input"
    by (auto simp: log_msg_def dest: arg_cong[where f = hub_log])
  from t s d show ?thesis by simp
qed



text \<open>
  How the input under a deleted namespace comes about: the input is created at \<open>/a/b\<close>,
  then the newness of \<open>a\<close> is cleared and \<open>a\<close> is marked deleted.
\<close>

lemma input_under_zombie_made:
  "bindO (resTree_CreateInput recording hub_init 0 ''/a/b'' IO_DATA_TYPE_NUMERIC ''degC'')
     (\<lambda>(r, h). case resTree_ClearNewness h 1 of
         Inr (Some h1) \<Rightarrow>
           (case resTree_SetDeleted h1 1 of Inr h2 \<Rightarrow> ret (r, h2) | Inl a \<Rightarrow> stop a)
       | Inr None \<Rightarrow> stop (UNDEFINED [])
       | Inl a \<Rightarrow> stop a) = ret (LE_OK, hub_input_under_zombie)"
  by code_simp


text \<open>
  C1, as the code has it. When \<open>resTree_GetResource\<close> succeeds on a path whose entry,
  found or created, is a namespace, the entry becomes a placeholder and its Resource is
  the one made by \<open>res_CreateObsPlaceholder\<close> exactly when the base is the observations
  namespace or the path begins with \<open>/obs/\<close>, and the one made by
  \<open>res_CreateIoPlaceholder\<close> otherwise; the Resource engine is left in the state in which
  that constructor, and no other call, has left it.
\<close>

lemma GetEntry_GetResource_entry:
  assumes "resTree_GetEntry X hub base path = Some (Inr (LE_OK, Some e, hub1))"
  shows "\<not> hub_IsResourcePathMalformed X path
       \<and> (\<exists>created. GetResource_entry X hub base path = Some (Inr (Some e, created, LE_OK, hub1)))"
  using assms
  by (auto simp: resTree_GetEntry_def GetResource_entry_def bindO_eq_ret
           split: if_splits sum.splits option.splits)

theorem placeholder_routing:
  assumes entry: "resTree_GetEntry X hub baseNamespace path = Some (Inr (LE_OK, Some e, hub1))"
      and ns: "entryAt hub1 e = Some blk" "type (obj blk) = ADMIN_ENTRY_TYPE_NAMESPACE"
      and obs: "resTree_GetObsNamespace X hub1 = Some (Inr (obsNamespace, hub2))"
      and ok: "resTree_GetResource X hub baseNamespace path = Some (Inr (LE_OK, entryRef, hub3))"
  shows "entryRef = Some e
       \<and> (\<exists>blk3. entryAt hub3 e = Some blk3
              \<and> type (obj blk3) = ADMIN_ENTRY_TYPE_PLACEHOLDER
              \<and> u (obj blk3) =
                  resourcePtr
                    (fst (if baseNamespace = obsNamespace \<or> take 5 path = ''/obs/''
                          then res_CreateObsPlaceholder X (res hub2) e
                          else res_CreateIoPlaceholder X (res hub2) e)))
       \<and> res hub3 =
           snd (if baseNamespace = obsNamespace \<or> take 5 path = ''/obs/''
                then res_CreateObsPlaceholder X (res hub2) e
                else res_CreateIoPlaceholder X (res hub2) e)
       \<and> RootPtr hub3 = RootPtr hub2 \<and> hub_log hub3 = hub_log hub2"
proof -
  from GetEntry_GetResource_entry[OF entry] obtain created where
    nm: "\<not> hub_IsResourcePathMalformed X path" and
    ge: "GetResource_entry X hub baseNamespace path = Some (Inr (Some e, created, LE_OK, hub1))"
    by blast
  let ?mk = "if baseNamespace = obsNamespace \<or> take 5 path = ''/obs/''
             then res_CreateObsPlaceholder X (res hub2) e
             else res_CreateIoPlaceholder X (res hub2) e"
  obtain p g where mk: "?mk = (p, g)" by (cases ?mk)
  have cp: "CreatePlaceholderForNamespace X hub1 baseNamespace path e =
        (case p of
           Some q \<Rightarrow>
             (case entryAt hub2 e of
                None \<Rightarrow> stop (UNDEFINED ''entryRef'')
              | Some b \<Rightarrow>
                  ret (LE_OK,
                       entry_put e
                         (Some (b\<lparr>obj := (obj b)\<lparr>type := ADMIN_ENTRY_TYPE_PLACEHOLDER,
                                                u := resourcePtr (Some q)\<rparr>\<rparr>))
                         (hub2\<lparr>res := g\<rparr>)))
         | None \<Rightarrow>
             ret (LE_NO_MEMORY,
                  log_msg LOG_ERR ''Failed to allocate a placeholder'' (hub2\<lparr>res := g\<rparr>)))"
    using ns obs mk
    by (simp add: CreatePlaceholderForNamespace_def strncmp_eq_def)
  from ok nm ge ns cp obtain q b where
    p: "p = Some q" and b: "entryAt hub2 e = Some b" and
    e3: "entryRef = Some e" and
    h3: "hub3 = entry_put e
                 (Some (b\<lparr>obj := (obj b)\<lparr>type := ADMIN_ENTRY_TYPE_PLACEHOLDER,
                                        u := resourcePtr (Some q)\<rparr>\<rparr>))
                 (hub2\<lparr>res := g\<rparr>)"
    by (auto simp: resTree_GetResource_def GetResource_placeholder_def bindO_eq_ret
             split: option.splits if_splits)
  have "entryAt (hub2\<lparr>res := g\<rparr>) e = Some b" using b by (simp add: entryAt_def)
  from entryAt_put_same[OF this] h3 p mk e3 show ?thesis by (simp add: entry_put_def)
qed

theorem placeholder_routing_witness:
  "resTree_GetEntry recording hub_init 0 ''/obs/x'' = Some (Inr (LE_OK, Some 2, hub_obs_x))
   \<and> resTree_GetObsNamespace recording hub_obs_x = Some (Inr (1, hub_obs_x))
   \<and> resTree_GetResource recording hub_init 0 ''/obs/x''
       = Some (Inr (LE_OK, Some 2, hub_obs_x_placeholder (ObsPlaceholderCreated 2)))
   \<and> (\<exists>blk3. entryAt (hub_obs_x_placeholder (ObsPlaceholderCreated 2)) 2 = Some blk3
          \<and> type (obj blk3) = ADMIN_ENTRY_TYPE_PLACEHOLDER
          \<and> u (obj blk3) = resourcePtr (fst (rec_CreateObsPlaceholder [] 2)))
   \<and> res (hub_obs_x_placeholder (ObsPlaceholderCreated 2)) = [ObsPlaceholderCreated 2]
   \<and> snd (rec_CreateObsPlaceholder [] 2) = [ObsPlaceholderCreated 2]"
proof -
  have a: "resTree_GetEntry recording hub_init 0 ''/obs/x''
             = Some (Inr (LE_OK, Some 2, hub_obs_x))"
    by code_simp
  have b: "entryAt hub_obs_x 2
             = Some (entry_block 1 (Some 1) ''x'' [] ADMIN_ENTRY_TYPE_NAMESPACE (flags RES_FLAG_NEW))"
    by (simp add: hub_obs_x_def entryAt_def blockAt_def)
  have c: "type (obj (entry_block 1 (Some 1) ''x'' [] ADMIN_ENTRY_TYPE_NAMESPACE
                        (flags RES_FLAG_NEW))) = ADMIN_ENTRY_TYPE_NAMESPACE"
    by (simp add: entry_block_def)
  have d: "resTree_GetObsNamespace recording hub_obs_x = Some (Inr (1, hub_obs_x))"
    by code_simp
  have e: "resTree_GetResource recording hub_init 0 ''/obs/x''
             = Some (Inr (LE_OK, Some 2, hub_obs_x_placeholder (ObsPlaceholderCreated 2)))"
    by code_simp
  have f: "snd (rec_CreateObsPlaceholder [] 2) = [ObsPlaceholderCreated 2]"
    by (simp add: rec_CreateObsPlaceholder_def)
  from placeholder_routing[OF a b c d e] a d e f show ?thesis
    by (simp add: recording_def hub_obs_x_def)
qed

text \<open>
  C1 as stated fails in its last part: on the tree that \<open>resTree_Init\<close> leaves, the path
  \<open>obs/x\<close> relative to the root does not begin with \<open>/obs/\<close> and the root is not the
  observations namespace, so the placeholder comes from \<open>res_CreateIoPlaceholder\<close>.
\<close>

theorem relative_obs_path_counterexample:
  "resTree_Init recording [] = Inr hub_init
   \<and> resTree_GetResource recording hub_init 0 ''obs/x''
       = Some (Inr (LE_OK, Some 2, hub_obs_x_placeholder (IoPlaceholderCreated 2)))"
  by code_simp

text \<open>
  C6, as the code has it. On a JSON sample \<open>dataSample_ExtractJson\<close> always returns. When
  the extraction fails it returns NULL and writes no type. A sample that it returns is a
  block that was free before, held by one reference; its type is the one the
  specification gives for the JSON type extracted; its timestamp is the timestamp of the
  source, unless that compares equal to \<open>IO_NOW\<close>, in which case it is the reading of the
  clock.
\<close>

lemma sample_put_length:
  "length (samplePool (sample_put r x st) q) = length (samplePool st q)"
  by (cases "fst r"; cases q)
     (auto simp: sample_put_def samplePool_def samplePool_update_def)

lemma CreateSample_Some:
  assumes "CreateSample X st pool ts = (Some r, st1)"
  shows "sampleAt st r = None \<and> snd r < length (samplePool st1 (fst r))
       \<and> StringPool st1 = StringPool st \<and> fst r = pool
       \<and> sampleAt st1 r =
           Some \<lparr>refCount = 1,
                 obj = \<lparr>timestamp = (if double_eq ts (IO_NOW X) then clock_stamp X st else ts),
                        sample_value = no_value\<rparr>\<rparr>"
proof -
  from assms obtain i where i: "hub_MemAlloc (samplePool st pool) = Some i"
    and r: "r = (pool, i)"
    and st1: "st1 = sample_put (pool, i)
                 (Some \<lparr>refCount = 1,
                        obj = \<lparr>timestamp = (if double_eq ts (IO_NOW X) then clock_stamp X st else ts),
                               sample_value = no_value\<rparr>\<rparr>) st"
    by (auto simp: CreateSample_def Let_def clock_stamp_def split: option.splits)
  from hub_MemAlloc_Some[OF i] have lt: "i < length (samplePool st pool)"
    and free: "samplePool st pool ! i = None" by auto
  have sp: "StringPool st1 = StringPool st"
    unfolding st1 by (cases pool) (simp_all add: sample_put_def samplePool_update_def)
  show ?thesis
    using lt free sp unfolding r st1
    by (simp add: sampleAt_put_same sample_put_length) (simp add: sampleAt_def blockAt_def)
qed

lemma set_sample_value_at:
  assumes "sampleAt st r = Some b"
  shows "sampleAt (set_sample_value r v st) r = Some (b\<lparr>obj := (obj b)\<lparr>sample_value := v\<rparr>\<rparr>)"
  using assms sampleAt_in_pool[OF assms] by (simp add: set_sample_value_def sampleAt_put_same)

lemma CreateString_result:
  "\<exists>r st1. dataSample_CreateString X st ts v = Inr (r, st1)
        \<and> (\<forall>new. r = Some new \<longrightarrow>
              sampleAt st new = None
            \<and> (\<exists>nb. sampleAt st1 new = Some nb \<and> refCount nb = 1
                   \<and> timestamp (obj nb) = (if double_eq ts (IO_NOW X) then clock_stamp X st else ts)))"
proof (cases "CreateSample X st StringBasedDataSamplePool ts")
  case (Pair a st0)
  show ?thesis
  proof (cases a)
    case None
    with Pair show ?thesis by (auto simp: dataSample_CreateString_def)
  next
    case (Some new)
    note cs = CreateSample_Some[OF Pair[unfolded Some]]
    show ?thesis
    proof (cases "le_mem_StrDup X (StringPool st0) v")
      case dup: (Some sp)
      have "sampleAt (set_sample_value new (stringPtr (Some v)) (st0\<lparr>StringPool := sp\<rparr>)) new
            = Some \<lparr>refCount = 1,
                 obj = \<lparr>timestamp = (if double_eq ts (IO_NOW X) then clock_stamp X st else ts),
                        sample_value = stringPtr (Some v)\<rparr>\<rparr>"
        using cs by (subst set_sample_value_at) auto
      with Pair Some dup cs show ?thesis
        by (auto simp: dataSample_CreateString_def)
    next
      case None
      have at: "sampleAt (set_sample_value new (stringPtr None) st0) new
            = Some \<lparr>refCount = 1,
                 obj = \<lparr>timestamp = (if double_eq ts (IO_NOW X) then clock_stamp X st else ts),
                        sample_value = stringPtr None\<rparr>\<rparr>"
        using cs by (subst set_sample_value_at) auto
      have "\<exists>st4. le_mem_Release_sample X
               ((set_sample_value new (stringPtr None) st0)
                  \<lparr>sample_log := sample_log (set_sample_value new (stringPtr None) st0)
                     @ [(LOG_ERR, ''Could not allocate space for string of size'')]\<rparr>) new = Inr st4"
        using at cs
        by (simp add: le_mem_Release_sample_def sampleAt_def samplePool_def
              StringSampleDestructor_def dataSample_GetString_def)
      with Pair Some None show ?thesis
        by (auto simp: dataSample_CreateString_def Let_def)
    qed
  qed
qed

theorem extract_json_result:
  assumes src: "sampleAt st sampleRef = Some blk"
      and js: "sample_value (obj blk) = stringPtr (Some json)"
      and ex: "json_Extract X (HUB_MAX_STRING_BYTES X) json extractionSpec = (result, buff, jt)"
  shows "\<exists>r dt st1. dataSample_ExtractJson X st sampleRef extractionSpec = Inr (r, dt, st1)
         \<and> (result \<noteq> LE_OK \<longrightarrow> r = None \<and> dt = None)
         \<and> (\<forall>new. r = Some new \<longrightarrow>
               result = LE_OK \<and> dt = Some (spec_extracted_type jt)
             \<and> sampleAt st new = None
             \<and> (\<exists>nb. sampleAt st1 new = Some nb \<and> refCount nb = 1
                    \<and> timestamp (obj nb) =
                        (if double_eq (timestamp (obj blk)) (IO_NOW X) then clock_stamp X st
                         else timestamp (obj blk))))"
proof (cases "result = LE_OK")
  case False
  with src js ex show ?thesis
    by (simp add: dataSample_ExtractJson_def dataSample_GetJson_def dataSample_GetString_def)
next
  case True
  let ?ts = "timestamp (obj blk)"
  let ?stamp = "if double_eq ?ts (IO_NOW X) then clock_stamp X st else ?ts"
  have unfold: "dataSample_ExtractJson X st sampleRef extractionSpec =
    (case jt of
       JSON_TYPE_NULL \<Rightarrow>
         (case dataSample_CreateTrigger X st ?ts of
            (r, st1) \<Rightarrow> Inr (r, Some IO_DATA_TYPE_TRIGGER, st1))
     | JSON_TYPE_BOOLEAN \<Rightarrow>
         (case dataSample_CreateBoolean X st ?ts (json_ConvertToBoolean X buff) of
            (r, st1) \<Rightarrow> Inr (r, Some IO_DATA_TYPE_BOOLEAN, st1))
     | JSON_TYPE_NUMBER \<Rightarrow>
         (case dataSample_CreateNumeric X st ?ts (json_ConvertToNumber X buff) of
            (r, st1) \<Rightarrow> Inr (r, Some IO_DATA_TYPE_NUMERIC, st1))
     | JSON_TYPE_STRING \<Rightarrow>
         bindA (dataSample_CreateString X st ?ts buff)
           (\<lambda>(r, st1). Inr (r, Some IO_DATA_TYPE_STRING, st1))
     | JSON_TYPE_OBJECT \<Rightarrow>
         bindA (dataSample_CreateJson X st ?ts buff)
           (\<lambda>(r, st1). Inr (r, Some IO_DATA_TYPE_JSON, st1))
     | JSON_TYPE_ARRAY \<Rightarrow>
         bindA (dataSample_CreateJson X st ?ts buff)
           (\<lambda>(r, st1). Inr (r, Some IO_DATA_TYPE_JSON, st1)))"
    using src js ex True
    by (simp add: dataSample_ExtractJson_def dataSample_GetJson_def dataSample_GetString_def
          dataSample_GetTimestamp_def)
  have plain: "\<exists>nb. sampleAt (set_sample_value new v st0) new = Some nb \<and> refCount nb = 1
                 \<and> timestamp (obj nb) = ?stamp"
    if "CreateSample X st pool ?ts = (Some new, st0)" for pool new st0 v
    using CreateSample_Some[OF that] by (subst set_sample_value_at) auto
  from CreateString_result[of X st ?ts buff] obtain rs sts where
    str: "dataSample_CreateString X st ?ts buff = Inr (rs, sts)"
      "\<forall>new. rs = Some new \<longrightarrow> sampleAt st new = None
            \<and> (\<exists>nb. sampleAt sts new = Some nb \<and> refCount nb = 1
                   \<and> timestamp (obj nb) = ?stamp)"
    by blast
  show ?thesis
  proof (cases jt)
    case JSON_TYPE_NULL
    then show ?thesis
      using unfold True
      by (cases "CreateSample X st NonStringDataSamplePool ?ts")
         (auto simp: dataSample_CreateTrigger_def spec_extracted_type_def
               dest!: CreateSample_Some)
  next
    case JSON_TYPE_BOOLEAN
    then show ?thesis
      using unfold True plain
      by (cases "CreateSample X st NonStringDataSamplePool ?ts")
         (auto simp: dataSample_CreateBoolean_def spec_extracted_type_def
               split: option.splits dest: CreateSample_Some)
  next
    case JSON_TYPE_NUMBER
    then show ?thesis
      using unfold True plain
      by (cases "CreateSample X st NonStringDataSamplePool ?ts")
         (auto simp: dataSample_CreateNumeric_def spec_extracted_type_def
               split: option.splits dest: CreateSample_Some)
  next
    case JSON_TYPE_STRING
    with str unfold True show ?thesis
      by (simp add: spec_extracted_type_def)
  next
    case JSON_TYPE_OBJECT
    with str unfold True show ?thesis
      by (simp add: spec_extracted_type_def dataSample_CreateJson_def)
  next
    case JSON_TYPE_ARRAY
    with str unfold True show ?thesis
      by (simp add: spec_extracted_type_def dataSample_CreateJson_def)
  qed
qed

lemma extract_number_at:
  "dataSample_ExtractJson counting (samples_with ts json_document)
      (StringBasedDataSamplePool, 0) ''a.b[1]''
    = Inr (Some (NonStringDataSamplePool, 0), Some IO_DATA_TYPE_NUMERIC,
           (samples_with ts json_document)
             \<lparr>NonStringPool :=
                [Some (numeric_sample (if double_eq ts (Val 0) then Val 1000 else ts) (Val 20)),
                 None]\<rparr>)"
  by (simp add: dataSample_ExtractJson_def dataSample_GetJson_def dataSample_GetString_def
        sample_hi string_sample_def counting_def table_Extract_def dataSample_GetTimestamp_def
        dataSample_CreateNumeric_def CreateSample_def hub_MemAlloc_def samplePool_def
        samples_with_def upt_rec sample_put_def samplePool_update_def set_sample_value_def
        sampleAt_def blockAt_def table_ConvertToNumber_def numeric_sample_def
        exact_of_long_def exact_div_def exact_add_def)

theorem extract_json_result_witness:
  "json_Extract counting (HUB_MAX_STRING_BYTES counting) json_document ''a.b[1]''
     = (LE_OK, ''20'', JSON_TYPE_NUMBER)
   \<and> dataSample_ExtractJson counting (samples_with (Val 5) json_document)
        (StringBasedDataSamplePool, 0) ''a.b[1]''
       = Inr (Some (NonStringDataSamplePool, 0), Some IO_DATA_TYPE_NUMERIC,
              (samples_with (Val 5) json_document)
                \<lparr>NonStringPool := [Some (numeric_sample (Val 5) (Val 20)), None]\<rparr>)
   \<and> sampleAt (samples_with (Val 5) json_document) (NonStringDataSamplePool, 0) = None
   \<and> (\<exists>nb. sampleAt ((samples_with (Val 5) json_document)
                        \<lparr>NonStringPool := [Some (numeric_sample (Val 5) (Val 20)), None]\<rparr>)
               (NonStringDataSamplePool, 0) = Some nb
          \<and> refCount nb = 1 \<and> timestamp (obj nb) = Val 5)
   \<and> double_eq (Val 0) (IO_NOW counting)
   \<and> clock_stamp counting (samples_with (Val 0) json_document) = Val 1000
   \<and> dataSample_ExtractJson counting (samples_with (Val 0) json_document)
        (StringBasedDataSamplePool, 0) ''a.b[1]''
       = Inr (Some (NonStringDataSamplePool, 0), Some IO_DATA_TYPE_NUMERIC,
              (samples_with (Val 0) json_document)
                \<lparr>NonStringPool := [Some (numeric_sample (Val 1000) (Val 20)), None]\<rparr>)
   \<and> (\<exists>nb. sampleAt ((samples_with (Val 0) json_document)
                        \<lparr>NonStringPool := [Some (numeric_sample (Val 1000) (Val 20)), None]\<rparr>)
               (NonStringDataSamplePool, 0) = Some nb
          \<and> refCount nb = 1
          \<and> timestamp (obj nb) = clock_stamp counting (samples_with (Val 0) json_document))"
proof -
  have a: "sampleAt (samples_with ts json_document) (StringBasedDataSamplePool, 0)
             = Some (string_sample ts json_document)" for ts
    by (rule sample_hi)
  have b: "sample_value (obj (string_sample ts json_document))
             = stringPtr (Some json_document)" for ts
    by (simp add: string_sample_def)
  have c: "json_Extract counting (HUB_MAX_STRING_BYTES counting) json_document ''a.b[1]''
             = (LE_OK, ''20'', JSON_TYPE_NUMBER)"
    by (simp add: counting_def table_Extract_def)
  have d: "dataSample_ExtractJson counting (samples_with (Val 5) json_document)
        (StringBasedDataSamplePool, 0) ''a.b[1]''
       = Inr (Some (NonStringDataSamplePool, 0), Some IO_DATA_TYPE_NUMERIC,
              (samples_with (Val 5) json_document)
                \<lparr>NonStringPool := [Some (numeric_sample (Val 5) (Val 20)), None]\<rparr>)"
    using extract_number_at[of "Val 5"] by (simp add: double_eq_def)
  have d0: "dataSample_ExtractJson counting (samples_with (Val 0) json_document)
        (StringBasedDataSamplePool, 0) ''a.b[1]''
       = Inr (Some (NonStringDataSamplePool, 0), Some IO_DATA_TYPE_NUMERIC,
              (samples_with (Val 0) json_document)
                \<lparr>NonStringPool := [Some (numeric_sample (Val 1000) (Val 20)), None]\<rparr>)"
    using extract_number_at[of "Val 0"] by (simp add: double_eq_def)
  have n: "double_eq (Val 0) (IO_NOW counting)"
    by (simp add: double_eq_def counting_def)
  have k: "clock_stamp counting (samples_with (Val 0) json_document) = Val 1000"
    by (simp add: clock_stamp_def counting_def samples_with_def
          exact_of_long_def exact_div_def exact_add_def)
  have five: "sampleAt (samples_with (Val 5) json_document) (NonStringDataSamplePool, 0) = None
   \<and> (\<exists>nb. sampleAt ((samples_with (Val 5) json_document)
                        \<lparr>NonStringPool := [Some (numeric_sample (Val 5) (Val 20)), None]\<rparr>)
               (NonStringDataSamplePool, 0) = Some nb
          \<and> refCount nb = 1 \<and> timestamp (obj nb) = Val 5)"
    using extract_json_result[OF a b c, of "Val 5"] d
    by (simp add: string_sample_def double_eq_def counting_def)
  have now: "\<exists>nb. sampleAt ((samples_with (Val 0) json_document)
                        \<lparr>NonStringPool := [Some (numeric_sample (Val 1000) (Val 20)), None]\<rparr>)
               (NonStringDataSamplePool, 0) = Some nb
          \<and> refCount nb = 1
          \<and> timestamp (obj nb) = clock_stamp counting (samples_with (Val 0) json_document)"
    using extract_json_result[OF a b c, of "Val 0"] d0 n
    by (simp add: string_sample_def)
  from c d five n k d0 now show ?thesis by blast
qed

text \<open>
  C6 as stated fails on the timestamp: a source sample whose timestamp is \<open>IO_NOW\<close> (as
  \<open>dataSample_SetTimestamp\<close> can make it) gives a sample stamped by the clock.
\<close>

theorem extract_json_timestamp_counterexample:
  "dataSample_SetTimestamp (samples_with (Val 5) json_document)
      (StringBasedDataSamplePool, 0) (IO_NOW counting)
     = Inr (samples_with (Val 0) json_document)
   \<and> dataSample_GetTimestamp (samples_with (Val 0) json_document)
        (StringBasedDataSamplePool, 0) = Inr (Val 0)
   \<and> dataSample_ExtractJson counting (samples_with (Val 0) json_document)
        (StringBasedDataSamplePool, 0) ''a.b[1]''
       = Inr (Some (NonStringDataSamplePool, 0), Some IO_DATA_TYPE_NUMERIC,
              (samples_with (Val 0) json_document)
                \<lparr>NonStringPool := [Some (numeric_sample (Val 1000) (Val 20)), None]\<rparr>)
   \<and> dataSample_GetTimestamp
        ((samples_with (Val 0) json_document)
           \<lparr>NonStringPool := [Some (numeric_sample (Val 1000) (Val 20)), None]\<rparr>)
        (NonStringDataSamplePool, 0) = Inr (Val 1000)"
proof -
  have s: "dataSample_SetTimestamp (samples_with (Val 5) json_document)
      (StringBasedDataSamplePool, 0) (IO_NOW counting)
     = Inr (samples_with (Val 0) json_document)"
    by (simp add: dataSample_SetTimestamp_def sampleAt_def blockAt_def counting_def
          string_sample_def sample_put_def samplePool_update_def samplePool_def
          samples_with_def)
  have g: "dataSample_GetTimestamp (samples_with (Val 0) json_document)
        (StringBasedDataSamplePool, 0) = Inr (Val 0)"
    by (simp add: dataSample_GetTimestamp_def sample_hi string_sample_def)
  have e: "dataSample_ExtractJson counting (samples_with (Val 0) json_document)
        (StringBasedDataSamplePool, 0) ''a.b[1]''
       = Inr (Some (NonStringDataSamplePool, 0), Some IO_DATA_TYPE_NUMERIC,
              (samples_with (Val 0) json_document)
                \<lparr>NonStringPool := [Some (numeric_sample (Val 1000) (Val 20)), None]\<rparr>)"
    using extract_number_at[of "Val 0"] by (simp add: double_eq_def)
  have t: "dataSample_GetTimestamp
        ((samples_with (Val 0) json_document)
           \<lparr>NonStringPool := [Some (numeric_sample (Val 1000) (Val 20)), None]\<rparr>)
        (NonStringDataSamplePool, 0) = Inr (Val 1000)"
    by (simp add: dataSample_GetTimestamp_def sampleAt_def samplePool_def blockAt_def
          numeric_sample_def)
  from s g e t show ?thesis by simp
qed

section \<open>The claims about paths\<close>

lemma tree_linked_root:
  "tree_linked hub \<Longrightarrow> \<exists>r rb. RootPtr hub = Some r \<and> entryAt hub r = Some rb \<and> parentPtr (obj rb) = None"
  by (auto simp: tree_linked_def split: option.splits)

lemma tree_linked_child:
  assumes "tree_linked hub" "entryAt hub p = Some b" "c \<in> set (childList (obj b))"
  shows "\<exists>cb. entryAt hub c = Some cb \<and> parentPtr (obj cb) = Some p"
proof -
  from assms(2) have "p < length (EntryPool hub)"
    by (auto simp: entryAt_def blockAt_def split: if_splits)
  with assms(1) have "case entryAt hub p of
               None \<Rightarrow> True
             | Some b \<Rightarrow>
                 list_all
                   (\<lambda>c. case entryAt hub c of
                           None \<Rightarrow> False
                         | Some cb \<Rightarrow> parentPtr (obj cb) = Some p)
                   (childList (obj b))"
    by (simp add: tree_linked_def list_all_iff)
  with assms(2,3) show ?thesis
    by (auto simp: list_all_iff split: option.splits)
qed

lemma FindChildEx_loop_Some:
  "FindChildEx_loop X hub links nm wz = Inr (Some c) \<Longrightarrow>
     c \<in> set links \<and>
     (\<exists>cb. entryAt hub c = Some cb
          \<and> strncmp_eq nm (name (obj cb)) (HUB_MAX_ENTRY_NAME_BYTES X))"
  by (induction links) (auto split: option.splits sum.splits if_splits)

lemma strncmp_eq_short:
  assumes "strncmp_eq a b n" "length a < n"
  shows "b = a"
proof -
  from assms have t: "take n b = a" by (simp add: strncmp_eq_def)
  then have "length (take n b) < n" using assms(2) by simp
  then have "length b < n" by (simp add: min_def split: if_splits)
  with t show ?thesis by simp
qed

lemma skipSlash_parts: "skipSlash path = nextName path @ afterName path"
  by (simp add: nextName_def afterName_def)

lemma afterName_absolute: "absolute_form (afterName path) = afterName path"
proof (cases "afterName path")
  case Nil
  then show ?thesis by (simp add: absolute_form_def)
next
  case (Cons a rest)
  then have "dropWhile (\<lambda>c. c \<noteq> CHR ''/'') (skipSlash path) \<noteq> []"
    by (simp add: afterName_def)
  from hd_dropWhile[OF this] Cons have "a = CHR ''/''"
    by (simp add: afterName_def)
  with Cons show ?thesis by (simp add: absolute_form_def skipSlash_def)
qed

lemma absolute_form_step:
  assumes "path \<noteq> []"
  shows "absolute_form path = CHR ''/'' # nextName path @ absolute_form (afterName path)"
proof -
  have "absolute_form path = CHR ''/'' # skipSlash path"
    using assms by (simp add: absolute_form_def)
  also have "\<dots> = CHR ''/'' # nextName path @ afterName path"
    by (simp only: skipSlash_parts)
  also have "\<dots> = CHR ''/'' # nextName path @ absolute_form (afterName path)"
    by (simp only: afterName_absolute)
  finally show ?thesis .
qed

lemma GetPath_self:
  "0 < sz \<Longrightarrow> resTree_GetPath X hub sz (Some r) (Some r) = Some (Inr (0, Some []))"
  by (simp add: resTree_GetPath.simps le_result_value_def)

lemma GetPath_child:
  assumes root: "RootPtr hub = Some r" "entryAt hub r = Some rb" "parentPtr (obj rb) = None"
      and child: "entryAt hub c = Some cb" "parentPtr (obj cb) = Some cur"
      and up: "resTree_GetPath X hub sz (Some r) (Some cur) = Some (Inr (int (length q), Some q))"
      and fits: "length q + 1 + length (name (obj cb)) < sz"
  shows "resTree_GetPath X hub sz (Some r) (Some c) =
           Some (Inr (int (length (q @ CHR ''/'' # name (obj cb))),
                      Some (q @ CHR ''/'' # name (obj cb))))"
proof -
  have cr: "c \<noteq> r" using root child by auto
  show ?thesis
  proof (cases "cur = r")
    case True
    from fits have "0 < sz" by simp
    from GetPath_self[OF this, of X hub r] up True have "q = []" by simp
    with True cr root child fits show ?thesis
      by (subst resTree_GetPath.simps)
         (auto simp: GetPath_first_def le_utf8_Copy_def)
  next
    case False
    with cr root child fits up show ?thesis
      by (subst resTree_GetPath.simps)
         (auto simp: GetPath_append_def le_utf8_Copy_def)
  qed
qed

lemma find_then_path:
  assumes "tree_linked hub" and "RootPtr hub = Some r"
      and "FindEntry_loop X hub cur path = Inr (Some e)"
      and "resTree_GetPath X hub sz (Some r) (Some cur) = Some (Inr (int (length q), Some q))"
      and "length q + length (absolute_form path) < sz"
  shows "resTree_GetPath X hub sz (Some r) (Some e) =
           Some (Inr (int (length (q @ absolute_form path)), Some (q @ absolute_form path)))"
  using assms
proof (induction X hub cur path arbitrary: q rule: FindEntry_loop.induct)
  case (1 X hub currentEntry path)
  note unfold = FindEntry_loop.simps[of X hub currentEntry path]
  show ?case
  proof (cases "path = []")
    case True
    from "1.prems"(3) have "e = currentEntry"
      unfolding unfold using True by simp
    with "1.prems"(4) True show ?thesis
      by (simp add: absolute_form_def)
  next
    case False
    from "1.prems"(3) False have ne: "nextName path \<noteq> []"
      by (simp add: unfold split: if_splits)
    from "1.prems"(3) False ne have short: "length (nextName path) < HUB_MAX_ENTRY_NAME_BYTES X"
      by (simp add: unfold split: if_splits)
    from "1.prems"(3) False ne short obtain c where
      fc: "resTree_FindChildEx X hub currentEntry (nextName path) True = Inr (Some c)"
      by (simp add: unfold split: sum.splits option.splits)
    from "1.prems"(3) False ne short fc have
      nd: "resTree_IsDeleted hub c = Inr False"
      by (simp add: unfold split: sum.splits if_splits)
    from "1.prems"(3) False ne short fc nd have
      rest: "FindEntry_loop X hub c (afterName path) = Inr (Some e)"
      by (simp add: unfold)
    from fc obtain b where b: "entryAt hub currentEntry = Some b"
      and loop: "FindChildEx_loop X hub (childList (obj b)) (nextName path) True = Inr (Some c)"
      by (auto simp: resTree_FindChildEx_def split: option.splits)
    from FindChildEx_loop_Some[OF loop] obtain cb where
      mem: "c \<in> set (childList (obj b))" and cb: "entryAt hub c = Some cb"
      and cmp: "strncmp_eq (nextName path) (name (obj cb)) (HUB_MAX_ENTRY_NAME_BYTES X)"
      by blast
    from strncmp_eq_short[OF cmp short] have nm: "name (obj cb) = nextName path" .
    from tree_linked_child[OF "1.prems"(1) b mem] cb
    have par: "parentPtr (obj cb) = Some currentEntry" by auto
    from tree_linked_root[OF "1.prems"(1)] "1.prems"(2) obtain rb where
      rb: "entryAt hub r = Some rb" "parentPtr (obj rb) = None" by auto
    note step = absolute_form_step[OF False]
    have fits: "length q + 1 + length (name (obj cb)) < sz"
      using "1.prems"(5) by (simp add: step nm)
    from GetPath_child[OF "1.prems"(2) rb cb par "1.prems"(4) fits]
    have up: "resTree_GetPath X hub sz (Some r) (Some c) =
           Some (Inr (int (length (q @ CHR ''/'' # nextName path)),
                      Some (q @ CHR ''/'' # nextName path)))"
      by (simp only: nm)
    have fits': "length (q @ CHR ''/'' # nextName path) + length (absolute_form (afterName path)) < sz"
      using "1.prems"(5) by (simp add: step)
    have neg: "\<not> \<not> length (nextName path) < HUB_MAX_ENTRY_NAME_BYTES X"
      using short by simp
    have "resTree_GetPath X hub sz (Some r) (Some e) =
           Some (Inr (int (length ((q @ CHR ''/'' # nextName path) @ absolute_form (afterName path))),
                      Some ((q @ CHR ''/'' # nextName path) @ absolute_form (afterName path))))"
      by (rule "1.IH"[OF False ne neg fc refl nd _ "1.prems"(1,2) rest up fits']) simp
    then show ?thesis by (simp add: step)
  qed
qed

text \<open>
  C4, as the code has it. In a tree with consistent links, when \<open>resTree_FindEntry\<close> from
  the root finds an entry at a path, \<open>resTree_GetPath\<close> of that entry relative to the root
  returns, in any buffer that holds the result, the path in its absolute form: the path
  itself when it is empty or begins with a slash, and the path with a slash put in front
  otherwise.
\<close>

theorem find_path_roundtrip:
  assumes wf: "tree_linked hub"
      and root: "RootPtr hub = Some r"
      and found: "resTree_FindEntry X hub r path = Inr (Some e)"
      and fits: "length (if path = [] \<or> hd path = CHR ''/'' then path else CHR ''/'' # path)
                   < stringBuffSize"
  shows "resTree_GetPath X hub stringBuffSize (Some r) (Some e) =
           Some (Inr (int (length (if path = [] \<or> hd path = CHR ''/'' then path
                                   else CHR ''/'' # path)),
                      Some (if path = [] \<or> hd path = CHR ''/'' then path
                            else CHR ''/'' # path)))"
proof -
  have form: "absolute_form path
                = (if path = [] \<or> hd path = CHR ''/'' then path else CHR ''/'' # path)"
    by (cases path) (auto simp: absolute_form_def skipSlash_def)
  from found have loop: "FindEntry_loop X hub r path = Inr (Some e)"
    by (auto simp: resTree_FindEntry_def FindEntry_def split: if_splits)
  have self: "resTree_GetPath X hub stringBuffSize (Some r) (Some r)
                = Some (Inr (int (length ([]::string)), Some []))"
    using fits by (simp add: GetPath_self)
  have "length ([]::string) + length (absolute_form path) < stringBuffSize"
    using fits by (simp only: form list.size(3) add_0)
  from find_then_path[OF wf root loop self this]
  show ?thesis by (simp add: form)
qed

theorem find_path_roundtrip_witness:
  "tree_linked hub_obs_x \<and> RootPtr hub_obs_x = Some 0
   \<and> resTree_FindEntry recording hub_obs_x 0 ''/obs/x'' = Inr (Some 2)
   \<and> resTree_FindEntry recording hub_obs_x 0 ''obs'' = Inr (Some 1)
   \<and> resTree_GetPath recording hub_obs_x 80 (Some 0) (Some 2) = Some (Inr (6, Some ''/obs/x''))
   \<and> resTree_GetPath recording hub_obs_x 80 (Some 0) (Some 1) = Some (Inr (4, Some ''/obs''))"
proof -
  have w: "tree_linked hub_obs_x" by code_simp
  have r: "RootPtr hub_obs_x = Some 0" by (simp add: hub_obs_x_def)
  have f: "resTree_FindEntry recording hub_obs_x 0 ''/obs/x'' = Inr (Some 2)" by code_simp
  have g: "resTree_FindEntry recording hub_obs_x 0 ''obs'' = Inr (Some 1)" by code_simp
  have s: "length (if ''/obs/x'' = [] \<or> hd ''/obs/x'' = CHR ''/'' then ''/obs/x''
                   else CHR ''/'' # ''/obs/x'') < (80::nat)"
    by simp
  have t: "length (if ''obs'' = [] \<or> hd ''obs'' = CHR ''/'' then ''obs''
                   else CHR ''/'' # ''obs'') < (80::nat)"
    by simp
  from find_path_roundtrip[OF w r f s] find_path_roundtrip[OF w r g t] w r f g
  show ?thesis by simp
qed

text \<open>
  C4 as stated fails for a path without the leading slash: the entry found at \<open>obs/x\<close>
  from the root is rendered as \<open>/obs/x\<close>.
\<close>

theorem relative_path_roundtrip_counterexample:
  "resTree_FindEntry recording hub_obs_x 0 ''obs/x'' = Inr (Some 2)
   \<and> resTree_GetPath recording hub_obs_x 80 (Some 0) (Some 2) = Some (Inr (6, Some ''/obs/x''))
   \<and> ''/obs/x'' \<noteq> ''obs/x''"
  by code_simp

section \<open>The claims about creation\<close>

text \<open>
  How the tree with the zombie comes about, and that a zombie in the middle of a path is
  resurrected in place: its flags are \<open>RES_FLAG_NEW\<close> alone and the new child is its only
  child.
\<close>

lemma zombie_made:
  "bindO (resTree_GetEntry recording hub_init 0 ''a'')
     (\<lambda>(r, e, h). case resTree_ClearNewness h 1 of
         Inr (Some h1) \<Rightarrow> (case resTree_SetDeleted h1 1 of Inr h2 \<Rightarrow> ret h2 | Inl a \<Rightarrow> stop a)
       | Inr None \<Rightarrow> stop (UNDEFINED [])
       | Inl a \<Rightarrow> stop a) = ret hub_zombie"
  by code_simp

lemma zombie_resurrected_inside_path:
  "resTree_GetEntry recording hub_zombie 0 ''a/b'' = Some (Inr (LE_OK, Some 2, hub_resurrected))"
  by code_simp

text \<open>
  C3, where the code departs from it. With the zombie \<open>a\<close> under the root, the lookup of
  \<open>a\<close> finds nothing, and the creation that follows stops in
  \<open>LE_FATAL("Attempting to create anentry that already exists")\<close>: the fatal check of
  \<open>CreateEntry\<close> takes the zombie at the last segment for an existing entry before the
  branch that would resurrect it is reached.
\<close>

theorem zombie_at_last_segment_is_fatal:
  "resTree_FindEntry recording hub_zombie 0 ''a'' = Inr None
   \<and> resTree_GetEntry recording hub_zombie 0 ''a''
       = Some (Inl (LE_FATAL ''Attempting to create anentry that already exists''))
   \<and> resTree_GetResource recording hub_zombie 0 ''a''
       = Some (Inl (LE_FATAL ''Attempting to create anentry that already exists''))"
  by code_simp

subsection \<open>The pool under \<open>AddChild\<close> and under the release of a new entry\<close>

lemma blockAt_update:
  "blockAt (P[i := x]) j = (if i = j \<and> j < length P then x else blockAt P j)"
  by (auto simp: blockAt_def)

lemma blockAt_Some_length: "blockAt P p = Some b \<Longrightarrow> p < length P \<and> P ! p = Some b"
  by (auto simp: blockAt_def split: if_splits)

lemma IsDeleted_cong:
  "entryAt h1 c = entryAt h c \<Longrightarrow> resTree_IsDeleted h1 c = resTree_IsDeleted h c"
  by (simp add: resTree_IsDeleted_def)

lemma FindChildEx_loop_cong:
  "(\<And>c. c \<in> set links \<Longrightarrow> entryAt h1 c = entryAt h c) \<Longrightarrow>
     FindChildEx_loop X h1 links nm wz = FindChildEx_loop X h links nm wz"
proof (induction links)
  case Nil
  show ?case by simp
next
  case (Cons a links)
  have e: "entryAt h1 a = entryAt h a" using Cons.prems by simp
  have d: "resTree_IsDeleted h1 a = resTree_IsDeleted h a" by (rule IsDeleted_cong[OF e])
  have r: "FindChildEx_loop X h1 links nm wz = FindChildEx_loop X h links nm wz"
    using Cons by simp
  show ?case unfolding FindChildEx_loop.simps e d r by (rule refl)
qed

lemma pool_counted_block:
  assumes "pool_counted P" "blockAt P p = Some b"
  shows "0 < refCount b \<and> (\<forall>c\<in>set (childList (obj b)). blockAt P c \<noteq> None)"
proof -
  from blockAt_Some_length[OF assms(2)] have "Some b \<in> set P"
    by (metis nth_mem)
  with assms(1) show ?thesis
    by (auto simp: pool_counted_def list_all_iff)
qed

lemma AddChild_fresh:
  assumes alloc: "hub_MemAlloc (EntryPool h) = Some n"
      and cur: "entryAt h cur = Some cb"
      and notin: "n \<notin> set (childList (obj cb))"
      and none: "resTree_FindChildEx X h cur nm True = Inr None"
      and short: "length nm < HUB_MAX_ENTRY_NAME_BYTES X"
  shows "AddChild X h (Some cur) nm None
           = Inr (Some n, h\<lparr>EntryPool := pool_with_child (EntryPool h) cur n nm\<rparr>)"
proof -
  let ?P = "EntryPool h"
  let ?new0 = "\<lparr>refCount = 1,
                 obj = \<lparr>parentPtr = None, name = nm, childList = [],
                        type = ADMIN_ENTRY_TYPE_NAMESPACE, u = flags RES_FLAG_NEW\<rparr>\<rparr>"
  let ?h1 = "entry_put n (Some ?new0) h"
  from hub_MemAlloc_Some[OF alloc] have n: "n < length ?P" "?P ! n = None" by auto
  from cur have c: "cur < length ?P" "?P ! cur = Some cb" "blockAt ?P cur = Some cb"
    by (auto simp: entryAt_def blockAt_def split: if_splits)
  from n c have neq: "n \<noteq> cur" by auto
  have cur1: "entryAt ?h1 cur = Some cb"
    using c neq by (simp add: entryAt_def entry_put_def blockAt_update)
  have same: "entryAt ?h1 x = entryAt h x" if "x \<in> set (childList (obj cb))" for x
    using that notin by (auto simp: entryAt_def entry_put_def blockAt_update)
  have "FindChildEx_loop X ?h1 (childList (obj cb)) nm True
          = FindChildEx_loop X h (childList (obj cb)) nm True"
    by (rule FindChildEx_loop_cong) (rule same)
  with none cur cur1 have f1: "resTree_FindChildEx X ?h1 cur nm True = Inr None"
    by (simp add: resTree_FindChildEx_def)
  have link: "AddChild_link X ?h1 cur nm n
                = Inr (h\<lparr>EntryPool := pool_with_child ?P cur n nm\<rparr>)"
    using f1 cur1 c n neq
    by (simp add: AddChild_link_def Let_def entryAt_def entry_put_def blockAt_update
          pool_with_child_def list_update_swap[of n cur])
  show ?thesis
    using alloc short link by (simp add: AddChild_def Let_def)
qed

lemma release_decrement:
  "blockAt Q p = Some b \<Longrightarrow> 1 < refCount b \<Longrightarrow>
     le_mem_Release_Entry Q p = Some (Inr (Q[p := Some (b\<lparr>refCount := refCount b - 1\<rparr>)]))"
  by (subst le_mem_Release_Entry.simps) simp

lemma release_last:
  "blockAt Q p = Some b \<Longrightarrow> refCount b = 1 \<Longrightarrow> parentPtr (obj b) = Some par \<Longrightarrow>
   childList (obj b) = [] \<Longrightarrow> blockAt Q par = Some pb \<Longrightarrow>
     le_mem_Release_Entry Q p =
       Option.bind
         (le_mem_Release_Entry
            (Q[par := Some (pb\<lparr>obj := (obj pb)\<lparr>childList := remove1 p (childList (obj pb))\<rparr>\<rparr>)])
            par)
         (\<lambda>r. case r of Inl a \<Rightarrow> Some (Inl a) | Inr Q1 \<Rightarrow> Some (Inr (Q1[p := None])))"
  by (subst le_mem_Release_Entry.simps) simp

lemma release_fresh_child:
  assumes n: "n < length P" "P ! n = None"
      and cur: "blockAt P cur = Some cb"
      and rc: "0 < refCount cb"
      and notin: "n \<notin> set (childList (obj cb))"
  shows "le_mem_Release_Entry (pool_with_child P cur n nm) n = Some (Inr P)"
proof -
  from blockAt_Some_length[OF cur] have c: "cur < length P" "P ! cur = Some cb" by auto
  from n c have neq: "n \<noteq> cur" by auto
  let ?cb1 = "cb\<lparr>refCount := refCount cb + 1,
                 obj := (obj cb)\<lparr>childList := childList (obj cb) @ [n]\<rparr>\<rparr>"
  let ?new = "\<lparr>refCount = 1,
                obj = \<lparr>parentPtr = Some cur, name = nm, childList = [],
                       type = ADMIN_ENTRY_TYPE_NAMESPACE, u = flags RES_FLAG_NEW\<rparr>\<rparr>"
  let ?Q = "P[cur := Some ?cb1, n := Some ?new]"
  have Q: "pool_with_child P cur n nm = ?Q"
    using cur by (simp add: pool_with_child_def)
  let ?cb2 = "?cb1\<lparr>obj := (obj ?cb1)\<lparr>childList := remove1 n (childList (obj ?cb1))\<rparr>\<rparr>"
  let ?Q2 = "?Q[cur := Some ?cb2]"
  have bn: "blockAt ?Q n = Some ?new" using n by (simp add: blockAt_update)
  have bc: "blockAt ?Q cur = Some ?cb1" using c neq by (simp add: blockAt_update)
  have b2: "blockAt ?Q2 cur = Some ?cb2" using c by (simp add: blockAt_update)
  have above: "1 < refCount ?cb2" using rc by simp
  have dec: "le_mem_Release_Entry ?Q2 cur
               = Some (Inr (?Q2[cur := Some (?cb2\<lparr>refCount := refCount ?cb2 - 1\<rparr>)]))"
    by (rule release_decrement[OF b2 above])
  have restored: "?cb2\<lparr>refCount := refCount ?cb2 - 1\<rparr> = cb"
    using notin by (simp add: remove1_append)
  have unlink: "le_mem_Release_Entry ?Q n =
       Option.bind (le_mem_Release_Entry ?Q2 cur)
         (\<lambda>r. case r of Inl a \<Rightarrow> Some (Inl a) | Inr Q1 \<Rightarrow> Some (Inr (Q1[n := None])))"
    by (rule release_last[OF bn _ _ _ bc]) simp_all
  have "le_mem_Release_Entry ?Q n = Some (Inr ((?Q2[cur := Some cb])[n := None]))"
    by (simp only: unlink dec restored Option.bind.simps sum.case)
  moreover have "(?Q2[cur := Some cb])[n := None] = P"
    using n c neq by (intro nth_equalityI) (auto simp: nth_list_update)
  ultimately show ?thesis by (simp only: Q)
qed

lemma cleanup_step:
  assumes "blockAt Q tmp = Some b" "le_mem_Release_Entry Q tmp = Some (Inr Q1)"
  shows "CreateEntry_cleanup Q (Some tmp) f =
           (if tmp \<noteq> f then CreateEntry_cleanup Q1 (parentPtr (obj b)) f else Some (Inr Q1))"
  by (subst CreateEntry_cleanup.simps) (simp add: assms)

lemma cleanup_fresh_child:
  assumes n: "n < length P" "P ! n = None"
      and cur: "blockAt P cur = Some cb"
      and rc: "0 < refCount cb"
      and notin: "n \<notin> set (childList (obj cb))"
  shows "CreateEntry_cleanup (pool_with_child P cur n nm) (Some n) f =
           (if n \<noteq> f then CreateEntry_cleanup P (Some cur) f else Some (Inr P))"
proof -
  from blockAt_Some_length[OF cur] have c: "cur < length P" by auto
  have bn: "blockAt (pool_with_child P cur n nm) n
              = Some \<lparr>refCount = 1,
                       obj = \<lparr>parentPtr = Some cur, name = nm, childList = [],
                              type = ADMIN_ENTRY_TYPE_NAMESPACE, u = flags RES_FLAG_NEW\<rparr>\<rparr>"
    using cur n by (simp add: pool_with_child_def blockAt_update)
  from cleanup_step[OF bn release_fresh_child[OF n cur rc notin]]
  show ?thesis by simp
qed


lemma AddChild_alloc_failed:
  assumes "AddChild X h parent nm b = Inr (None, h1)"
  shows "b = None \<and> h1 = log_msg LOG_ERR ''Failed to allocate memory in AddChild'' h"
  using assms
  by (auto simp: AddChild_def Let_def bindA_def split: option.splits if_splits sum.splits)

lemma AddChild_resurrected:
  assumes "AddChild X h parent nm (Some c) = Inr (r, h1)"
  shows "r = Some c \<and> entryAt h c \<noteq> None"
  using assms
  by (auto simp: AddChild_def AddChild_resurrect_def bindA_def
           split: option.splits if_splits sum.splits)

lemma FindChildEx_used:
  assumes "resTree_FindChildEx X h cur nm wz = Inr (Some c)"
  shows "entryAt h c \<noteq> None"
proof -
  from assms obtain b where "entryAt h cur = Some b"
      and "FindChildEx_loop X h (childList (obj b)) nm wz = Inr (Some c)"
    by (auto simp: resTree_FindChildEx_def split: option.splits)
  from FindChildEx_loop_Some[OF this(2)] show ?thesis by auto
qed

lemma FindChildEx_leaf:
  "entryAt h cur = Some cb \<Longrightarrow> childList (obj cb) = [] \<Longrightarrow>
     resTree_FindChildEx X h cur nm wz = Inr None"
  by (simp add: resTree_FindChildEx_def)

text \<open>One round of the creation loop, read off its definition.\<close>

lemma CreateEntry_loop_round:
  assumes "CreateEntry_loop X h cur first path = Inr (Cleanup cur' first' h')"
  shows "path \<noteq> [] \<and> nextName path \<noteq> []
       \<and> \<not> \<not> length (nextName path) < HUB_MAX_ENTRY_NAME_BYTES X
       \<and> (\<exists>b ba. resTree_FindChildEx X h cur (nextName path) True = Inr b
            \<and> \<not> (b \<noteq> None \<and> afterName path = [])
            \<and> (case b of None \<Rightarrow> Inr True | Some x \<Rightarrow> resTree_IsDeleted h x) = Inr ba
            \<and> (if ba
                then (\<exists>x y. AddChild X h (Some cur) (nextName path) b = Inr (x, y)
                        \<and> (case x of
                              None \<Rightarrow>
                                cur' = cur \<and> first' = first
                                \<and> h' = log_msg LOG_ERR ''Failed to add child, path'' y
                            | Some x2 \<Rightarrow>
                                CreateEntry_loop X y x2
                                  (if first = None then Some x2 else first) (afterName path)
                                  = Inr (Cleanup cur' first' h')))
                else (\<exists>x2. b = Some x2
                        \<and> CreateEntry_loop X h x2 first (afterName path)
                            = Inr (Cleanup cur' first' h'))))"
  using assms
  by (subst (asm) CreateEntry_loop.simps)
     (auto split: if_splits sum.splits option.splits prod.splits)

lemma first_stays:
  assumes "CreateEntry_loop X h cur first path = Inr (Cleanup cur' first' h')"
      and "first \<noteq> None"
  shows "first' = first"
  using assms
proof (induction X h cur first path rule: CreateEntry_loop.induct)
  case (1 X hub currentEntry firstNewEntry path)
  from CreateEntry_loop_round[OF "1.prems"(1)] obtain b ba where
    r: "path \<noteq> []" "nextName path \<noteq> []"
       "\<not> \<not> length (nextName path) < HUB_MAX_ENTRY_NAME_BYTES X"
       "resTree_FindChildEx X hub currentEntry (nextName path) True = Inr b"
       "\<not> (b \<noteq> None \<and> afterName path = [])"
       "(case b of None \<Rightarrow> Inr True | Some x \<Rightarrow> resTree_IsDeleted hub x) = Inr ba"
    and rest: "if ba
                then (\<exists>x y. AddChild X hub (Some currentEntry) (nextName path) b = Inr (x, y)
                        \<and> (case x of
                              None \<Rightarrow>
                                cur' = currentEntry \<and> first' = firstNewEntry
                                \<and> h' = log_msg LOG_ERR ''Failed to add child, path'' y
                            | Some x2 \<Rightarrow>
                                CreateEntry_loop X y x2
                                  (if firstNewEntry = None then Some x2 else firstNewEntry)
                                  (afterName path)
                                  = Inr (Cleanup cur' first' h')))
                else (\<exists>x2. b = Some x2
                        \<and> CreateEntry_loop X hub x2 firstNewEntry (afterName path)
                            = Inr (Cleanup cur' first' h'))"
    by blast
  show ?case
  proof (cases ba)
    case True
    with rest obtain x y where
      add: "AddChild X hub (Some currentEntry) (nextName path) b = Inr (x, y)"
      and xcase: "case x of
                    None \<Rightarrow> cur' = currentEntry \<and> first' = firstNewEntry
                              \<and> h' = log_msg LOG_ERR ''Failed to add child, path'' y
                  | Some x2 \<Rightarrow>
                      CreateEntry_loop X y x2
                        (if firstNewEntry = None then Some x2 else firstNewEntry)
                        (afterName path) = Inr (Cleanup cur' first' h')"
      by auto
    show ?thesis
    proof (cases x)
      case None
      with xcase show ?thesis by simp
    next
      case (Some x2)
      with xcase have call: "CreateEntry_loop X y x2
                        (if firstNewEntry = None then Some x2 else firstNewEntry)
                        (afterName path) = Inr (Cleanup cur' first' h')" by simp
      from "1.IH"(1)[OF r(1,2,3,4,5,6) True add refl Some call] "1.prems"(2)
      show ?thesis by simp
    qed
  next
    case False
    with rest obtain x2 where b: "b = Some x2"
      and call: "CreateEntry_loop X hub x2 firstNewEntry (afterName path)
                   = Inr (Cleanup cur' first' h')"
      by auto
    from "1.IH"(2)[OF r(1,2,3,4,5,6) False b call "1.prems"(2)]
    show ?thesis .
  qed
qed


lemma AddChild_allocated:
  assumes "AddChild X h parent nm None = Inr (Some n, h1)"
  shows "hub_MemAlloc (EntryPool h) = Some n"
  using assms
  by (auto simp: AddChild_def Let_def bindA_def split: option.splits if_splits sum.splits)

lemma pool_with_child_new:
  assumes "n < length P" "blockAt P cur = Some cb" "n \<noteq> cur"
  shows "blockAt (pool_with_child P cur n nm) n
           = Some \<lparr>refCount = 1,
                   obj = \<lparr>parentPtr = Some cur, name = nm, childList = [],
                          type = ADMIN_ENTRY_TYPE_NAMESPACE, u = flags RES_FLAG_NEW\<rparr>\<rparr>"
  using assms by (simp add: pool_with_child_def blockAt_update)

lemma pool_with_child_used:
  assumes "blockAt P f \<noteq> None"
  shows "blockAt (pool_with_child P cur n nm) f \<noteq> None"
  using assms by (auto simp: pool_with_child_def blockAt_update split: option.splits)

text \<open>
  The cleanup after a failed creation gives back the pool as it was before the call,
  when the first new entry is a block that was free then.
\<close>

lemma cleanup_restores:
  assumes counted: "pool_counted P0"
      and run: "CreateEntry_loop X h cur first path = Inr (Cleanup cur' first' h')"
      and inv: "case first of
                  None \<Rightarrow> EntryPool h = P0 \<and> blockAt P0 cur \<noteq> None
                | Some f \<Rightarrow>
                    CreateEntry_cleanup (EntryPool h) (Some cur) f = Some (Inr P0)
                    \<and> blockAt (EntryPool h) f \<noteq> None
                    \<and> (\<exists>cb. blockAt (EntryPool h) cur = Some cb
                          \<and> childList (obj cb) = [] \<and> refCount cb = 1)"
      and fresh: "\<And>f. first' = Some f \<Longrightarrow> blockAt P0 f = None"
  shows "(case first' of
            None \<Rightarrow> EntryPool h' = P0
          | Some f \<Rightarrow> CreateEntry_cleanup (EntryPool h') (Some cur') f = Some (Inr P0))
       \<and> RootPtr h' = RootPtr h \<and> res h' = res h
       \<and> hub_log h' = hub_log h @ rollback_log"
  using run inv
proof (induction X h cur first path rule: CreateEntry_loop.induct)
  case (1 X hub currentEntry firstNewEntry path)
  note inv = "1.prems"(2)
  from CreateEntry_loop_round[OF "1.prems"(1)] obtain b ba where
    r: "path \<noteq> []" "nextName path \<noteq> []"
       "\<not> \<not> length (nextName path) < HUB_MAX_ENTRY_NAME_BYTES X"
       "resTree_FindChildEx X hub currentEntry (nextName path) True = Inr b"
       "\<not> (b \<noteq> None \<and> afterName path = [])"
       "(case b of None \<Rightarrow> Inr True | Some x \<Rightarrow> resTree_IsDeleted hub x) = Inr ba"
    and rest: "if ba
                then (\<exists>x y. AddChild X hub (Some currentEntry) (nextName path) b = Inr (x, y)
                        \<and> (case x of
                              None \<Rightarrow>
                                cur' = currentEntry \<and> first' = firstNewEntry
                                \<and> h' = log_msg LOG_ERR ''Failed to add child, path'' y
                            | Some x2 \<Rightarrow>
                                CreateEntry_loop X y x2
                                  (if firstNewEntry = None then Some x2 else firstNewEntry)
                                  (afterName path)
                                  = Inr (Cleanup cur' first' h')))
                else (\<exists>x2. b = Some x2
                        \<and> CreateEntry_loop X hub x2 firstNewEntry (afterName path)
                            = Inr (Cleanup cur' first' h'))"
    by blast
  have short: "length (nextName path) < HUB_MAX_ENTRY_NAME_BYTES X" using r(3) by simp
  have leaf_none: "b = None"
    if "firstNewEntry = Some f" for f
  proof -
    from inv that obtain cb where
      "blockAt (EntryPool hub) currentEntry = Some cb" "childList (obj cb) = []"
      by auto
    then have "resTree_FindChildEx X hub currentEntry (nextName path) True = Inr None"
      by (intro FindChildEx_leaf[where cb = cb]) (simp_all add: entryAt_def)
    with r(4) show ?thesis by simp
  qed
  show ?case
  proof (cases ba)
    case True
    with rest obtain x y where
      add: "AddChild X hub (Some currentEntry) (nextName path) b = Inr (x, y)"
      and xcase: "case x of
                    None \<Rightarrow> cur' = currentEntry \<and> first' = firstNewEntry
                              \<and> h' = log_msg LOG_ERR ''Failed to add child, path'' y
                  | Some x2 \<Rightarrow>
                      CreateEntry_loop X y x2
                        (if firstNewEntry = None then Some x2 else firstNewEntry)
                        (afterName path) = Inr (Cleanup cur' first' h')"
      by auto
    show ?thesis
    proof (cases x)
      case None
      from AddChild_alloc_failed[OF add[unfolded None]]
      have y: "y = log_msg LOG_ERR ''Failed to allocate memory in AddChild'' hub" by simp
      from xcase None have out: "cur' = currentEntry" "first' = firstNewEntry"
        "h' = log_msg LOG_ERR ''Failed to add child, path'' y" by simp_all
      have pool: "EntryPool h' = EntryPool hub"
        and others: "RootPtr h' = RootPtr hub" "res h' = res hub"
                    "hub_log h' = hub_log hub @ rollback_log"
        by (simp_all add: out y log_msg_def rollback_log_def)
      have "case first' of
              None \<Rightarrow> EntryPool h' = P0
            | Some f \<Rightarrow> CreateEntry_cleanup (EntryPool h') (Some cur') f = Some (Inr P0)"
        using inv by (cases firstNewEntry) (simp_all add: out(1,2) pool)
      with others show ?thesis by simp
    next
      case (Some x2)
      with xcase have call: "CreateEntry_loop X y x2
                        (if firstNewEntry = None then Some x2 else firstNewEntry)
                        (afterName path) = Inr (Cleanup cur' first' h')" by simp
      show ?thesis
      proof (cases b)
        case (Some c)
        from AddChild_resurrected[OF add[unfolded Some]] \<open>x = Some x2\<close>
        have c: "x2 = c" "entryAt hub c \<noteq> None" by simp_all
        show ?thesis
        proof (cases firstNewEntry)
          case None
          with call c have "CreateEntry_loop X y c (Some c) (afterName path)
                              = Inr (Cleanup cur' first' h')" by simp
          from first_stays[OF this] have "first' = Some c" by simp
          from fresh[OF this] have "blockAt P0 c = None" .
          moreover from inv None have "EntryPool hub = P0" by simp
          ultimately show ?thesis using c(2) by (simp add: entryAt_def)
        next
          case (Some f)
          from leaf_none[OF this] \<open>b = Some c\<close> show ?thesis by simp
        qed
      next
        case None
        from AddChild_allocated[OF add[unfolded None \<open>x = Some x2\<close>]]
        have alloc: "hub_MemAlloc (EntryPool hub) = Some x2" .
        from hub_MemAlloc_Some[OF alloc]
        have n: "x2 < length (EntryPool hub)" "EntryPool hub ! x2 = None" by auto
        then have nfree: "blockAt (EntryPool hub) x2 = None" by (simp add: blockAt_def)
        have none: "resTree_FindChildEx X hub currentEntry (nextName path) True = Inr None"
          using r(4) None by simp
        have "\<exists>cb. blockAt (EntryPool hub) currentEntry = Some cb \<and> 0 < refCount cb
                 \<and> x2 \<notin> set (childList (obj cb))"
        proof (cases firstNewEntry)
          case None
          with inv have p: "EntryPool hub = P0" and u: "blockAt P0 currentEntry \<noteq> None"
            by simp_all
          from u obtain cb where cb: "blockAt P0 currentEntry = Some cb" by auto
          from pool_counted_block[OF counted cb] nfree p
          have "0 < refCount cb" "x2 \<notin> set (childList (obj cb))" by auto
          with cb p show ?thesis by simp
        next
          case (Some f)
          with inv show ?thesis by auto
        qed
        then obtain cb where cb: "blockAt (EntryPool hub) currentEntry = Some cb"
          and pos: "0 < refCount cb" and notin: "x2 \<notin> set (childList (obj cb))"
          by blast
        have ecb: "entryAt hub currentEntry = Some cb" using cb by (simp add: entryAt_def)
        have neq: "x2 \<noteq> currentEntry" using cb nfree by auto
        from AddChild_fresh[OF alloc ecb notin none short] add None \<open>x = Some x2\<close>
        have y: "y = hub\<lparr>EntryPool :=
                          pool_with_child (EntryPool hub) currentEntry x2 (nextName path)\<rparr>"
          by simp
        let ?Q = "pool_with_child (EntryPool hub) currentEntry x2 (nextName path)"
        have py: "EntryPool y = ?Q" by (simp add: y)
        note step = cleanup_fresh_child[OF n cb pos notin, where nm = "nextName path"]
        note new = pool_with_child_new[OF n(1) cb neq, where nm = "nextName path"]
        have inv': "case (if firstNewEntry = None then Some x2 else firstNewEntry) of
                  None \<Rightarrow> EntryPool y = P0 \<and> blockAt P0 x2 \<noteq> None
                | Some f \<Rightarrow>
                    CreateEntry_cleanup (EntryPool y) (Some x2) f = Some (Inr P0)
                    \<and> blockAt (EntryPool y) f \<noteq> None
                    \<and> (\<exists>cb. blockAt (EntryPool y) x2 = Some cb
                          \<and> childList (obj cb) = [] \<and> refCount cb = 1)"
        proof (cases firstNewEntry)
          case None
          with inv have p: "EntryPool hub = P0" by simp
          from step[of x2] have "CreateEntry_cleanup ?Q (Some x2) x2 = Some (Inr P0)"
            by (simp add: p)
          with new show ?thesis by (simp add: None py)
        next
          case (Some f)
          with inv have
            old: "CreateEntry_cleanup (EntryPool hub) (Some currentEntry) f = Some (Inr P0)"
            and used: "blockAt (EntryPool hub) f \<noteq> None"
            by simp_all
          from used nfree have "x2 \<noteq> f" by auto
          with step[of f] old
          have "CreateEntry_cleanup ?Q (Some x2) f = Some (Inr P0)" by simp
          moreover from pool_with_child_used[OF used]
          have "blockAt ?Q f \<noteq> None" .
          ultimately show ?thesis using new by (simp add: Some py)
        qed
        from "1.IH"(1)[OF r(1,2,3,4,5,6) True add refl \<open>x = Some x2\<close> call inv']
        show ?thesis by (simp add: y)
      qed
    qed
  next
    case False
    with rest obtain x2 where b: "b = Some x2"
      and call: "CreateEntry_loop X hub x2 firstNewEntry (afterName path)
                   = Inr (Cleanup cur' first' h')"
      by auto
    show ?thesis
    proof (cases firstNewEntry)
      case None
      from FindChildEx_used[OF r(4)[unfolded b]] have "entryAt hub x2 \<noteq> None" .
      with inv None have inv': "case firstNewEntry of
                  None \<Rightarrow> EntryPool hub = P0 \<and> blockAt P0 x2 \<noteq> None
                | Some f \<Rightarrow>
                    CreateEntry_cleanup (EntryPool hub) (Some x2) f = Some (Inr P0)
                    \<and> blockAt (EntryPool hub) f \<noteq> None
                    \<and> (\<exists>cb. blockAt (EntryPool hub) x2 = Some cb
                          \<and> childList (obj cb) = [] \<and> refCount cb = 1)"
        by (auto simp: entryAt_def)
      from "1.IH"(2)[OF r(1,2,3,4,5,6) False b call inv'] show ?thesis .
    next
      case (Some f)
      from leaf_none[OF this] b show ?thesis by simp
    qed
  qed
qed

text \<open>
  The rollback when no zombie lies on the path. When the creation runs out of blocks and
  every entry it made is a block that was free before the call, \<open>resTree_GetEntry\<close>
  answers \<open>LE_NO_MEMORY\<close> and the cleanup has released the new entries from the deepest
  one up to the first: the pool, the root and the state of the Resource engine are what
  they were before the call, and the two error messages are in the log.
\<close>

lemma rollback_restores_fresh:
  assumes counted: "pool_counted (EntryPool hub)"
      and base: "entryAt hub baseNamespace \<noteq> None"
      and wellformed: "\<not> hub_IsResourcePathMalformed X path"
      and missing: "FindEntry X hub baseNamespace path = Inr None"
      and fails: "creation_fails_fresh X hub baseNamespace path"
  shows "resTree_GetEntry X hub baseNamespace path
           = Some (Inr (LE_NO_MEMORY, None, hub\<lparr>hub_log := hub_log hub @ rollback_log\<rparr>))"
proof -
  from fails obtain cur' first' h' where
    run: "CreateEntry_loop X hub baseNamespace None path = Inr (Cleanup cur' first' h')"
    and fresh: "\<And>f. first' = Some f \<Longrightarrow> blockAt (EntryPool hub) f = None"
    by (auto simp: creation_fails_fresh_def entryAt_def
             split: sum.splits CreateEntry_exit.splits option.splits)
  have inv: "case None of
                  None \<Rightarrow> EntryPool hub = EntryPool hub
                            \<and> blockAt (EntryPool hub) baseNamespace \<noteq> None
                | Some f \<Rightarrow>
                    CreateEntry_cleanup (EntryPool hub) (Some baseNamespace) f
                      = Some (Inr (EntryPool hub))
                    \<and> blockAt (EntryPool hub) f \<noteq> None
                    \<and> (\<exists>cb. blockAt (EntryPool hub) baseNamespace = Some cb
                          \<and> childList (obj cb) = [] \<and> refCount cb = 1)"
    using base by (simp add: entryAt_def)
  from cleanup_restores[OF counted run inv fresh]
  have pool: "case first' of
            None \<Rightarrow> EntryPool h' = EntryPool hub
          | Some f \<Rightarrow> CreateEntry_cleanup (EntryPool h') (Some cur') f
                        = Some (Inr (EntryPool hub))"
    and others: "RootPtr h' = RootPtr hub" "res h' = res hub"
                "hub_log h' = hub_log hub @ rollback_log"
    by simp_all
  have "CreateEntry X hub baseNamespace path
          = ret (None, hub\<lparr>hub_log := hub_log hub @ rollback_log\<rparr>)"
  proof (cases first')
    case None
    with pool others have "h' = hub\<lparr>hub_log := hub_log hub @ rollback_log\<rparr>" by simp
    with run None show ?thesis by (simp add: CreateEntry_def)
  next
    case (Some f)
    with pool others
    have "h'\<lparr>EntryPool := EntryPool hub\<rparr> = hub\<lparr>hub_log := hub_log hub @ rollback_log\<rparr>"
      by simp
    with run Some pool show ?thesis by (simp add: CreateEntry_def)
  qed
  with wellformed missing show ?thesis
    by (simp add: resTree_GetEntry_def ret_def)
qed


text \<open>How the chain comes about: one call on the tree with the root alone.\<close>

lemma chain_made:
  "resTree_GetEntry recording hub_init 0 ''p/q/r/s/t/u/v'' = Some (Inr (LE_OK, Some 7, hub_chain))"
  by code_simp

lemma rollback_restores_chain:
  "pool_counted (EntryPool hub_chain)
   \<and> entryAt hub_chain 0 \<noteq> None
   \<and> \<not> hub_IsResourcePathMalformed recording ''a/b/c''
   \<and> FindEntry recording hub_chain 0 ''a/b/c'' = Inr None
   \<and> creation_fails_fresh recording hub_chain 0 ''a/b/c''
   \<and> resTree_GetEntry recording hub_chain 0 ''a/b/c''
       = Some (Inr (LE_NO_MEMORY, None, hub_chain\<lparr>hub_log := hub_log hub_chain @ rollback_log\<rparr>))"
proof -
  have c: "pool_counted (EntryPool hub_chain)" by code_simp
  have b: "entryAt hub_chain 0 \<noteq> None" by code_simp
  have w: "\<not> hub_IsResourcePathMalformed recording ''a/b/c''" by code_simp
  have m: "FindEntry recording hub_chain 0 ''a/b/c'' = Inr None" by code_simp
  have f: "creation_fails_fresh recording hub_chain 0 ''a/b/c''" by code_simp
  from rollback_restores_fresh[OF c b w m f] c b w m f show ?thesis by blast
qed

text \<open>The full tree with the zombie comes about in the same way.\<close>

lemma zombie_full_made:
  "resTree_GetEntry recording hub_zombie 0 ''p/q/r/s/t/u/v''
     = Some (Inr (LE_OK, Some 8, hub_zombie_full))"
  by code_simp

text \<open>
  C2, where the code departs from it. With the zombie \<open>a\<close> under the root and one block
  left, the creation of \<open>a/b/c\<close> resurrects \<open>a\<close>, creates \<open>b\<close> and finds no block for \<open>c\<close>.
  \<open>AddChild\<close> takes no reference when it resurrects, but \<open>CreateEntry\<close> records the
  resurrected \<open>a\<close> as the first new entry, and the cleanup releases \<open>b\<close> and then \<open>a\<close>:
  \<open>resTree_GetEntry\<close> answers \<open>LE_NO_MEMORY\<close>, and the zombie that was in the tree before
  the call is gone from it, its block free and the count of the root one lower.
\<close>

theorem zombie_released_by_rollback:
  "entryAt hub_zombie_full 1
     = Some (entry_block 1 (Some 0) ''a'' [] ADMIN_ENTRY_TYPE_NAMESPACE (flags RES_FLAG_DELETED))
   \<and> resTree_GetEntry recording hub_zombie_full 0 ''a/b/c''
       = Some (Inr (LE_NO_MEMORY, None, hub_zombie_gone))
   \<and> entryAt hub_zombie_gone 1 = None
   \<and> resTree_FindChildEx recording hub_zombie_full 0 ''a'' True = Inr (Some 1)
   \<and> resTree_FindChildEx recording hub_zombie_gone 0 ''a'' True = Inr None"
  by code_simp

end
